theory Spec2Isabelle
  imports Main "HOL-Library.Word"
begin

section \<open>The cluster builder of the v1alpha3 configuration generator\<close>

text \<open>
  A shallow embedding of the CDS generator (package \<^verbatim>\<open>v1alpha3\<close>, \<^verbatim>\<open>BuildClusters\<close> and the
  functions it calls).  Go structs are records, Go enums and protobuf oneofs are datatypes,
  a pointer that may be nil is an \<open>option\<close>, a slice is a list (nil and the empty slice
  coincide), and a function that mutates the cluster it is handed returns the new cluster.
  Fixed-width integers are words: \<open>int32\<close> and \<open>int64\<close> fields are read signed
  (\<open>0 <s x\<close> for \<^verbatim>\<open>x > 0\<close>), conversions such as \<^verbatim>\<open>uint32(x)\<close> are \<open>ucast\<close> or
  \<open>word_of_int\<close>, and \<open>+\<close> wraps as it does in Go.

  Pointers that the code dereferences without a nil check on every path that reaches them
  (the mesh configuration and its connect timeout, the auto-mTLS wrapper, the proxy's sidecar
  scope, the port of a service, the service of an instance) are plain values.
  Calls of \<^verbatim>\<open>log.Errorf\<close> write nothing that the generator reads back and are left out.

  Functions of other packages are taken as they are called: the fields of the record
  \<open>Deps\<close>, of the environment and of the push context are the collaborators' functions,
  about which nothing is assumed unless a theorem says so.
\<close>

subsection \<open>Machine integers and small protobuf types\<close>

type_synonym uint32 = "32 word"
type_synonym int32 = "32 word"
type_synonym uint64 = "64 word"
type_synonym int64 = "64 word"

record Duration =
  Seconds :: int64
  Nanos :: int32

text \<open>\<^verbatim>\<open>gogo.DurationToProtoDuration\<close> copies seconds and nanoseconds between the two
  generated duration types, and maps nil to nil.\<close>

definition DurationToProtoDuration :: "Duration option \<Rightarrow> Duration option" where
  "DurationToProtoDuration d = d"

subsection \<open>The service model\<close>

datatype Protocol =
  GRPC | GRPCWeb | HTTP | HTTP2 | HTTPS | TCP | TLS | UDP | Mongo | Redis | MySQL | Unsupported

datatype TrafficDirection = TrafficDirectionInbound | TrafficDirectionOutbound

datatype Resolution = ClientSideLB | DNSLB | Passthrough

datatype NodeType = SidecarProxy | Ingress | Router

datatype RouterMode = StandardRouter | SniDnatRouter

datatype TrafficInterceptionMode = InterceptionNone | InterceptionTproxy | InterceptionRedirect

datatype AddressFamily = AddressFamilyTCP | AddressFamilyUnix

text \<open>A \<^verbatim>\<open>*model.Port\<close> used as a map key is compared by identity: a pointer is its
  identity together with the value it points to.\<close>

datatype 'a ptr = Ptr (ptrId: nat) (pointee: 'a)

type_synonym Labels = "(string \<times> string) list"

record Port =
  Name :: string
  Port :: int
  Protocol :: Protocol

record ServiceAttributes =
  ServiceRegistry :: string
  Name :: string
  Namespace :: string

record Service =
  Hostname :: string
  Resolution :: Resolution
  MeshExternal :: bool
  Ports :: "Port list"
  Attributes :: ServiceAttributes

record NetworkEndpoint =
  Family :: AddressFamily
  Address :: string
  Port :: int
  ServicePort :: "Port ptr"
  Network :: string
  Locality :: string
  LbWeight :: uint32
  UID :: string

record ServiceInstance =
  Endpoint :: NetworkEndpoint
  Service :: Service
  Labels :: Labels
  ServiceAccount :: string
  MTLSReady :: bool

subsection \<open>Traffic policies and destination rules\<close>

datatype SimpleLB = ROUND_ROBIN | LEAST_CONN | RANDOM | PASSTHROUGH

record ConsistentHashLB =
  MinimumRingSize :: uint64

text \<open>The load balancer is a protobuf oneof: unset, a simple algorithm, or a consistent
  hash (whose message pointer may itself be nil).\<close>

datatype LoadBalancerSettings_LbPolicy =
  LoadBalancerSettings_Simple SimpleLB
  | LoadBalancerSettings_ConsistentHash "ConsistentHashLB option"

record LoadBalancerSettings =
  LbPolicy :: "LoadBalancerSettings_LbPolicy option"

record TcpKeepalive =
  Probes :: uint32
  Time :: "Duration option"
  Interval :: "Duration option"

record TCPSettings =
  MaxConnections :: int32
  ConnectTimeout :: "Duration option"
  TcpKeepalive :: "TcpKeepalive option"

record HTTPSettings =
  Http1MaxPendingRequests :: int32
  Http2MaxRequests :: int32
  MaxRequestsPerConnection :: int32
  MaxRetries :: int32
  IdleTimeout :: "Duration option"

record ConnectionPoolSettings =
  Tcp :: "TCPSettings option"
  Http :: "HTTPSettings option"

record OutlierDetection =
  ConsecutiveErrors :: int32
  Interval :: "Duration option"
  BaseEjectionTime :: "Duration option"
  MaxEjectionPercent :: int32
  MinHealthPercent :: int32

datatype TLSmode = DISABLE | SIMPLE | MUTUAL | ISTIO_MUTUAL

record TLSSettings =
  Mode :: TLSmode
  ClientCertificate :: string
  PrivateKey :: string
  CaCertificates :: string
  SubjectAltNames :: "string list"
  Sni :: string

record PortSelector =
  Number :: uint32

record PortTrafficPolicy =
  Port :: "PortSelector option"
  LoadBalancer :: "LoadBalancerSettings option"
  ConnectionPool :: "ConnectionPoolSettings option"
  OutlierDetection :: "OutlierDetection option"
  Tls :: "TLSSettings option"

record TrafficPolicy =
  LoadBalancer :: "LoadBalancerSettings option"
  ConnectionPool :: "ConnectionPoolSettings option"
  OutlierDetection :: "OutlierDetection option"
  Tls :: "TLSSettings option"
  PortLevelSettings :: "PortTrafficPolicy list"

record Subset =
  Name :: string
  Labels :: Labels
  TrafficPolicy :: "TrafficPolicy option"

record DestinationRule =
  TrafficPolicy :: "TrafficPolicy option"
  Subsets :: "Subset list"

record ConfigMeta =
  Name :: string
  Namespace :: string
  ResourceVersion :: string

record Config =
  ConfigMeta :: ConfigMeta
  Spec :: DestinationRule

subsection \<open>Sidecar scope, proxy, mesh configuration\<close>

record IngressPort =
  Number :: uint32
  Protocol :: string
  Name :: string

record IstioIngressListener =
  Port :: IngressPort
  DefaultEndpoint :: string

record Sidecar =
  Ingress :: "IstioIngressListener list"

record SidecarConfig =
  ConfigMeta :: ConfigMeta
  Spec :: Sidecar

record SidecarScope =
  HasCustomIngressListeners :: bool
  Config :: SidecarConfig

record NodeMetadata =
  TLSClientRootCert :: string
  TLSClientCertChain :: string
  TLSClientKey :: string

text \<open>A \<^verbatim>\<open>*core.Locality\<close> is represented by the slash-delimited string that
  \<^verbatim>\<open>util.ConvertLocality\<close> parses.\<close>

datatype CoreLocality = ConvertLocality string

text \<open>The fields \<open>RouterMode\<close> and \<open>InterceptionMode\<close> hold what the methods
  \<^verbatim>\<open>GetRouterMode\<close> and \<^verbatim>\<open>GetInterceptionMode\<close> of the proxy return.\<close>

record Proxy =
  Type :: NodeType
  ID :: string
  IPAddresses :: "string list"
  Locality :: "CoreLocality option"
  SidecarScope :: SidecarScope
  Metadata :: NodeMetadata
  ServiceInstances :: "ServiceInstance list"
  RouterMode :: RouterMode
  InterceptionMode :: TrafficInterceptionMode

typedecl LocalityLoadBalancerSetting

record MeshConfig =
  OutboundClusterStatName :: string
  InboundClusterStatName :: string
  LocalityLbSetting :: "LocalityLoadBalancerSetting option"
  ConnectTimeout :: Duration
  DnsRefreshRate :: "Duration option"
  TcpKeepalive :: "TcpKeepalive option"
  SdsUdsPath :: string
  EnableAutoMtls :: bool

record Environment =
  Mesh :: MeshConfig
  InstancesByPort :: "Service \<Rightarrow> int \<Rightarrow> Labels list \<Rightarrow> string + ServiceInstance list"
  ManagementPorts :: "string \<Rightarrow> Port list"

text \<open>Modelled from the spec: the push-context event recorder, whose discipline is
  append-only events.  An event keeps the four arguments of \<^verbatim>\<open>push.Add\<close>.\<close>

datatype PushMetric = DuplicatedClusters

record PushEvent =
  Metric :: PushMetric
  Key :: string
  ProxyID :: string
  Message :: string

record PushContext =
  Services :: "Proxy \<Rightarrow> Service list"
  DestinationRule :: "Proxy \<Rightarrow> Service \<Rightarrow> Config option"
  ServiceAccounts :: "string \<Rightarrow> int \<Rightarrow> string list"
  Events :: "PushEvent list"

definition Add :: "PushMetric \<Rightarrow> string \<Rightarrow> Proxy \<Rightarrow> string \<Rightarrow> PushContext \<Rightarrow> PushContext" where
  "Add metric key proxy msg push =
     push\<lparr>Events := Events push @
       [\<lparr>Metric = metric, Key = key, ProxyID = ID proxy, Message = msg\<rparr>]\<rparr>"

subsection \<open>The emitted cluster\<close>

text \<open>Values built by helpers of other packages are kept as the helper applied to its
  arguments: \<open>BuildAddress\<close>, \<open>BuildLbEndpointMetadata\<close>, \<open>BuildConfigInfoMetadata\<close>
  and \<open>ConstructSdsSecretConfig\<close> are constructors.\<close>

datatype Address = BuildAddress string uint32

datatype LbEndpointMetadata = BuildLbEndpointMetadata string string bool

datatype CoreMetadata = BuildConfigInfoMetadata ConfigMeta

datatype SDSResourceName = SDSDefaultResourceName | SDSRootResourceName

datatype SdsSecretConfig = ConstructSdsSecretConfig SDSResourceName string NodeMetadata

record LbEndpoint =
  Address :: Address
  LoadBalancingWeight :: "uint32 option"
  Metadata :: "LbEndpointMetadata option"

record LocalityLbEndpoints =
  Locality :: "CoreLocality option"
  LbEndpoints :: "LbEndpoint list"
  LoadBalancingWeight :: "uint32 option"

record ClusterLoadAssignment =
  ClusterName :: string
  Endpoints :: "LocalityLbEndpoints list"

datatype Cluster_DiscoveryType =
  Cluster_STATIC | Cluster_STRICT_DNS | Cluster_LOGICAL_DNS | Cluster_EDS | Cluster_ORIGINAL_DST

text \<open>The discovery type is a oneof: a plain type or a custom cluster type.\<close>

datatype Cluster_ClusterDiscoveryType =
  Cluster_Type Cluster_DiscoveryType
  | Cluster_ClusterType string

datatype Cluster_LbPolicy =
  Cluster_ROUND_ROBIN | Cluster_LEAST_REQUEST | Cluster_RING_HASH | Cluster_RANDOM
  | Cluster_ORIGINAL_DST_LB | Cluster_MAGLEV | Cluster_CLUSTER_PROVIDED

datatype Cluster_DnsLookupFamily = Cluster_AUTO | Cluster_V4_ONLY | Cluster_V6_ONLY

datatype Cluster_ClusterProtocolSelection =
  Cluster_USE_CONFIGURED_PROTOCOL | Cluster_USE_DOWNSTREAM_PROTOCOL

datatype ConfigSourceSpecifier = ConfigSource_Ads

record ConfigSource =
  ConfigSourceSpecifier :: ConfigSourceSpecifier
  InitialFetchTimeout :: "Duration option"

record Cluster_EdsClusterConfig =
  ServiceName :: string
  EdsConfig :: ConfigSource

record CircuitBreakers_Thresholds =
  MaxConnections :: "uint32 option"
  MaxPendingRequests :: "uint32 option"
  MaxRequests :: "uint32 option"
  MaxRetries :: "uint32 option"

record CircuitBreakers =
  Thresholds :: "CircuitBreakers_Thresholds list"

record Cluster_OutlierDetection =
  BaseEjectionTime :: "Duration option"
  EnforcingConsecutiveGatewayFailure :: "uint32 option"
  EnforcingConsecutive_5Xx :: "uint32 option"
  ConsecutiveGatewayFailure :: "uint32 option"
  Interval :: "Duration option"
  MaxEjectionPercent :: "uint32 option"

datatype LocalityConfigSpecifier = LocalityWeightedLbConfig

text \<open>A percentage is the \<open>float64\<close> of an \<open>int32\<close>, which is exact: the integer stands
  for it.\<close>

datatype Percent = Percent int

record Cluster_CommonLbConfig =
  HealthyPanicThreshold :: "Percent option"
  LocalityConfigSpecifier :: "LocalityConfigSpecifier option"

record Http2ProtocolOptions =
  MaxConcurrentStreams :: "uint32 option"

record HttpProtocolOptions =
  IdleTimeout :: "Duration option"

record Core_TcpKeepalive =
  KeepaliveProbes :: "uint32 option"
  KeepaliveTime :: "uint32 option"
  KeepaliveInterval :: "uint32 option"

record UpstreamConnectionOptions =
  TcpKeepalive :: "Core_TcpKeepalive option"

datatype BindAddress = InboundPassthroughBindIpv4 | InboundPassthroughBindIpv6

record SocketAddress =
  Address :: BindAddress
  PortValue :: uint32

record BindConfig =
  SourceAddress :: SocketAddress

record Cluster_RingHashLbConfig =
  MinimumRingSize :: "uint64 option"

datatype DataSource = DataSource_Filename string

record CertificateValidationContext =
  TrustedCa :: "DataSource option"
  VerifySubjectAltName :: "string list"

record TlsCertificate =
  CertificateChain :: DataSource
  PrivateKey :: DataSource

record CombinedCertificateValidationContext =
  DefaultValidationContext :: CertificateValidationContext
  ValidationContextSdsSecretConfig :: SdsSecretConfig

datatype ValidationContextType =
  CommonTlsContext_ValidationContext CertificateValidationContext
  | CommonTlsContext_CombinedValidationContext CombinedCertificateValidationContext

datatype AlpnProtocols = ALPNH2Only | ALPNInMeshH2 | ALPNInMesh

record CommonTlsContext =
  ValidationContextType :: "ValidationContextType option"
  TlsCertificates :: "TlsCertificate list"
  TlsCertificateSdsSecretConfigs :: "SdsSecretConfig list"
  AlpnProtocols :: "AlpnProtocols option"

record UpstreamTlsContext =
  CommonTlsContext :: CommonTlsContext
  Sni :: string

text \<open>A marshalled message (\<^verbatim>\<open>any.Any\<close>): its type URL and its bytes.\<close>

record Any =
  TypeUrl :: string
  Value :: string

datatype SocketName = EnvoyRawBufferSocketName | EnvoyTLSSocketName

record TransportSocket =
  Name :: SocketName
  TypedConfig :: "Any option"

datatype StructKey = MTLSReadyLabelShortname

datatype StructValue = Value_StringValue string

record Cluster_TransportSocketMatch =
  Name :: string
  Match :: "(StructKey \<times> StructValue) list"
  TransportSocket :: TransportSocket

record Cluster =
  Name :: string
  AltStatName :: string
  ClusterDiscoveryType :: "Cluster_ClusterDiscoveryType option"
  EdsClusterConfig :: "Cluster_EdsClusterConfig option"
  ConnectTimeout :: "Duration option"
  LbPolicy :: Cluster_LbPolicy
  LoadAssignment :: "ClusterLoadAssignment option"
  MaxRequestsPerConnection :: "uint32 option"
  CircuitBreakers :: "CircuitBreakers option"
  TlsContext :: "UpstreamTlsContext option"
  CommonHttpProtocolOptions :: "HttpProtocolOptions option"
  Http2ProtocolOptions :: "Http2ProtocolOptions option"
  DnsRefreshRate :: "Duration option"
  RespectDnsTtl :: bool
  DnsLookupFamily :: Cluster_DnsLookupFamily
  OutlierDetection :: "Cluster_OutlierDetection option"
  UpstreamBindConfig :: "BindConfig option"
  CommonLbConfig :: "Cluster_CommonLbConfig option"
  LbConfig :: "Cluster_RingHashLbConfig option"
  Metadata :: "CoreMetadata option"
  ProtocolSelection :: Cluster_ClusterProtocolSelection
  UpstreamConnectionOptions :: "UpstreamConnectionOptions option"
  TransportSocketMatches :: "Cluster_TransportSocketMatch list"

text \<open>The zero value \<^verbatim>\<open>apiv2.Cluster{}\<close>.\<close>

definition zeroCluster :: Cluster where
  "zeroCluster =
     \<lparr>Cluster.Name = [], AltStatName = [], ClusterDiscoveryType = None, EdsClusterConfig = None,
      ConnectTimeout = None, LbPolicy = Cluster_ROUND_ROBIN, LoadAssignment = None,
      MaxRequestsPerConnection = None, CircuitBreakers = None, TlsContext = None,
      CommonHttpProtocolOptions = None, Http2ProtocolOptions = None, DnsRefreshRate = None,
      RespectDnsTtl = False, DnsLookupFamily = Cluster_AUTO, OutlierDetection = None,
      UpstreamBindConfig = None, CommonLbConfig = None, LbConfig = None, Metadata = None,
      ProtocolSelection = Cluster_USE_CONFIGURED_PROTOCOL, UpstreamConnectionOptions = None,
      TransportSocketMatches = []\<rparr>"

subsection \<open>Plugins, patches and the other collaborators\<close>

datatype EnvoyFilter_PatchContext =
  EnvoyFilter_SIDECAR_INBOUND | EnvoyFilter_SIDECAR_OUTBOUND | EnvoyFilter_GATEWAY

record InputParams =
  Env :: Environment
  Push :: PushContext
  Node :: Proxy
  ServiceInstance :: "ServiceInstance option"
  Service :: "Service option"
  Port :: "Port option"
  Bind :: string

record Plugin =
  OnOutboundCluster :: "InputParams \<Rightarrow> Cluster \<Rightarrow> Cluster"
  OnInboundCluster :: "InputParams \<Rightarrow> Cluster \<Rightarrow> Cluster"

record ConfigGeneratorImpl =
  Plugins :: "Plugin list"

text \<open>What the generator calls in other packages and reads from package-level variables:
  feature flags, the default key material paths, helpers of \<^verbatim>\<open>util\<close>, \<^verbatim>\<open>model\<close>,
  \<^verbatim>\<open>protocol\<close>, \<^verbatim>\<open>loadbalancer\<close>, \<^verbatim>\<open>envoyfilter\<close>, \<^verbatim>\<open>ptypes\<close> and \<^verbatim>\<open>strconv\<close>, and two
  helpers of the package that live in other files.\<close>

record Deps =
  EnableRedisFilter :: bool
  RespectDNSTTL :: bool
  FeatureInitialFetchTimeout :: "Duration option"
  DefaultRootCert :: string
  DefaultCertChain :: string
  DefaultKey :: string
  KubernetesRegistry :: string
  IsIstioVersionGE13 :: "Proxy \<Rightarrow> bool"
  GetNetworkView :: "Proxy \<Rightarrow> string \<Rightarrow> bool"
  GetLocality :: "ServiceInstance \<Rightarrow> string"
  IsHTTP2 :: "Protocol \<Rightarrow> bool"
  Parse :: "string \<Rightarrow> Protocol"
  Atoi :: "string \<Rightarrow> string + int"
  IsProtocolSniffingEnabledForInboundPort :: "Proxy \<Rightarrow> Port \<Rightarrow> bool"
  IsProtocolSniffingEnabledForOutboundPort :: "Proxy \<Rightarrow> Port \<Rightarrow> bool"
  ipv4AndIpv6Support :: "Proxy \<Rightarrow> bool \<times> bool"
  getActualWildcardAndLocalHost :: "Proxy \<Rightarrow> string \<times> string"
  LocalityLbWeightNormalize :: "LocalityLbEndpoints list \<Rightarrow> LocalityLbEndpoints list"
  ApplyLocalityLBSetting ::
    "CoreLocality \<Rightarrow> ClusterLoadAssignment \<Rightarrow> LocalityLoadBalancerSetting \<Rightarrow> bool
       \<Rightarrow> ClusterLoadAssignment"
  ApplyClusterPatches ::
    "EnvoyFilter_PatchContext \<Rightarrow> Proxy \<Rightarrow> PushContext \<Rightarrow> Cluster list \<Rightarrow> Cluster list"
  MarshalAny :: "UpstreamTlsContext option \<Rightarrow> string + Any"

subsection \<open>Strings and cluster names\<close>

definition HasPrefix :: "string \<Rightarrow> string \<Rightarrow> bool" where
  "HasPrefix s prefix = (take (length prefix) s = prefix)"



text \<open>\<^verbatim>\<open>strings.ReplaceAll\<close>: non-overlapping occurrences, from the left.  The branch for
  an empty pattern works on bytes; the generator only passes its five non-empty patterns.\<close>

function ReplaceAll :: "string \<Rightarrow> string \<Rightarrow> string \<Rightarrow> string" where
  "ReplaceAll s old new =
     (if old = [] then new @ concat (map (\<lambda>c. c # new) s)
      else if s = [] then []
      else if HasPrefix s old then new @ ReplaceAll (drop (length old) s) old new
      else hd s # ReplaceAll (tl s) old new)"
  by pat_completeness auto
termination
  by (relation "measure (\<lambda>(s, old, new). length s)") auto

declare ReplaceAll.simps [simp del]

text \<open>\<^verbatim>\<open>strconv.Itoa\<close> and the \<^verbatim>\<open>%d\<close> verb: decimal digits, with a minus sign below zero.\<close>

function digits :: "nat \<Rightarrow> string" where
  "digits n =
     (if n < 10 then [char_of (48 + n)] else digits (n div 10) @ [char_of (48 + n mod 10)])"
  by pat_completeness auto
termination
  by (relation "measure id") auto

declare digits.simps [simp del]

definition Itoa :: "int \<Rightarrow> string" where
  "Itoa i = (if i < 0 then CHR ''-'' # digits (nat (- i)) else digits (nat i))"

text \<open>Modelled from the spec: \<^verbatim>\<open>model.BuildSubsetKey\<close> and
  \<^verbatim>\<open>model.BuildDNSSrvSubsetKey\<close> are not in the sources; the spec gives the two wire-exact
  forms \<^verbatim>\<open><direction>|<port>|<subsetName>|<hostname>\<close> and
  \<^verbatim>\<open><direction>_.<port>_.<subsetName>_.<hostname>\<close>, with directions \<^verbatim>\<open>outbound\<close> and
  \<^verbatim>\<open>inbound\<close>.\<close>

fun directionString :: "TrafficDirection \<Rightarrow> string" where
  "directionString TrafficDirectionInbound = ''inbound''"
| "directionString TrafficDirectionOutbound = ''outbound''"

definition BuildSubsetKey :: "TrafficDirection \<Rightarrow> string \<Rightarrow> string \<Rightarrow> int \<Rightarrow> string" where
  "BuildSubsetKey direction subsetName hostname port =
     directionString direction @ ''|'' @ Itoa port @ ''|'' @ subsetName @ ''|'' @ hostname"

definition BuildDNSSrvSubsetKey :: "TrafficDirection \<Rightarrow> string \<Rightarrow> string \<Rightarrow> int \<Rightarrow> string" where
  "BuildDNSSrvSubsetKey direction subsetName hostname port =
     directionString direction @ ''_.'' @ Itoa port @ ''_.'' @ subsetName @ ''_.'' @ hostname"

text \<open>Modelled from the spec: the well-known names of \<^verbatim>\<open>util\<close> and the prefix of a
  Unix-domain-socket address of \<^verbatim>\<open>model\<close>, which the spec lists.\<close>

definition BlackHoleCluster :: string where
  "BlackHoleCluster = ''BlackHoleCluster''"

definition PassthroughCluster :: string where
  "PassthroughCluster = ''PassthroughCluster''"




definition ManagementClusterHostname :: string where
  "ManagementClusterHostname = ''mgmtCluster''"

definition serviceStatPattern :: string where
  "serviceStatPattern = ''%SERVICE%''"

definition serviceFQDNStatPattern :: string where
  "serviceFQDNStatPattern = ''%SERVICE_FQDN%''"

definition servicePortStatPattern :: string where
  "servicePortStatPattern = ''%SERVICE_PORT%''"

definition servicePortNameStatPattern :: string where
  "servicePortNameStatPattern = ''%SERVICE_PORT_NAME%''"

definition subsetNameStatPattern :: string where
  "subsetNameStatPattern = ''%SUBSET_NAME%''"

definition shortHostName :: "Deps \<Rightarrow> string \<Rightarrow> ServiceAttributes \<Rightarrow> string" where
  "shortHostName d host attributes =
     (if ServiceRegistry attributes = KubernetesRegistry d
      then ServiceAttributes.Name attributes @ ''.'' @ ServiceAttributes.Namespace attributes
      else host)"

definition altStatName ::
  "Deps \<Rightarrow> string \<Rightarrow> string \<Rightarrow> string \<Rightarrow> Port \<Rightarrow> ServiceAttributes \<Rightarrow> string" where
  "altStatName d statPattern host subsetName port attributes =
     (let name = ReplaceAll statPattern serviceStatPattern (shortHostName d host attributes);
          name = ReplaceAll name serviceFQDNStatPattern host;
          name = ReplaceAll name subsetNameStatPattern subsetName;
          name = ReplaceAll name servicePortStatPattern (Itoa (Port.Port port));
          name = ReplaceAll name servicePortNameStatPattern (Port.Name port)
      in name)"

subsection \<open>Normalisation of duplicate names\<close>

text \<open>The loop of \<^verbatim>\<open>normalizeClusters\<close>: \<open>have\<close> is the map of names seen so far (a missing
  key reads \<open>False\<close>), \<open>out\<close> the clusters kept, and the push context collects one event per
  cluster that is dropped.\<close>

definition duplicateMessage :: "string \<Rightarrow> string" where
  "duplicateMessage name = ''Duplicate cluster '' @ name @ '' found while pushing CDS''"

fun normalizeLoop ::
  "Proxy \<Rightarrow> Cluster list \<Rightarrow> (string \<Rightarrow> bool) \<Rightarrow> Cluster list \<Rightarrow> PushContext
     \<Rightarrow> Cluster list \<times> PushContext" where
  "normalizeLoop proxy [] have out push = (out, push)"
| "normalizeLoop proxy (cluster # clusters) have out push =
     (if \<not> have (Cluster.Name cluster)
      then normalizeLoop proxy clusters (have(Cluster.Name cluster := True)) (out @ [cluster]) push
      else normalizeLoop proxy clusters (have(Cluster.Name cluster := True)) out
             (Add DuplicatedClusters (Cluster.Name cluster) proxy
                (duplicateMessage (Cluster.Name cluster)) push))"

definition normalizeClusters ::
  "PushContext \<Rightarrow> Proxy \<Rightarrow> Cluster list \<Rightarrow> Cluster list \<times> PushContext" where
  "normalizeClusters push proxy clusters = normalizeLoop proxy clusters (\<lambda>_. False) [] push"

subsection \<open>Traffic-policy resolver\<close>

type_synonym facets =
  "ConnectionPoolSettings option \<times> OutlierDetection option \<times> LoadBalancerSettings option
     \<times> TLSSettings option"

text \<open>The loop over \<^verbatim>\<open>policy.PortLevelSettings\<close>, with its flag \<open>foundPort\<close> and the four
  local variables as the accumulator; the \<^verbatim>\<open>break\<close> ends the recursion.\<close>

fun portLevelLoop :: "Port \<Rightarrow> PortTrafficPolicy list \<Rightarrow> bool \<Rightarrow> facets \<Rightarrow> facets" where
  "portLevelLoop port [] foundPort acc = acc"
| "portLevelLoop port (p # ps) foundPort acc =
     (let foundPort =
            (case PortTrafficPolicy.Port p of
               None \<Rightarrow> foundPort
             | Some sel \<Rightarrow>
                 if (word_of_int (Port.Port port) :: uint32) = PortSelector.Number sel then True
                 else foundPort)
      in if foundPort
         then (PortTrafficPolicy.ConnectionPool p, PortTrafficPolicy.OutlierDetection p,
               PortTrafficPolicy.LoadBalancer p, PortTrafficPolicy.Tls p)
         else portLevelLoop port ps foundPort acc)"

definition SelectTrafficPolicyComponents :: "TrafficPolicy option \<Rightarrow> Port option \<Rightarrow> facets" where
  "SelectTrafficPolicyComponents policy port =
     (case policy of
        None \<Rightarrow> (None, None, None, None)
      | Some pol \<Rightarrow>
          (let root = (TrafficPolicy.ConnectionPool pol, TrafficPolicy.OutlierDetection pol,
                       TrafficPolicy.LoadBalancer pol, TrafficPolicy.Tls pol)
           in case port of
                None \<Rightarrow> root
              | Some pt \<Rightarrow>
                  if length (PortLevelSettings pol) > 0
                  then portLevelLoop pt (PortLevelSettings pol) False root
                  else root))"

subsection \<open>Connection tuning\<close>

definition defaultInboundCircuitBreakerThresholds :: CircuitBreakers_Thresholds where
  "defaultInboundCircuitBreakerThresholds =
     \<lparr>MaxConnections = None, MaxPendingRequests = None, MaxRequests = None, MaxRetries = None\<rparr>"

definition defaultOutboundCircuitBreakerThresholds :: CircuitBreakers_Thresholds where
  "defaultOutboundCircuitBreakerThresholds =
     \<lparr>MaxConnections = None, MaxPendingRequests = None, MaxRequests = None,
      MaxRetries = Some 1024\<rparr>"

definition getDefaultCircuitBreakerThresholds :: "TrafficDirection \<Rightarrow> CircuitBreakers_Thresholds" where
  "getDefaultCircuitBreakerThresholds direction =
     (if direction = TrafficDirectionInbound then defaultInboundCircuitBreakerThresholds
      else defaultOutboundCircuitBreakerThresholds)"

definition lbPolicyClusterProvided :: "Deps \<Rightarrow> Proxy \<Rightarrow> Cluster_LbPolicy" where
  "lbPolicyClusterProvided d proxy =
     (if IsIstioVersionGE13 d proxy then Cluster_CLUSTER_PROVIDED else Cluster_ORIGINAL_DST_LB)"

text \<open>\<^verbatim>\<open>applyTCPKeepalive\<close> is only called with \<^verbatim>\<open>settings.Tcp\<close> set; the TCP settings are
  its third argument here.\<close>

definition applyTCPKeepalive :: "Environment \<Rightarrow> Cluster \<Rightarrow> TCPSettings \<Rightarrow> Cluster" where
  "applyTCPKeepalive env cluster tcp =
     (let (keepaliveProbes, keepaliveTime, keepaliveInterval, isTCPKeepaliveSet) =
            (case MeshConfig.TcpKeepalive (Mesh env) of
               None \<Rightarrow> (0, None, None, False)
             | Some k \<Rightarrow> (Probes k, Time k, TcpKeepalive.Interval k, True));
          (keepaliveProbes, keepaliveTime, keepaliveInterval, isTCPKeepaliveSet) =
            (case TCPSettings.TcpKeepalive tcp of
               None \<Rightarrow> (keepaliveProbes, keepaliveTime, keepaliveInterval, isTCPKeepaliveSet)
             | Some k \<Rightarrow> (Probes k, Time k, TcpKeepalive.Interval k, True))
      in if \<not> isTCPKeepaliveSet then cluster
         else
           cluster\<lparr>UpstreamConnectionOptions :=
             Some \<lparr>UpstreamConnectionOptions.TcpKeepalive =
               Some \<lparr>KeepaliveProbes = (if 0 < keepaliveProbes then Some keepaliveProbes else None),
                     KeepaliveTime = map_option (\<lambda>t. ucast (Seconds t)) keepaliveTime,
                     KeepaliveInterval = map_option (\<lambda>t. ucast (Seconds t)) keepaliveInterval\<rparr>\<rparr>\<rparr>)"

definition applyConnectionPool ::
  "Environment \<Rightarrow> Cluster \<Rightarrow> ConnectionPoolSettings option \<Rightarrow> TrafficDirection \<Rightarrow> Cluster" where
  "applyConnectionPool env cluster settingsOpt direction =
     (case settingsOpt of
        None \<Rightarrow> cluster
      | Some settings \<Rightarrow>
          (let threshold = getDefaultCircuitBreakerThresholds direction;
               (threshold, cluster, idleTimeout) =
                 (case Http settings of
                    None \<Rightarrow> (threshold, cluster, None)
                  | Some http \<Rightarrow>
                      (let threshold =
                             (if 0 <s Http2MaxRequests http
                              then threshold\<lparr>MaxRequests := Some (Http2MaxRequests http)\<rparr>
                              else threshold);
                           threshold =
                             (if 0 <s Http1MaxPendingRequests http
                              then threshold\<lparr>MaxPendingRequests := Some (Http1MaxPendingRequests http)\<rparr>
                              else threshold);
                           cluster =
                             (if 0 <s HTTPSettings.MaxRequestsPerConnection http
                              then cluster\<lparr>MaxRequestsPerConnection :=
                                     Some (HTTPSettings.MaxRequestsPerConnection http)\<rparr>
                              else cluster);
                           threshold =
                             (if 0 <s HTTPSettings.MaxRetries http
                              then threshold\<lparr>MaxRetries := Some (HTTPSettings.MaxRetries http)\<rparr>
                              else threshold)
                       in (threshold, cluster, HTTPSettings.IdleTimeout http)));
               (threshold, cluster) =
                 (case Tcp settings of
                    None \<Rightarrow> (threshold, cluster)
                  | Some tcp \<Rightarrow>
                      (let cluster =
                             (if TCPSettings.ConnectTimeout tcp \<noteq> None
                              then cluster\<lparr>ConnectTimeout :=
                                     DurationToProtoDuration (TCPSettings.ConnectTimeout tcp)\<rparr>
                              else cluster);
                           threshold =
                             (if 0 <s TCPSettings.MaxConnections tcp
                              then threshold\<lparr>MaxConnections := Some (TCPSettings.MaxConnections tcp)\<rparr>
                              else threshold)
                       in (threshold, applyTCPKeepalive env cluster tcp)));
               cluster = cluster\<lparr>CircuitBreakers := Some \<lparr>Thresholds = [threshold]\<rparr>\<rparr>
           in if idleTimeout \<noteq> None
              then cluster\<lparr>CommonHttpProtocolOptions :=
                     Some \<lparr>HttpProtocolOptions.IdleTimeout = DurationToProtoDuration idleTimeout\<rparr>\<rparr>
              else cluster))"

definition emptyCommonLbConfig :: Cluster_CommonLbConfig where
  "emptyCommonLbConfig = \<lparr>HealthyPanicThreshold = None, LocalityConfigSpecifier = None\<rparr>"

definition applyOutlierDetection :: "Cluster \<Rightarrow> OutlierDetection option \<Rightarrow> Cluster" where
  "applyOutlierDetection cluster outlierOpt =
     (case outlierOpt of
        None \<Rightarrow> cluster
      | Some outlier \<Rightarrow>
          (let out =
                 \<lparr>Cluster_OutlierDetection.BaseEjectionTime =
                    (if OutlierDetection.BaseEjectionTime outlier \<noteq> None
                     then DurationToProtoDuration (OutlierDetection.BaseEjectionTime outlier)
                     else None),
                  EnforcingConsecutiveGatewayFailure =
                    (if 0 <s ConsecutiveErrors outlier then Some 100 else None),
                  EnforcingConsecutive_5Xx =
                    (if 0 <s ConsecutiveErrors outlier then Some 0 else None),
                  ConsecutiveGatewayFailure =
                    (if 0 <s ConsecutiveErrors outlier then Some (ConsecutiveErrors outlier)
                     else None),
                  Cluster_OutlierDetection.Interval =
                    (if OutlierDetection.Interval outlier \<noteq> None
                     then DurationToProtoDuration (OutlierDetection.Interval outlier)
                     else None),
                  Cluster_OutlierDetection.MaxEjectionPercent =
                    (if 0 <s OutlierDetection.MaxEjectionPercent outlier
                     then Some (OutlierDetection.MaxEjectionPercent outlier)
                     else None)\<rparr>;
               cluster = cluster\<lparr>Cluster.OutlierDetection := Some out\<rparr>
           in if 0 \<le>s MinHealthPercent outlier
              then
                (let common =
                       (case CommonLbConfig cluster of
                          None \<Rightarrow> emptyCommonLbConfig
                        | Some common \<Rightarrow> common)
                 in cluster\<lparr>CommonLbConfig :=
                      Some (common\<lparr>HealthyPanicThreshold :=
                              Some (Percent (sint (MinHealthPercent outlier)))\<rparr>)\<rparr>)
              else cluster))"

definition GetSimple :: "LoadBalancerSettings \<Rightarrow> SimpleLB" where
  "GetSimple lb =
     (case LoadBalancerSettings.LbPolicy lb of
        Some (LoadBalancerSettings_Simple x) \<Rightarrow> x
      | _ \<Rightarrow> ROUND_ROBIN)"

definition GetConsistentHash :: "LoadBalancerSettings \<Rightarrow> ConsistentHashLB option" where
  "GetConsistentHash lb =
     (case LoadBalancerSettings.LbPolicy lb of
        Some (LoadBalancerSettings_ConsistentHash x) \<Rightarrow> x
      | _ \<Rightarrow> None)"

definition applyLoadBalancer ::
  "Deps \<Rightarrow> Cluster \<Rightarrow> LoadBalancerSettings option \<Rightarrow> Port option \<Rightarrow> Proxy \<Rightarrow> Cluster" where
  "applyLoadBalancer d cluster lbOpt port proxy =
     (let cluster =
            (if Cluster.OutlierDetection cluster \<noteq> None
             then
               (let common =
                      (case CommonLbConfig cluster of
                         None \<Rightarrow> emptyCommonLbConfig
                       | Some common \<Rightarrow> common)
                in cluster\<lparr>CommonLbConfig :=
                     Some (common\<lparr>LocalityConfigSpecifier := Some LocalityWeightedLbConfig\<rparr>)\<rparr>)
             else cluster)
      in case lbOpt of
           None \<Rightarrow> cluster
         | Some lb \<Rightarrow>
             if ClusterDiscoveryType cluster = Some (Cluster_Type Cluster_ORIGINAL_DST)
             then cluster\<lparr>Cluster.LbPolicy := lbPolicyClusterProvided d proxy\<rparr>
             else if EnableRedisFilter d \<and> port \<noteq> None
                       \<and> map_option Port.Protocol port = Some Redis
             then cluster\<lparr>Cluster.LbPolicy := Cluster_MAGLEV\<rparr>
             else
               (let cluster =
                      (case GetSimple lb of
                         LEAST_CONN \<Rightarrow> cluster\<lparr>Cluster.LbPolicy := Cluster_LEAST_REQUEST\<rparr>
                       | RANDOM \<Rightarrow> cluster\<lparr>Cluster.LbPolicy := Cluster_RANDOM\<rparr>
                       | ROUND_ROBIN \<Rightarrow> cluster\<lparr>Cluster.LbPolicy := Cluster_ROUND_ROBIN\<rparr>
                       | PASSTHROUGH \<Rightarrow>
                           cluster\<lparr>Cluster.LbPolicy := lbPolicyClusterProvided d proxy,
                                   ClusterDiscoveryType := Some (Cluster_Type Cluster_ORIGINAL_DST)\<rparr>)
                in case GetConsistentHash lb of
                     None \<Rightarrow> cluster
                   | Some consistentHash \<Rightarrow>
                       cluster\<lparr>Cluster.LbPolicy := Cluster_RING_HASH,
                               LbConfig :=
                                 Some \<lparr>Cluster_RingHashLbConfig.MinimumRingSize =
                                   Some (if ConsistentHashLB.MinimumRingSize consistentHash \<noteq> 0
                                         then ConsistentHashLB.MinimumRingSize consistentHash
                                         else 1024)\<rparr>\<rparr>))"


subsection \<open>TLS materializer\<close>

datatype mtlsContextType = userSupplied | autoDetected

text \<open>\<^verbatim>\<open>model.GetOrDefault\<close>: the first string unless it is empty.\<close>

definition GetOrDefault :: "string \<Rightarrow> string \<Rightarrow> string" where
  "GetOrDefault s def = (if length s > 0 then s else def)"

definition buildIstioMutualTLS :: "Deps \<Rightarrow> string list \<Rightarrow> string \<Rightarrow> Proxy \<Rightarrow> TLSSettings" where
  "buildIstioMutualTLS d serviceAccounts sni proxy =
     \<lparr>Mode = ISTIO_MUTUAL,
      ClientCertificate =
        GetOrDefault (TLSClientCertChain (Proxy.Metadata proxy)) (DefaultCertChain d),
      TLSSettings.PrivateKey = GetOrDefault (TLSClientKey (Proxy.Metadata proxy)) (DefaultKey d),
      CaCertificates = GetOrDefault (TLSClientRootCert (Proxy.Metadata proxy)) (DefaultRootCert d),
      SubjectAltNames = serviceAccounts,
      TLSSettings.Sni = sni\<rparr>"

text \<open>The zero value \<^verbatim>\<open>&networking.TLSSettings{Mode: ISTIO_MUTUAL}\<close> that stands for an
  absent intent when auto-mTLS applies.\<close>

definition autoTLSSettings :: TLSSettings where
  "autoTLSSettings =
     \<lparr>Mode = ISTIO_MUTUAL, ClientCertificate = [], TLSSettings.PrivateKey = [],
      CaCertificates = [], SubjectAltNames = [], TLSSettings.Sni = []\<rparr>"

definition conditionallyConvertToIstioMtls ::
  "Deps \<Rightarrow> TLSSettings option \<Rightarrow> string list \<Rightarrow> string \<Rightarrow> Proxy \<Rightarrow> bool \<Rightarrow> bool
     \<Rightarrow> TLSSettings option \<times> mtlsContextType" where
  "conditionallyConvertToIstioMtls d tlsOpt serviceAccounts sni proxy autoMTLSEnabled meshExternal =
     (if tlsOpt = None \<and> (meshExternal \<or> \<not> autoMTLSEnabled) then (None, userSupplied)
      else
        (let (tls, mtlsCtx) =
               (case tlsOpt of
                  None \<Rightarrow> (autoTLSSettings, autoDetected)
                | Some tls \<Rightarrow> (tls, userSupplied))
         in if Mode tls = ISTIO_MUTUAL
            then
              (let sniToUse = (if length (TLSSettings.Sni tls) = 0 then sni else TLSSettings.Sni tls);
                   subjectAltNamesToUse =
                     (if length (SubjectAltNames tls) = 0 then serviceAccounts
                      else SubjectAltNames tls)
               in (Some (buildIstioMutualTLS d subjectAltNamesToUse sniToUse proxy), mtlsCtx))
            else (Some tls, mtlsCtx)))"

text \<open>The last block of \<^verbatim>\<open>applyUpstreamTLSSettings\<close>: an auto-detected mesh-mutual context
  is marshalled into the first of two transport-socket matches; whatever the marshaller
  answers, the cluster's own TLS context is cleared first.\<close>

definition plaintextTransportSocketMatch :: Cluster_TransportSocketMatch where
  "plaintextTransportSocketMatch =
     \<lparr>Cluster_TransportSocketMatch.Name = ''plaintext'', Match = [],
      TransportSocket =
        \<lparr>TransportSocket.Name = EnvoyRawBufferSocketName, TypedConfig = None\<rparr>\<rparr>"

definition convertToTransportSocketMatch ::
  "Deps \<Rightarrow> Cluster \<Rightarrow> TLSSettings \<Rightarrow> mtlsContextType \<Rightarrow> Cluster" where
  "convertToTransportSocketMatch d cluster tls mtlsCtxType =
     (if Mode tls = ISTIO_MUTUAL \<and> mtlsCtxType = autoDetected
      then
        (case MarshalAny d (TlsContext cluster) of
           Inl err \<Rightarrow> cluster\<lparr>TlsContext := None\<rparr>
         | Inr tlsContext \<Rightarrow>
             cluster\<lparr>TlsContext := None,
                     TransportSocketMatches :=
                       [\<lparr>Cluster_TransportSocketMatch.Name = ''mtls'',
                         Match = [(MTLSReadyLabelShortname, Value_StringValue ''true'')],
                         TransportSocket =
                           \<lparr>TransportSocket.Name = EnvoyTLSSocketName,
                            TypedConfig = Some tlsContext\<rparr>\<rparr>,
                        plaintextTransportSocketMatch]\<rparr>)
      else cluster)"

definition emptyCommonTlsContext :: CommonTlsContext where
  "emptyCommonTlsContext =
     \<lparr>ValidationContextType = None, TlsCertificates = [], TlsCertificateSdsSecretConfigs = [],
      AlpnProtocols = None\<rparr>"

text \<open>The validation context computed before the switch on the mode.\<close>

definition certValidationContextOf :: "TLSSettings \<Rightarrow> Proxy \<Rightarrow> CertificateValidationContext" where
  "certValidationContextOf tls proxy =
     (let trustedCa =
            (if length (CaCertificates tls) \<noteq> 0
             then Some (DataSource_Filename
                    (GetOrDefault (TLSClientRootCert (Proxy.Metadata proxy)) (CaCertificates tls)))
             else None)
      in if trustedCa \<noteq> None \<or> length (SubjectAltNames tls) > 0
         then \<lparr>TrustedCa = trustedCa, VerifySubjectAltName = SubjectAltNames tls\<rparr>
         else \<lparr>TrustedCa = None, VerifySubjectAltName = []\<rparr>)"

text \<open>The context of the case \<^verbatim>\<open>TLSSettings_SIMPLE\<close>.\<close>

definition simpleTlsContext ::
  "Cluster \<Rightarrow> TLSSettings \<Rightarrow> CertificateValidationContext \<Rightarrow> UpstreamTlsContext" where
  "simpleTlsContext cluster tls certValidationContext =
     \<lparr>CommonTlsContext =
        emptyCommonTlsContext
          \<lparr>ValidationContextType :=
             Some (CommonTlsContext_ValidationContext certValidationContext),
           AlpnProtocols :=
             (if Cluster.Http2ProtocolOptions cluster \<noteq> None then Some ALPNH2Only else None)\<rparr>,
      UpstreamTlsContext.Sni = TLSSettings.Sni tls\<rparr>"

text \<open>The context of the case \<^verbatim>\<open>TLSSettings_MUTUAL, TLSSettings_ISTIO_MUTUAL\<close>, once the client
  certificate and the private key are known not to be empty.\<close>

definition mutualTlsContext ::
  "Environment \<Rightarrow> Cluster \<Rightarrow> TLSSettings \<Rightarrow> CertificateValidationContext \<Rightarrow> Proxy
     \<Rightarrow> UpstreamTlsContext" where
  "mutualTlsContext env cluster tls certValidationContext proxy =
     (let common =
            (if SdsUdsPath (Mesh env) = [] \<or> Mode tls = MUTUAL
             then emptyCommonTlsContext
                    \<lparr>ValidationContextType :=
                       Some (CommonTlsContext_ValidationContext certValidationContext),
                     TlsCertificates :=
                       [\<lparr>CertificateChain =
                           DataSource_Filename
                             (GetOrDefault (TLSClientCertChain (Proxy.Metadata proxy))
                                (ClientCertificate tls)),
                         TlsCertificate.PrivateKey =
                           DataSource_Filename
                             (GetOrDefault (TLSClientKey (Proxy.Metadata proxy))
                                (TLSSettings.PrivateKey tls))\<rparr>]\<rparr>
             else emptyCommonTlsContext
                    \<lparr>TlsCertificateSdsSecretConfigs :=
                       [ConstructSdsSecretConfig SDSDefaultResourceName
                          (SdsUdsPath (Mesh env)) (Proxy.Metadata proxy)],
                     ValidationContextType :=
                       Some (CommonTlsContext_CombinedValidationContext
                         \<lparr>DefaultValidationContext =
                            \<lparr>TrustedCa = None, VerifySubjectAltName = SubjectAltNames tls\<rparr>,
                          ValidationContextSdsSecretConfig =
                            ConstructSdsSecretConfig SDSRootResourceName
                              (SdsUdsPath (Mesh env)) (Proxy.Metadata proxy)\<rparr>)\<rparr>);
          sniValue =
            (if length (TLSSettings.Sni tls) = 0 \<and> Mode tls = ISTIO_MUTUAL
             then Cluster.Name cluster else TLSSettings.Sni tls);
          common =
            (if Cluster.Http2ProtocolOptions cluster \<noteq> None
             then
               (if Mode tls = ISTIO_MUTUAL
                then common\<lparr>AlpnProtocols := Some ALPNInMeshH2\<rparr>
                else common\<lparr>AlpnProtocols := Some ALPNH2Only\<rparr>)
             else if Mode tls = ISTIO_MUTUAL
             then common\<lparr>AlpnProtocols := Some ALPNInMesh\<rparr>
             else common)
      in \<lparr>CommonTlsContext = common, UpstreamTlsContext.Sni = sniValue\<rparr>)"

definition applyUpstreamTLSSettings ::
  "Deps \<Rightarrow> Environment \<Rightarrow> Cluster \<Rightarrow> TLSSettings option \<Rightarrow> mtlsContextType \<Rightarrow> Proxy
     \<Rightarrow> Cluster" where
  "applyUpstreamTLSSettings d env cluster tlsOpt mtlsCtxType proxy =
     (case tlsOpt of
        None \<Rightarrow> cluster
      | Some tls \<Rightarrow>
          (let certValidationContext = certValidationContextOf tls proxy
           in case Mode tls of
                DISABLE \<Rightarrow>
                  convertToTransportSocketMatch d (cluster\<lparr>TlsContext := None\<rparr>) tls mtlsCtxType
              | SIMPLE \<Rightarrow>
                  convertToTransportSocketMatch d
                    (cluster\<lparr>TlsContext := Some (simpleTlsContext cluster tls certValidationContext)\<rparr>)
                    tls mtlsCtxType
              | _ \<Rightarrow>
                  if ClientCertificate tls = [] \<or> TLSSettings.PrivateKey tls = [] then cluster
                  else
                    convertToTransportSocketMatch d
                      (cluster\<lparr>TlsContext :=
                         Some (mutualTlsContext env cluster tls certValidationContext proxy)\<rparr>)
                      tls mtlsCtxType))"

subsection \<open>Applying a traffic policy; the cluster factory\<close>

datatype ClusterMode = SniDnatClusterMode | DefaultClusterMode

record buildClusterOpts =
  opts_env :: Environment
  opts_cluster :: Cluster
  opts_policy :: "TrafficPolicy option"
  opts_port :: "Port option"
  opts_serviceAccounts :: "string list"
  opts_sni :: string
  opts_clusterMode :: ClusterMode
  opts_direction :: TrafficDirection
  opts_proxy :: Proxy
  opts_meshExternal :: bool

definition applyTrafficPolicy :: "Deps \<Rightarrow> buildClusterOpts \<Rightarrow> Proxy \<Rightarrow> Cluster" where
  "applyTrafficPolicy d opts proxy =
     (case SelectTrafficPolicyComponents (opts_policy opts) (opts_port opts) of
        (connectionPool, outlierDetection, loadBalancer, tls) \<Rightarrow>
          (let cluster =
                 applyConnectionPool (opts_env opts) (opts_cluster opts) connectionPool
                   (opts_direction opts);
               cluster = applyOutlierDetection cluster outlierDetection;
               cluster = applyLoadBalancer d cluster loadBalancer (opts_port opts) proxy
           in if opts_clusterMode opts \<noteq> SniDnatClusterMode
              then
                (let autoMTLSEnabled = EnableAutoMtls (Mesh (opts_env opts));
                     (tls, mtlsCtxType) =
                       conditionallyConvertToIstioMtls d tls (opts_serviceAccounts opts)
                         (opts_sni opts) (opts_proxy opts) autoMTLSEnabled (opts_meshExternal opts)
                 in applyUpstreamTLSSettings d (opts_env opts) cluster tls mtlsCtxType
                      (opts_proxy opts))
              else cluster))"

definition DefaultLbType :: SimpleLB where
  "DefaultLbType = ROUND_ROBIN"

definition buildDefaultTrafficPolicy :: "Environment \<Rightarrow> Cluster_DiscoveryType \<Rightarrow> TrafficPolicy" where
  "buildDefaultTrafficPolicy env discoveryType =
     (let lbPolicy = (if discoveryType = Cluster_ORIGINAL_DST then PASSTHROUGH else DefaultLbType)
      in \<lparr>TrafficPolicy.LoadBalancer =
             Some \<lparr>LoadBalancerSettings.LbPolicy = Some (LoadBalancerSettings_Simple lbPolicy)\<rparr>,
           TrafficPolicy.ConnectionPool =
             Some \<lparr>Tcp =
                     Some \<lparr>TCPSettings.MaxConnections = 0,
                           TCPSettings.ConnectTimeout =
                             Some \<lparr>Seconds = Seconds (MeshConfig.ConnectTimeout (Mesh env)),
                                   Nanos = Nanos (MeshConfig.ConnectTimeout (Mesh env))\<rparr>,
                           TCPSettings.TcpKeepalive = None\<rparr>,
                   Http = None\<rparr>,
           TrafficPolicy.OutlierDetection = None,
           TrafficPolicy.Tls = None,
           PortLevelSettings = []\<rparr>)"

definition buildDefaultCluster ::
  "Deps \<Rightarrow> Environment \<Rightarrow> string \<Rightarrow> Cluster_DiscoveryType \<Rightarrow> LocalityLbEndpoints list
     \<Rightarrow> TrafficDirection \<Rightarrow> Proxy \<Rightarrow> Port option \<Rightarrow> bool \<Rightarrow> Cluster" where
  "buildDefaultCluster d env name discoveryType localityLbEndpoints direction proxy port meshExternal =
     (let cluster =
            zeroCluster\<lparr>Cluster.Name := name,
                        ClusterDiscoveryType := Some (Cluster_Type discoveryType)\<rparr>;
          cluster =
            (if discoveryType = Cluster_STRICT_DNS
             then cluster\<lparr>DnsLookupFamily := Cluster_V4_ONLY,
                          DnsRefreshRate := DurationToProtoDuration (MeshConfig.DnsRefreshRate (Mesh env)),
                          RespectDnsTtl :=
                            (if IsIstioVersionGE13 d proxy \<and> RespectDNSTTL d then True
                             else RespectDnsTtl cluster)\<rparr>
             else cluster);
          cluster =
            (if discoveryType = Cluster_STATIC \<or> discoveryType = Cluster_STRICT_DNS
             then cluster\<lparr>LoadAssignment :=
                    Some \<lparr>ClusterName = name, Endpoints = localityLbEndpoints\<rparr>\<rparr>
             else cluster);
          defaultTrafficPolicy = buildDefaultTrafficPolicy env discoveryType;
          opts =
            \<lparr>opts_env = env, opts_cluster = cluster, opts_policy = Some defaultTrafficPolicy,
             opts_port = port, opts_serviceAccounts = [], opts_sni = [],
             opts_clusterMode = DefaultClusterMode, opts_direction = direction,
             opts_proxy = proxy, opts_meshExternal = meshExternal\<rparr>
      in applyTrafficPolicy d opts proxy)"

definition updateEds :: "Deps \<Rightarrow> Cluster \<Rightarrow> Cluster" where
  "updateEds d cluster =
     (case ClusterDiscoveryType cluster of
        Some (Cluster_Type t) \<Rightarrow>
          if t \<noteq> Cluster_EDS then cluster
          else cluster\<lparr>EdsClusterConfig :=
                 Some \<lparr>ServiceName = Cluster.Name cluster,
                       EdsConfig = \<lparr>ConfigSourceSpecifier = ConfigSource_Ads,
                                    InitialFetchTimeout = FeatureInitialFetchTimeout d\<rparr>\<rparr>\<rparr>
      | _ \<Rightarrow>
          cluster\<lparr>EdsClusterConfig :=
            Some \<lparr>ServiceName = Cluster.Name cluster,
                  EdsConfig = \<lparr>ConfigSourceSpecifier = ConfigSource_Ads,
                               InitialFetchTimeout = FeatureInitialFetchTimeout d\<rparr>\<rparr>\<rparr>)"

definition setUpstreamProtocol ::
  "Deps \<Rightarrow> Proxy \<Rightarrow> Cluster \<Rightarrow> Port \<Rightarrow> TrafficDirection \<Rightarrow> Cluster" where
  "setUpstreamProtocol d node cluster port direction =
     (let cluster =
            (if IsHTTP2 d (Port.Protocol port)
             then cluster\<lparr>Cluster.Http2ProtocolOptions :=
                    Some \<lparr>MaxConcurrentStreams = Some 1073741824\<rparr>\<rparr>
             else cluster)
      in if (IsProtocolSniffingEnabledForInboundPort d node port
               \<and> direction = TrafficDirectionInbound)
            \<or> (IsProtocolSniffingEnabledForOutboundPort d node port
               \<and> direction = TrafficDirectionOutbound)
         then cluster\<lparr>Cluster.Http2ProtocolOptions :=
                Some \<lparr>MaxConcurrentStreams = Some 1073741824\<rparr>,
                      ProtocolSelection := Cluster_USE_DOWNSTREAM_PROTOCOL\<rparr>
         else cluster)"

subsection \<open>Sink builders\<close>

definition buildBlackHoleCluster :: "Environment \<Rightarrow> Cluster" where
  "buildBlackHoleCluster env =
     zeroCluster\<lparr>Cluster.Name := BlackHoleCluster,
                 ClusterDiscoveryType := Some (Cluster_Type Cluster_STATIC),
                 Cluster.ConnectTimeout :=
                   DurationToProtoDuration (Some (MeshConfig.ConnectTimeout (Mesh env))),
                 Cluster.LbPolicy := Cluster_ROUND_ROBIN\<rparr>"

definition buildDefaultPassthroughCluster :: "Deps \<Rightarrow> Environment \<Rightarrow> Proxy \<Rightarrow> Cluster" where
  "buildDefaultPassthroughCluster d env proxy =
     (let cluster =
            zeroCluster\<lparr>Cluster.Name := PassthroughCluster,
                        ClusterDiscoveryType := Some (Cluster_Type Cluster_ORIGINAL_DST),
                        Cluster.ConnectTimeout :=
                          DurationToProtoDuration (Some (MeshConfig.ConnectTimeout (Mesh env))),
                        Cluster.LbPolicy := lbPolicyClusterProvided d proxy\<rparr>;
          passthroughSettings =
            \<lparr>Tcp = Some \<lparr>TCPSettings.MaxConnections = 1024 * 100,
                          TCPSettings.ConnectTimeout = None,
                          TCPSettings.TcpKeepalive = None\<rparr>,
             Http = None\<rparr>
      in applyConnectionPool env cluster (Some passthroughSettings) TrafficDirectionOutbound)"

subsection \<open>Endpoint materializer\<close>

text \<open>The LB endpoint built for one instance: weight 1 unless the endpoint has a positive
  weight.\<close>

definition buildLbEndpoint :: "ServiceInstance \<Rightarrow> LbEndpoint" where
  "buildLbEndpoint instance =
     (let host = BuildAddress (NetworkEndpoint.Address (Endpoint instance))
                   (word_of_int (NetworkEndpoint.Port (Endpoint instance)));
          ep = \<lparr>LbEndpoint.Address = host, LoadBalancingWeight = Some 1,
                LbEndpoint.Metadata = None\<rparr>;
          ep = (if 0 < LbWeight (Endpoint instance)
                then ep\<lparr>LbEndpoint.LoadBalancingWeight := Some (LbWeight (Endpoint instance))\<rparr>
                else ep)
      in ep\<lparr>LbEndpoint.Metadata :=
              Some (BuildLbEndpointMetadata (UID (Endpoint instance)) (Network (Endpoint instance))
                      (MTLSReady instance))\<rparr>)"

text \<open>The map from locality to endpoints is an association list in order of first insertion.
  Go leaves the order in which \<^verbatim>\<open>range\<close> visits a map open; the order of the groups below is
  one of the orders the program may take.\<close>

fun appendAt :: "(string \<times> LbEndpoint list) list \<Rightarrow> string \<Rightarrow> LbEndpoint
    \<Rightarrow> (string \<times> LbEndpoint list) list" where
  "appendAt [] k ep = [(k, [ep])]"
| "appendAt ((k', eps) # m) k ep =
     (if k' = k then (k', eps @ [ep]) # m else (k', eps) # appendAt m k ep)"

fun collectLbEndpoints ::
  "Deps \<Rightarrow> (string \<Rightarrow> bool) \<Rightarrow> ServiceInstance list \<Rightarrow> (string \<times> LbEndpoint list) list
     \<Rightarrow> (string \<times> LbEndpoint list) list" where
  "collectLbEndpoints d proxyNetworkView [] lbEndpoints = lbEndpoints"
| "collectLbEndpoints d proxyNetworkView (instance # instances) lbEndpoints =
     (if \<not> proxyNetworkView (Network (Endpoint instance))
      then collectLbEndpoints d proxyNetworkView instances lbEndpoints
      else collectLbEndpoints d proxyNetworkView instances
             (appendAt lbEndpoints (GetLocality d instance) (buildLbEndpoint instance)))"

definition GetValue :: "uint32 option \<Rightarrow> uint32" where
  "GetValue w = (case w of None \<Rightarrow> 0 | Some v \<Rightarrow> v)"

definition localityGroup :: "string \<times> LbEndpoint list \<Rightarrow> LocalityLbEndpoints" where
  "localityGroup entry =
     (case entry of
        (locality, eps) \<Rightarrow>
          (let weight = fold (\<lambda>ep weight. weight + GetValue (LbEndpoint.LoadBalancingWeight ep)) eps 0
           in \<lparr>LocalityLbEndpoints.Locality = Some (ConvertLocality locality),
                LbEndpoints = eps,
                LocalityLbEndpoints.LoadBalancingWeight = Some weight\<rparr>))"

text \<open>The list handed to \<^verbatim>\<open>util.LocalityLbWeightNormalize\<close>.\<close>

definition localityLbEndpointsOf ::
  "Deps \<Rightarrow> (string \<Rightarrow> bool) \<Rightarrow> ServiceInstance list \<Rightarrow> LocalityLbEndpoints list" where
  "localityLbEndpointsOf d proxyNetworkView instances =
     map localityGroup (collectLbEndpoints d proxyNetworkView instances [])"

definition buildLocalityLbEndpoints ::
  "Deps \<Rightarrow> Environment \<Rightarrow> (string \<Rightarrow> bool) \<Rightarrow> Service \<Rightarrow> int \<Rightarrow> Labels list
     \<Rightarrow> LocalityLbEndpoints list" where
  "buildLocalityLbEndpoints d env proxyNetworkView service port labels =
     (if Service.Resolution service \<noteq> DNSLB then []
      else
        (case InstancesByPort env service port labels of
           Inl err \<Rightarrow> []
         | Inr instances \<Rightarrow>
             LocalityLbWeightNormalize d (localityLbEndpointsOf d proxyNetworkView instances)))"

definition buildInboundLocalityLbEndpoints :: "string \<Rightarrow> int \<Rightarrow> LocalityLbEndpoints list" where
  "buildInboundLocalityLbEndpoints bind port =
     [\<lparr>LocalityLbEndpoints.Locality = None,
       LbEndpoints =
         [\<lparr>LbEndpoint.Address = BuildAddress bind (word_of_int port),
           LoadBalancingWeight = None, LbEndpoint.Metadata = None\<rparr>],
       LocalityLbEndpoints.LoadBalancingWeight = None\<rparr>]"

subsection \<open>Outbound generator\<close>

definition convertResolution :: "Proxy \<Rightarrow> Resolution \<Rightarrow> Cluster_DiscoveryType" where
  "convertResolution proxy resolution =
     (case resolution of
        ClientSideLB \<Rightarrow> Cluster_EDS
      | DNSLB \<Rightarrow> Cluster_STRICT_DNS
      | Passthrough \<Rightarrow> if Type proxy = SidecarProxy then Cluster_ORIGINAL_DST else Cluster_EDS)"

definition defaultDestinationRule :: DestinationRule where
  "defaultDestinationRule = \<lparr>DestinationRule.TrafficPolicy = None, Subsets = []\<rparr>"

definition castDestinationRuleOrDefault :: "Config option \<Rightarrow> DestinationRule" where
  "castDestinationRuleOrDefault config =
     (case config of Some c \<Rightarrow> Config.Spec c | None \<Rightarrow> defaultDestinationRule)"

definition callOutboundPlugins ::
  "ConfigGeneratorImpl \<Rightarrow> InputParams \<Rightarrow> Cluster \<Rightarrow> Cluster" where
  "callOutboundPlugins configgen inputParams cluster =
     fold (\<lambda>p c. OnOutboundCluster p inputParams c) (Plugins configgen) cluster"

text \<open>One pass of the loop over the subsets of a destination rule: \<open>lbEndpoints\<close> is the
  variable of the enclosing port loop as the pass finds it; the pass returns the subset
  cluster and the variable as it leaves it.\<close>

definition outboundSubsetCluster ::
  "Deps \<Rightarrow> ConfigGeneratorImpl \<Rightarrow> Environment \<Rightarrow> Proxy \<Rightarrow> PushContext \<Rightarrow> Service \<Rightarrow> Port
     \<Rightarrow> Config option \<Rightarrow> LocalityLbEndpoints list \<Rightarrow> Subset
     \<Rightarrow> Cluster \<times> LocalityLbEndpoints list" where
  "outboundSubsetCluster d configgen env proxy push service port destRule lbEndpoints sub =
     (let inputParams =
            \<lparr>Env = env, Push = push, Node = proxy, ServiceInstance = None,
             InputParams.Service = Some service, InputParams.Port = Some port, Bind = []\<rparr>;
          networkView = GetNetworkView d proxy;
          discoveryType = convertResolution proxy (Service.Resolution service);
          serviceAccounts = ServiceAccounts push (Hostname service) (Port.Port port);
          destinationRule = castDestinationRuleOrDefault destRule;
          clusterMetadata = map_option (\<lambda>c. BuildConfigInfoMetadata (Config.ConfigMeta c)) destRule;
          subsetClusterName =
            BuildSubsetKey TrafficDirectionOutbound (Subset.Name sub) (Hostname service)
              (Port.Port port);
          defaultSni =
            BuildDNSSrvSubsetKey TrafficDirectionOutbound (Subset.Name sub) (Hostname service)
              (Port.Port port);
          lbEndpoints =
            (if discoveryType \<noteq> Cluster_EDS \<and> length (Subset.Labels sub) \<noteq> 0
             then buildLocalityLbEndpoints d env networkView service (Port.Port port)
                    [Subset.Labels sub]
             else lbEndpoints);
          subsetCluster =
            buildDefaultCluster d env subsetClusterName discoveryType lbEndpoints
              TrafficDirectionOutbound proxy None (MeshExternal service);
          subsetCluster =
            (if length (OutboundClusterStatName (Mesh env)) \<noteq> 0
             then subsetCluster\<lparr>AltStatName :=
                    altStatName d (OutboundClusterStatName (Mesh env)) (Hostname service)
                      (Subset.Name sub) port (Attributes service)\<rparr>
             else subsetCluster);
          subsetCluster = setUpstreamProtocol d proxy subsetCluster port TrafficDirectionOutbound;
          opts =
            \<lparr>opts_env = env, opts_cluster = subsetCluster,
             opts_policy = DestinationRule.TrafficPolicy destinationRule,
             opts_port = Some port, opts_serviceAccounts = serviceAccounts, opts_sni = defaultSni,
             opts_clusterMode = DefaultClusterMode, opts_direction = TrafficDirectionOutbound,
             opts_proxy = proxy, opts_meshExternal = MeshExternal service\<rparr>;
          subsetCluster = applyTrafficPolicy d opts proxy;
          opts =
            \<lparr>opts_env = env, opts_cluster = subsetCluster,
             opts_policy = Subset.TrafficPolicy sub,
             opts_port = Some port, opts_serviceAccounts = serviceAccounts, opts_sni = defaultSni,
             opts_clusterMode = DefaultClusterMode, opts_direction = TrafficDirectionOutbound,
             opts_proxy = proxy, opts_meshExternal = MeshExternal service\<rparr>;
          subsetCluster = applyTrafficPolicy d opts proxy;
          subsetCluster = updateEds d subsetCluster;
          subsetCluster = subsetCluster\<lparr>Cluster.Metadata := clusterMetadata\<rparr>;
          subsetCluster = callOutboundPlugins configgen inputParams subsetCluster
      in (subsetCluster, lbEndpoints))"

fun outboundSubsets ::
  "Deps \<Rightarrow> ConfigGeneratorImpl \<Rightarrow> Environment \<Rightarrow> Proxy \<Rightarrow> PushContext \<Rightarrow> Service \<Rightarrow> Port
     \<Rightarrow> Config option \<Rightarrow> LocalityLbEndpoints list \<Rightarrow> Subset list \<Rightarrow> Cluster list" where
  "outboundSubsets d configgen env proxy push service port destRule lbEndpoints [] = []"
| "outboundSubsets d configgen env proxy push service port destRule lbEndpoints (sub # subsets) =
     (case outboundSubsetCluster d configgen env proxy push service port destRule lbEndpoints sub of
        (subsetCluster, lbEndpoints) \<Rightarrow>
          subsetCluster
            # outboundSubsets d configgen env proxy push service port destRule lbEndpoints subsets)"

text \<open>The body of the port loop for a port that is not skipped.  The default cluster is
  appended to the output before the subset clusters, and, being a pointer, shows there with
  everything done to it later in the body.\<close>

definition outboundPortClusters ::
  "Deps \<Rightarrow> ConfigGeneratorImpl \<Rightarrow> Environment \<Rightarrow> Proxy \<Rightarrow> PushContext \<Rightarrow> Service \<Rightarrow> Port
     \<Rightarrow> Cluster list" where
  "outboundPortClusters d configgen env proxy push service port =
     (let destRule = DestinationRule push proxy service;
          inputParams =
            \<lparr>Env = env, Push = push, Node = proxy, ServiceInstance = None,
             InputParams.Service = Some service, InputParams.Port = Some port, Bind = []\<rparr>;
          networkView = GetNetworkView d proxy;
          lbEndpoints = buildLocalityLbEndpoints d env networkView service (Port.Port port) [];
          discoveryType = convertResolution proxy (Service.Resolution service);
          clusterName =
            BuildSubsetKey TrafficDirectionOutbound [] (Hostname service) (Port.Port port);
          serviceAccounts = ServiceAccounts push (Hostname service) (Port.Port port);
          defaultCluster =
            buildDefaultCluster d env clusterName discoveryType lbEndpoints
              TrafficDirectionOutbound proxy (Some port) (MeshExternal service);
          defaultCluster =
            (if length (OutboundClusterStatName (Mesh env)) \<noteq> 0
             then defaultCluster\<lparr>AltStatName :=
                    altStatName d (OutboundClusterStatName (Mesh env)) (Hostname service) []
                      port (Attributes service)\<rparr>
             else defaultCluster);
          defaultCluster = setUpstreamProtocol d proxy defaultCluster port TrafficDirectionOutbound;
          destinationRule = castDestinationRuleOrDefault destRule;
          clusterMetadata = map_option (\<lambda>c. BuildConfigInfoMetadata (Config.ConfigMeta c)) destRule;
          defaultSni =
            BuildDNSSrvSubsetKey TrafficDirectionOutbound [] (Hostname service) (Port.Port port);
          opts =
            \<lparr>opts_env = env, opts_cluster = defaultCluster,
             opts_policy = DestinationRule.TrafficPolicy destinationRule,
             opts_port = Some port, opts_serviceAccounts = serviceAccounts, opts_sni = defaultSni,
             opts_clusterMode = DefaultClusterMode, opts_direction = TrafficDirectionOutbound,
             opts_proxy = proxy, opts_meshExternal = MeshExternal service\<rparr>;
          defaultCluster = applyTrafficPolicy d opts proxy;
          defaultCluster = defaultCluster\<lparr>Cluster.Metadata := clusterMetadata\<rparr>;
          subsetClusters =
            outboundSubsets d configgen env proxy push service port destRule lbEndpoints
              (Subsets destinationRule);
          defaultCluster = updateEds d defaultCluster;
          defaultCluster = callOutboundPlugins configgen inputParams defaultCluster
      in defaultCluster # subsetClusters)"


subsection \<open>SNI-DNAT branch of the outbound generator\<close>

definition sniDnatOpts ::
  "Environment \<Rightarrow> Cluster \<Rightarrow> TrafficPolicy option \<Rightarrow> Port \<Rightarrow> Proxy \<Rightarrow> buildClusterOpts" where
  "sniDnatOpts env cluster policy port proxy =
     \<lparr>opts_env = env, opts_cluster = cluster, opts_policy = policy, opts_port = Some port,
      opts_serviceAccounts = [], opts_sni = [], opts_clusterMode = SniDnatClusterMode,
      opts_direction = TrafficDirectionOutbound, opts_proxy = proxy, opts_meshExternal = False\<rparr>"





subsection \<open>Inbound generator\<close>




definition managementCluster :: "Deps \<Rightarrow> Environment \<Rightarrow> Proxy \<Rightarrow> string \<Rightarrow> Port \<Rightarrow> Cluster" where
  "managementCluster d env proxy actualLocalHost port =
     (let clusterName =
            BuildSubsetKey TrafficDirectionInbound (Port.Name port) ManagementClusterHostname
              (Port.Port port);
          localityLbEndpoints = buildInboundLocalityLbEndpoints actualLocalHost (Port.Port port);
          mgmtCluster =
            buildDefaultCluster d env clusterName Cluster_STATIC localityLbEndpoints
              TrafficDirectionInbound proxy None False
      in setUpstreamProtocol d proxy mgmtCluster port TrafficDirectionInbound)"









subsection \<open>Orchestrator\<close>


subsection \<open>Notions the properties are stated with\<close>

text \<open>The event that \<^verbatim>\<open>normalizeClusters\<close> records for a cluster it drops.\<close>

definition duplicateEvent :: "Proxy \<Rightarrow> Cluster \<Rightarrow> PushEvent" where
  "duplicateEvent proxy cluster =
     \<lparr>Metric = DuplicatedClusters, Key = Cluster.Name cluster, ProxyID = ID proxy,
      Message = duplicateMessage (Cluster.Name cluster)\<rparr>"

text \<open>Position \<open>i\<close> holds the first cluster of its name: no earlier position has that name.\<close>

definition firstOfName :: "Cluster list \<Rightarrow> nat \<Rightarrow> bool" where
  "firstOfName clusters i =
     (Cluster.Name (clusters ! i) \<notin> Cluster.Name ` set (take i clusters))"

text \<open>The clusters kept and dropped from a list when the names in \<open>have\<close> were seen before.\<close>

definition keptFrom :: "(string \<Rightarrow> bool) \<Rightarrow> Cluster list \<Rightarrow> Cluster list" where
  "keptFrom have cs =
     map (\<lambda>i. cs ! i)
       (filter (\<lambda>i. \<not> have (Cluster.Name (cs ! i)) \<and> firstOfName cs i) [0..<length cs])"

definition droppedFrom :: "(string \<Rightarrow> bool) \<Rightarrow> Cluster list \<Rightarrow> Cluster list" where
  "droppedFrom have cs =
     map (\<lambda>i. cs ! i)
       (filter (\<lambda>i. \<not> (\<not> have (Cluster.Name (cs ! i)) \<and> firstOfName cs i)) [0..<length cs])"

definition namedCluster :: "string \<Rightarrow> Cluster_LbPolicy \<Rightarrow> Cluster" where
  "namedCluster name policy = zeroCluster\<lparr>Cluster.Name := name, Cluster.LbPolicy := policy\<rparr>"

subsection \<open>Example inputs\<close>

text \<open>A mesh with default settings, a sidecar and a router, and collaborators that do the
  least: no cluster patches, no locality rewriting, a marshaller that succeeds.\<close>

definition exampleDeps :: Deps where
  "exampleDeps =
     \<lparr>EnableRedisFilter = False, RespectDNSTTL = False, FeatureInitialFetchTimeout = None,
      DefaultRootCert = ''/etc/certs/root-cert.pem'',
      DefaultCertChain = ''/etc/certs/cert-chain.pem'',
      DefaultKey = ''/etc/certs/key.pem'',
      KubernetesRegistry = ''Kubernetes'',
      IsIstioVersionGE13 = (\<lambda>proxy. True),
      GetNetworkView = (\<lambda>proxy network. network = []),
      GetLocality = (\<lambda>instance. NetworkEndpoint.Locality (Endpoint instance)),
      IsHTTP2 = (\<lambda>p. p = HTTP2 \<or> p = GRPC \<or> p = GRPCWeb),
      Parse = (\<lambda>s. if s = ''UDP'' then UDP else if s = ''HTTP'' then HTTP else Unsupported),
      Atoi = (\<lambda>s. Inl ''invalid syntax''),
      IsProtocolSniffingEnabledForInboundPort = (\<lambda>node port. False),
      IsProtocolSniffingEnabledForOutboundPort = (\<lambda>node port. False),
      ipv4AndIpv6Support = (\<lambda>proxy. (True, False)),
      getActualWildcardAndLocalHost = (\<lambda>proxy. (''0.0.0.0'', ''127.0.0.1'')),
      LocalityLbWeightNormalize = (\<lambda>endpoints. endpoints),
      ApplyLocalityLBSetting = (\<lambda>locality loadAssignment setting failover. loadAssignment),
      ApplyClusterPatches = (\<lambda>patchContext proxy push clusters. clusters),
      MarshalAny =
        (\<lambda>message. Inr \<lparr>TypeUrl = ''type.googleapis.com/envoy.api.v2.auth.UpstreamTlsContext'',
                           Value = []\<rparr>)\<rparr>"

definition exampleMesh :: MeshConfig where
  "exampleMesh =
     \<lparr>OutboundClusterStatName = [], InboundClusterStatName = [], LocalityLbSetting = None,
      MeshConfig.ConnectTimeout = \<lparr>Seconds = 10, Nanos = 0\<rparr>,
      MeshConfig.DnsRefreshRate = None, MeshConfig.TcpKeepalive = None, SdsUdsPath = [],
      EnableAutoMtls = False\<rparr>"

definition exampleEnv :: Environment where
  "exampleEnv =
     \<lparr>Mesh = exampleMesh, InstancesByPort = (\<lambda>service port labels. Inr []),
      ManagementPorts = (\<lambda>ip. [])\<rparr>"

definition exampleSidecarScope :: SidecarScope where
  "exampleSidecarScope =
     \<lparr>HasCustomIngressListeners = False,
      Config =
        \<lparr>SidecarConfig.ConfigMeta =
           \<lparr>ConfigMeta.Name = ''default'', ConfigMeta.Namespace = ''default'',
            ResourceVersion = []\<rparr>,
         SidecarConfig.Spec = \<lparr>Ingress = []\<rparr>\<rparr>\<rparr>"

definition exampleProxy :: Proxy where
  "exampleProxy =
     \<lparr>Type = SidecarProxy, ID = ''sidecar~10.0.0.1~reviews-v1.default'',
      IPAddresses = [''10.0.0.1''], Proxy.Locality = None, SidecarScope = exampleSidecarScope,
      Proxy.Metadata = \<lparr>TLSClientRootCert = [], TLSClientCertChain = [], TLSClientKey = []\<rparr>,
      ServiceInstances = [], RouterMode = StandardRouter,
      InterceptionMode = InterceptionRedirect\<rparr>"


definition examplePush :: PushContext where
  "examplePush =
     \<lparr>Services = (\<lambda>proxy. []), DestinationRule = (\<lambda>proxy service. None),
      ServiceAccounts = (\<lambda>hostname port. []), Events = []\<rparr>"

definition exampleConfigGen :: ConfigGeneratorImpl where
  "exampleConfigGen = \<lparr>Plugins = []\<rparr>"

text \<open>The four facets of a policy root and of a port-level entry.\<close>

definition rootFacets :: "TrafficPolicy \<Rightarrow> facets" where
  "rootFacets pol =
     (TrafficPolicy.ConnectionPool pol, TrafficPolicy.OutlierDetection pol,
      TrafficPolicy.LoadBalancer pol, TrafficPolicy.Tls pol)"

definition entryFacets :: "PortTrafficPolicy \<Rightarrow> facets" where
  "entryFacets p =
     (PortTrafficPolicy.ConnectionPool p, PortTrafficPolicy.OutlierDetection p,
      PortTrafficPolicy.LoadBalancer p, PortTrafficPolicy.Tls p)"

text \<open>An entry matches a target port when it has a port selector whose number is the target
  port converted to the selector's type, \<^verbatim>\<open>uint32(port.Port)\<close>; \<open>sameNumber\<close> compares the two
  numbers as integers.\<close>

definition portMatches :: "Port \<Rightarrow> PortTrafficPolicy \<Rightarrow> bool" where
  "portMatches port p =
     (case PortTrafficPolicy.Port p of
        None \<Rightarrow> False
      | Some sel \<Rightarrow> PortSelector.Number sel = word_of_int (Port.Port port))"

definition sameNumber :: "Port \<Rightarrow> PortTrafficPolicy \<Rightarrow> bool" where
  "sameNumber port p =
     (case PortTrafficPolicy.Port p of
        None \<Rightarrow> False
      | Some sel \<Rightarrow> uint (PortSelector.Number sel) = Port.Port port)"

text \<open>The first transport-socket match built for an auto-detected context.\<close>

definition mtlsTransportSocketMatch :: "Any \<Rightarrow> Cluster_TransportSocketMatch" where
  "mtlsTransportSocketMatch tlsContext =
     \<lparr>Cluster_TransportSocketMatch.Name = ''mtls'',
      Match = [(MTLSReadyLabelShortname, Value_StringValue ''true'')],
      TransportSocket =
        \<lparr>TransportSocket.Name = EnvoyTLSSocketName, TypedConfig = Some tlsContext\<rparr>\<rparr>"

definition exampleLb :: LoadBalancerSettings where
  "exampleLb = \<lparr>LoadBalancerSettings.LbPolicy = Some (LoadBalancerSettings_Simple RANDOM)\<rparr>"

definition exampleTls :: TLSSettings where
  "exampleTls =
     \<lparr>Mode = SIMPLE, ClientCertificate = [], TLSSettings.PrivateKey = [], CaCertificates = [],
      SubjectAltNames = [], TLSSettings.Sni = ''reviews.example.com''\<rparr>"

text \<open>Mutual TLS declared without a client certificate and a private key.\<close>

definition brokenTls :: TLSSettings where
  "brokenTls = exampleTls\<lparr>Mode := MUTUAL\<rparr>"

definition emptyEntry :: PortTrafficPolicy where
  "emptyEntry =
     \<lparr>PortTrafficPolicy.Port = None, PortTrafficPolicy.LoadBalancer = None,
      PortTrafficPolicy.ConnectionPool = None, PortTrafficPolicy.OutlierDetection = None,
      PortTrafficPolicy.Tls = None\<rparr>"

text \<open>A policy with a TLS facet at the root and four port-level entries: one without a port,
  one for port 8080, and two for port 80, the first of which sets the load balancer only.\<close>

definition examplePolicy :: TrafficPolicy where
  "examplePolicy =
     \<lparr>TrafficPolicy.LoadBalancer = None, TrafficPolicy.ConnectionPool = None,
      TrafficPolicy.OutlierDetection = None, TrafficPolicy.Tls = Some exampleTls,
      PortLevelSettings =
        [emptyEntry\<lparr>PortTrafficPolicy.Tls := Some brokenTls\<rparr>,
         emptyEntry\<lparr>PortTrafficPolicy.Port := Some \<lparr>PortSelector.Number = 8080\<rparr>\<rparr>,
         emptyEntry\<lparr>PortTrafficPolicy.Port := Some \<lparr>PortSelector.Number = 80\<rparr>,
                    PortTrafficPolicy.LoadBalancer := Some exampleLb\<rparr>,
         emptyEntry\<lparr>PortTrafficPolicy.Port := Some \<lparr>PortSelector.Number = 80\<rparr>,
                    PortTrafficPolicy.Tls := Some exampleTls\<rparr>]\<rparr>"

definition examplePort :: Port where
  "examplePort = \<lparr>Port.Name = ''http'', Port.Port = 80, Port.Protocol = HTTP\<rparr>"

definition exampleService :: Service where
  "exampleService =
     \<lparr>Hostname = ''reviews.default.svc.cluster.local'', Service.Resolution = ClientSideLB,
      MeshExternal = False, Ports = [examplePort],
      Attributes =
        \<lparr>ServiceRegistry = ''Kubernetes'', ServiceAttributes.Name = ''reviews'',
         ServiceAttributes.Namespace = ''default''\<rparr>\<rparr>"

text \<open>The weight an endpoint contributes, and the instances of one locality that the proxy's
  network view lets through, in the order of the registry's answer.\<close>

definition memberWeight :: "ServiceInstance \<Rightarrow> uint32" where
  "memberWeight instance =
     (if 0 < LbWeight (Endpoint instance) then LbWeight (Endpoint instance) else 1)"

definition localityMembers ::
  "Deps \<Rightarrow> (string \<Rightarrow> bool) \<Rightarrow> ServiceInstance list \<Rightarrow> string \<Rightarrow> ServiceInstance list" where
  "localityMembers d proxyNetworkView instances locality =
     filter (\<lambda>instance. proxyNetworkView (Network (Endpoint instance))
                         \<and> GetLocality d instance = locality) instances"

text \<open>An instance of the example service at a given address, with a version label, a
  locality, a weight and a network.\<close>

definition exampleInstanceAt ::
  "string \<Rightarrow> string \<Rightarrow> string \<Rightarrow> uint32 \<Rightarrow> string \<Rightarrow> ServiceInstance" where
  "exampleInstanceAt address version locality weight network =
     \<lparr>Endpoint =
        \<lparr>Family = AddressFamilyTCP, NetworkEndpoint.Address = address,
         NetworkEndpoint.Port = 9080, ServicePort = Ptr 1 examplePort, Network = network,
         NetworkEndpoint.Locality = locality, LbWeight = weight, UID = []\<rparr>,
      ServiceInstance.Service = exampleService,
      ServiceInstance.Labels = [(''version'', version)],
      ServiceAccount = [], MTLSReady = False\<rparr>"

definition exampleInstances :: "ServiceInstance list" where
  "exampleInstances =
     [exampleInstanceAt ''10.0.0.1'' ''v1'' ''us/east/a'' 0 [],
      exampleInstanceAt ''10.0.0.2'' ''v2'' ''us/west/b'' 3 [],
      exampleInstanceAt ''10.0.0.3'' ''v2'' ''eu/west/c'' 7 ''remote'',
      exampleInstanceAt ''10.0.0.4'' ''v2'' ''us/east/a'' 5 []]"

text \<open>An original-destination cluster uses the policy that \<^verbatim>\<open>lbPolicyClusterProvided\<close>
  selects for the proxy.\<close>

definition originalDstProvided :: "Deps \<Rightarrow> Proxy \<Rightarrow> Cluster \<Rightarrow> bool" where
  "originalDstProvided d proxy c =
     (ClusterDiscoveryType c = Some (Cluster_Type Cluster_ORIGINAL_DST)
        \<longrightarrow> Cluster.LbPolicy c = lbPolicyClusterProvided d proxy)"

text \<open>What a theorem may ask of the collaborators.  Every plugin callback keeps a property
  of the cluster it is handed; a patch pass keeps a property that all clusters of a list have;
  a patch pass keeps the clusters' names, in order.\<close>

definition pluginsPreserve :: "ConfigGeneratorImpl \<Rightarrow> (Cluster \<Rightarrow> bool) \<Rightarrow> bool" where
  "pluginsPreserve configgen P =
     (\<forall>p \<in> set (Plugins configgen). \<forall>params c.
        P c \<longrightarrow> P (OnOutboundCluster p params c) \<and> P (OnInboundCluster p params c))"



text \<open>A service with DNS resolution, and a registry that answers with the instances it is given
  whose labels contain one of the label sets asked for (all of them when none is asked for).\<close>

definition exampleDnsService :: Service where
  "exampleDnsService = exampleService\<lparr>Service.Resolution := DNSLB\<rparr>"

definition registryEnv :: "ServiceInstance list \<Rightarrow> Environment" where
  "registryEnv instances =
     exampleEnv\<lparr>InstancesByPort :=
       (\<lambda>service port labels.
          Inr (filter (\<lambda>instance.
                 labels = []
                 \<or> list_ex (\<lambda>l. list_all (\<lambda>kv. kv \<in> set (ServiceInstance.Labels instance)) l) labels)
               instances))\<rparr>"

text \<open>Two instances of one locality, each of weight \<open>2^31\<close>.\<close>

definition heavyInstances :: "ServiceInstance list" where
  "heavyInstances =
     [exampleInstanceAt ''10.0.0.1'' ''v1'' ''us/east/a'' 2147483648 [],
      exampleInstanceAt ''10.0.0.2'' ''v1'' ''us/east/a'' 2147483648 []]"

text \<open>A destination rule for the example service, and a push context that knows the service
  and the rule.\<close>

definition tlsPolicy :: "TLSSettings \<Rightarrow> TrafficPolicy" where
  "tlsPolicy tls =
     \<lparr>TrafficPolicy.LoadBalancer = None, TrafficPolicy.ConnectionPool = None,
      TrafficPolicy.OutlierDetection = None, TrafficPolicy.Tls = Some tls,
      PortLevelSettings = []\<rparr>"

definition exampleRule :: "TrafficPolicy option \<Rightarrow> Subset list \<Rightarrow> Config" where
  "exampleRule policy subsets =
     \<lparr>Config.ConfigMeta =
        \<lparr>ConfigMeta.Name = ''reviews'', ConfigMeta.Namespace = ''default'', ResourceVersion = []\<rparr>,
      Config.Spec = \<lparr>DestinationRule.TrafficPolicy = policy, Subsets = subsets\<rparr>\<rparr>"

definition rulePush :: "Service \<Rightarrow> Config option \<Rightarrow> PushContext" where
  "rulePush service rule =
     examplePush\<lparr>Services := (\<lambda>proxy. [service]), DestinationRule := (\<lambda>proxy svc. rule)\<rparr>"

text \<open>Every plugin callback returns a cluster of the name it was handed.\<close>

definition pluginsKeepNames :: "ConfigGeneratorImpl \<Rightarrow> bool" where
  "pluginsKeepNames configgen =
     (\<forall>p \<in> set (Plugins configgen). \<forall>params c.
        Cluster.Name (OnOutboundCluster p params c) = Cluster.Name c
        \<and> Cluster.Name (OnInboundCluster p params c) = Cluster.Name c)"



text \<open>The TLS setting that a pass of \<^verbatim>\<open>applyTrafficPolicy\<close> resolves and hands to
  \<^verbatim>\<open>applyUpstreamTLSSettings\<close>, with its origin: the TLS facet that the resolver selects for
  the port, converted by \<^verbatim>\<open>conditionallyConvertToIstioMtls\<close>.\<close>

definition resolvedTLS ::
  "Deps \<Rightarrow> Environment \<Rightarrow> Proxy \<Rightarrow> TrafficPolicy option \<Rightarrow> Port option \<Rightarrow> string list \<Rightarrow> string
     \<Rightarrow> bool \<Rightarrow> TLSSettings option \<times> mtlsContextType" where
  "resolvedTLS d env proxy policy port serviceAccounts sni meshExternal =
     conditionallyConvertToIstioMtls d
       (snd (snd (snd (SelectTrafficPolicyComponents policy port))))
       serviceAccounts sni proxy (EnableAutoMtls (Mesh env)) meshExternal"

text \<open>Mutual or mesh-mutual TLS declared without a client certificate or without a private
  key.\<close>

definition missingKeyMaterial :: "TLSSettings \<Rightarrow> bool" where
  "missingKeyMaterial tls =
     ((Mode tls = MUTUAL \<or> Mode tls = ISTIO_MUTUAL)
      \<and> (ClientCertificate tls = [] \<or> TLSSettings.PrivateKey tls = []))"

text \<open>Two rules for the example service.  The first declares mutual TLS without key material
  at its root and has a subset \<open>v1\<close> without a policy of its own; the second declares simple
  TLS at its root and mutual TLS without key material for its subset \<open>v1\<close>.\<close>

definition brokenRule :: Config where
  "brokenRule =
     exampleRule (Some (tlsPolicy brokenTls))
       [\<lparr>Subset.Name = ''v1'', Subset.Labels = [(''version'', ''v1'')],
         Subset.TrafficPolicy = None\<rparr>]"

definition brokenSubsetRule :: Config where
  "brokenSubsetRule =
     exampleRule (Some (tlsPolicy exampleTls))
       [\<lparr>Subset.Name = ''v1'', Subset.Labels = [(''version'', ''v1'')],
         Subset.TrafficPolicy = Some (tlsPolicy brokenTls)\<rparr>]"

text \<open>The options of the second pass over the subset \<open>v1\<close> of the second rule, on a cluster
  that holds the TLS context of the rule's root policy.\<close>

definition brokenSubsetOpts :: buildClusterOpts where
  "brokenSubsetOpts =
     \<lparr>opts_env = exampleEnv,
      opts_cluster =
        (namedCluster ''outbound|80|v1|reviews.default.svc.cluster.local'' Cluster_ROUND_ROBIN)
          \<lparr>TlsContext :=
             Some (simpleTlsContext zeroCluster exampleTls
                     (certValidationContextOf exampleTls exampleProxy))\<rparr>,
      opts_policy = Some (tlsPolicy brokenTls), opts_port = Some examplePort,
      opts_serviceAccounts = [],
      opts_sni = ''outbound_.80_.v1_.reviews.default.svc.cluster.local'',
      opts_clusterMode = DefaultClusterMode, opts_direction = TrafficDirectionOutbound,
      opts_proxy = exampleProxy, opts_meshExternal = False\<rparr>"

text \<open>Every plugin callback keeps the TLS context and the transport-socket matches of the
  cluster it is handed.\<close>

definition pluginsKeepTLS :: "ConfigGeneratorImpl \<Rightarrow> bool" where
  "pluginsKeepTLS configgen =
     (\<forall>p \<in> set (Plugins configgen). \<forall>params c.
        TlsContext (OnOutboundCluster p params c) = TlsContext c
        \<and> TransportSocketMatches (OnOutboundCluster p params c) = TransportSocketMatches c)"

text \<open>The TLS context that the auto-detected mesh-mutual setting resolves to for a cluster:
  the setting that \<^verbatim>\<open>buildIstioMutualTLS\<close> fills in, materialized by the mutual case of
  \<^verbatim>\<open>applyUpstreamTLSSettings\<close>.\<close>

definition autoTlsContext ::
  "Deps \<Rightarrow> Environment \<Rightarrow> Proxy \<Rightarrow> Cluster \<Rightarrow> string list \<Rightarrow> string \<Rightarrow> UpstreamTlsContext" where
  "autoTlsContext d env proxy cluster serviceAccounts sni =
     mutualTlsContext env cluster (buildIstioMutualTLS d serviceAccounts sni proxy)
       (certValidationContextOf (buildIstioMutualTLS d serviceAccounts sni proxy) proxy) proxy"

text \<open>A marshaller that rejects a context one of whose strings (the SNI, the subject
  alternative names, the file names) holds the byte \<open>0xFF\<close>, which no UTF-8 encoding contains,
  as \<^verbatim>\<open>proto.Marshal\<close> rejects a string field that is not valid UTF-8; it accepts every other
  context.\<close>

fun dataSourceString :: "DataSource \<Rightarrow> string" where
  "dataSourceString (DataSource_Filename name) = name"

definition validationStrings :: "CertificateValidationContext \<Rightarrow> string list" where
  "validationStrings v =
     (case TrustedCa v of None \<Rightarrow> [] | Some source \<Rightarrow> [dataSourceString source])
       @ VerifySubjectAltName v"

definition contextStrings :: "UpstreamTlsContext \<Rightarrow> string list" where
  "contextStrings ctx =
     UpstreamTlsContext.Sni ctx
       # (case ValidationContextType (CommonTlsContext ctx) of
            None \<Rightarrow> []
          | Some (CommonTlsContext_ValidationContext v) \<Rightarrow> validationStrings v
          | Some (CommonTlsContext_CombinedValidationContext cv) \<Rightarrow>
              validationStrings (DefaultValidationContext cv))
       @ concat (map (\<lambda>c. [dataSourceString (CertificateChain c),
                             dataSourceString (TlsCertificate.PrivateKey c)])
                   (TlsCertificates (CommonTlsContext ctx)))"

definition strictMarshalDeps :: Deps where
  "strictMarshalDeps =
     exampleDeps\<lparr>MarshalAny :=
       (\<lambda>message.
          case message of
            None \<Rightarrow> MarshalAny exampleDeps None
          | Some ctx \<Rightarrow>
              if list_ex (\<lambda>s. CHR 0xFF \<in> set s) (contextStrings ctx)
              then Inl ''proto: invalid UTF-8 string''
              else MarshalAny exampleDeps message)\<rparr>"

text \<open>A mesh with auto-mTLS enabled, and a service inside the mesh whose host name holds the
  byte \<open>0xFF\<close>.\<close>

definition autoMtlsEnv :: Environment where
  "autoMtlsEnv = exampleEnv\<lparr>Mesh := exampleMesh\<lparr>EnableAutoMtls := True\<rparr>\<rparr>"

definition binaryHostService :: Service where
  "binaryHostService = exampleService\<lparr>Hostname := CHR 0xFF # ''.default.svc.cluster.local''\<rparr>"


section \<open>Properties\<close>

subsection \<open>Normalisation keeps the first cluster of each name\<close>

lemma upt_Suc_shift: "[0..<Suc n] = 0 # map Suc [0..<n]"
  by (simp add: upt_conv_Cons map_Suc_upt del: upt_Suc)

lemma filter_upt_Cons:
  "filter P [0..<Suc n] = (if P 0 then [0] else []) @ map Suc (filter (\<lambda>i. P (Suc i)) [0..<n])"
  by (simp only: upt_Suc_shift) (simp add: filter_map comp_def)

lemma keptFrom_Nil: "keptFrom have [] = []"
  by (simp add: keptFrom_def)

lemma droppedFrom_Nil: "droppedFrom have [] = []"
  by (simp add: droppedFrom_def)

lemma pred_Suc:
  "(\<not> have (Cluster.Name ((c # cs) ! Suc i)) \<and> firstOfName (c # cs) (Suc i))
   = (\<not> (have(Cluster.Name c := True)) (Cluster.Name (cs ! i)) \<and> firstOfName cs i)"
  by (auto simp: firstOfName_def)

lemma keptFrom_Cons:
  "keptFrom have (c # cs) =
     (if have (Cluster.Name c) then [] else [c]) @ keptFrom (have(Cluster.Name c := True)) cs"
  unfolding keptFrom_def length_Cons filter_upt_Cons pred_Suc
  by (simp add: comp_def firstOfName_def)

lemma droppedFrom_Cons:
  "droppedFrom have (c # cs) =
     (if have (Cluster.Name c) then [c] else []) @ droppedFrom (have(Cluster.Name c := True)) cs"
  unfolding droppedFrom_def length_Cons filter_upt_Cons pred_Suc
  by (simp add: comp_def firstOfName_def)

lemma Add_duplicate:
  "Add DuplicatedClusters (Cluster.Name c) proxy
     (duplicateMessage (Cluster.Name c)) push
   = push\<lparr>Events := Events push @ [duplicateEvent proxy c]\<rparr>"
  by (simp add: Add_def duplicateEvent_def)

lemma normalizeLoop_eq:
  "normalizeLoop proxy cs have out push =
     (out @ keptFrom have cs,
      push\<lparr>Events := Events push @ map (duplicateEvent proxy) (droppedFrom have cs)\<rparr>)"
proof (induction cs arbitrary: "have" out push)
  case Nil
  show ?case by (simp add: keptFrom_Nil droppedFrom_Nil)
next
  case (Cons c cs)
  define seen where "seen = have(Cluster.Name c := True)"
  have kept: "keptFrom have (c # cs) = (if have (Cluster.Name c) then [] else [c]) @ keptFrom seen cs"
    unfolding seen_def by (rule keptFrom_Cons)
  have dropped:
    "droppedFrom have (c # cs) = (if have (Cluster.Name c) then [c] else []) @ droppedFrom seen cs"
    unfolding seen_def by (rule droppedFrom_Cons)
  have loop: "normalizeLoop proxy (c # cs) have out push =
      (if \<not> have (Cluster.Name c) then normalizeLoop proxy cs seen (out @ [c]) push
       else normalizeLoop proxy cs seen out
              (push\<lparr>Events := Events push @ [duplicateEvent proxy c]\<rparr>))"
    unfolding seen_def by (simp only: normalizeLoop.simps Add_duplicate)
  show ?case
    unfolding loop kept dropped Cons.IH by simp
qed

lemma normalizeLoop_distinct:
  "distinct (map Cluster.Name out) \<Longrightarrow> have = (\<lambda>n. n \<in> Cluster.Name ` set out) \<Longrightarrow>
   distinct (map Cluster.Name (fst (normalizeLoop proxy cs have out push)))"
proof (induction cs arbitrary: "have" out push)
  case Nil
  then show ?case by simp
next
  case (Cons c cs)
  show ?case
  proof (cases "have (Cluster.Name c)")
    case True
    have h: "have(Cluster.Name c := True) = (\<lambda>n. n \<in> Cluster.Name ` set out)"
      using True Cons.prems(2) by (simp add: fun_upd_idem)
    have step: "normalizeLoop proxy (c # cs) have out push =
        normalizeLoop proxy cs (have(Cluster.Name c := True)) out
          (Add DuplicatedClusters (Cluster.Name c) proxy
             (duplicateMessage (Cluster.Name c)) push)"
      using True by simp
    show ?thesis unfolding step by (rule Cons.IH [OF Cons.prems(1) h])
  next
    case False
    have d: "distinct (map Cluster.Name (out @ [c]))"
      using Cons.prems False by auto
    have h: "have(Cluster.Name c := True) = (\<lambda>n. n \<in> Cluster.Name ` set (out @ [c]))"
      using Cons.prems(2) by (auto simp: fun_eq_iff)
    have step: "normalizeLoop proxy (c # cs) have out push =
        normalizeLoop proxy cs (have(Cluster.Name c := True)) (out @ [c]) push"
      using False by simp
    show ?thesis unfolding step by (rule Cons.IH [OF d h])
  qed
qed

text \<open>
  Claim C1.  For every list of clusters, \<^verbatim>\<open>normalizeClusters\<close> returns, in the order of the
  input, exactly the clusters at the positions that hold the first cluster of their name; it
  appends to the push context one duplicate event for every other position, in order, and
  changes nothing else there; and no two clusters it returns have the same name.
\<close>

theorem normalizeClusters_first_wins:
  "fst (normalizeClusters push proxy clusters) =
     map (\<lambda>i. clusters ! i) (filter (firstOfName clusters) [0..<length clusters])
   \<and> snd (normalizeClusters push proxy clusters) =
     push\<lparr>Events := Events push @
       map (\<lambda>i. duplicateEvent proxy (clusters ! i))
         (filter (\<lambda>i. \<not> firstOfName clusters i) [0..<length clusters])\<rparr>
   \<and> distinct (map Cluster.Name (fst (normalizeClusters push proxy clusters)))"
proof (intro conjI)
  show "fst (normalizeClusters push proxy clusters) =
     map (\<lambda>i. clusters ! i) (filter (firstOfName clusters) [0..<length clusters])"
    by (simp add: normalizeClusters_def normalizeLoop_eq keptFrom_def)
  show "snd (normalizeClusters push proxy clusters) =
     push\<lparr>Events := Events push @
       map (\<lambda>i. duplicateEvent proxy (clusters ! i))
         (filter (\<lambda>i. \<not> firstOfName clusters i) [0..<length clusters])\<rparr>"
    by (simp add: normalizeClusters_def normalizeLoop_eq droppedFrom_def comp_def)
  show "distinct (map Cluster.Name (fst (normalizeClusters push proxy clusters)))"
    unfolding normalizeClusters_def by (rule normalizeLoop_distinct) simp_all
qed


text \<open>Three clusters, the third with the name of the first: the first two are returned and
  one event names the third.\<close>

theorem normalizeClusters_first_wins_witness:
  "fst (normalizeClusters examplePush exampleProxy
          [namedCluster ''a'' Cluster_ROUND_ROBIN, namedCluster ''b'' Cluster_RANDOM,
           namedCluster ''a'' Cluster_MAGLEV])
     = [namedCluster ''a'' Cluster_ROUND_ROBIN, namedCluster ''b'' Cluster_RANDOM]
   \<and> Events (snd (normalizeClusters examplePush exampleProxy
          [namedCluster ''a'' Cluster_ROUND_ROBIN, namedCluster ''b'' Cluster_RANDOM,
           namedCluster ''a'' Cluster_MAGLEV]))
     = [duplicateEvent exampleProxy (namedCluster ''a'' Cluster_MAGLEV)]"
  using normalizeClusters_first_wins [of examplePush exampleProxy
          "[namedCluster ''a'' Cluster_ROUND_ROBIN, namedCluster ''b'' Cluster_RANDOM,
           namedCluster ''a'' Cluster_MAGLEV]"]
  by (simp add: firstOfName_def namedCluster_def examplePush_def upt_rec)

subsection \<open>The traffic-policy resolver takes the first matching port-level entry\<close>

lemma portLevelLoop_find:
  "portLevelLoop port ps False acc =
     (case find (portMatches port) ps of None \<Rightarrow> acc | Some p \<Rightarrow> entryFacets p)"
  by (induction ps) (auto simp: portMatches_def entryFacets_def Let_def split: option.splits)

lemma portMatches_sameNumber:
  "0 \<le> Port.Port port \<Longrightarrow> Port.Port port < 2 ^ 32 \<Longrightarrow> portMatches port p = sameNumber port p"
proof (cases "PortTrafficPolicy.Port p")
  case None
  then show ?thesis by (simp add: portMatches_def sameNumber_def)
next
  case (Some sel)
  assume range: "0 \<le> Port.Port port" "Port.Port port < 2 ^ 32"
  have "uint (word_of_int (Port.Port port) :: uint32) = Port.Port port"
    using range by (simp add: uint_word_of_int take_bit_eq_mod)
  then have "(PortSelector.Number sel = word_of_int (Port.Port port))
      = (uint (PortSelector.Number sel) = Port.Port port)"
    by (metis word_of_int_uint)
  then show ?thesis using Some by (simp add: portMatches_def sameNumber_def)
qed

text \<open>
  Claim C6.  Without a policy the resolver returns four null facets, and without a port the
  four root facets.  With a port it returns the facets of the first port-level entry, in
  declared order, whose port number matches the target port, all four of them and nulls
  included, whatever the entries after it say; when no entry matches (in particular when
  there is none) it returns the root facets.  The match compares the entry's number with
  \<^verbatim>\<open>uint32(port.Port)\<close>, which for every target port from 0 to \<open>2^32 - 1\<close> is equality of
  the two port numbers.
\<close>

theorem SelectTrafficPolicyComponents_first_match:
  "SelectTrafficPolicyComponents None portOpt = (None, None, None, None)
   \<and> SelectTrafficPolicyComponents (Some pol) None = rootFacets pol
   \<and> SelectTrafficPolicyComponents (Some pol) (Some port) =
       (case find (portMatches port) (PortLevelSettings pol) of
          None \<Rightarrow> rootFacets pol
        | Some p \<Rightarrow> entryFacets p)
   \<and> (0 \<le> Port.Port port \<and> Port.Port port < 2 ^ 32 \<longrightarrow>
        find (portMatches port) (PortLevelSettings pol)
          = find (sameNumber port) (PortLevelSettings pol))"
proof (intro conjI impI)
  show "SelectTrafficPolicyComponents None portOpt = (None, None, None, None)"
    by (simp add: SelectTrafficPolicyComponents_def)
  show "SelectTrafficPolicyComponents (Some pol) None = rootFacets pol"
    by (simp add: SelectTrafficPolicyComponents_def rootFacets_def)
  show "SelectTrafficPolicyComponents (Some pol) (Some port) =
       (case find (portMatches port) (PortLevelSettings pol) of
          None \<Rightarrow> rootFacets pol
        | Some p \<Rightarrow> entryFacets p)"
  proof -
    have "SelectTrafficPolicyComponents (Some pol) (Some port) =
        (if length (PortLevelSettings pol) > 0
         then portLevelLoop port (PortLevelSettings pol) False (rootFacets pol)
         else rootFacets pol)"
      by (simp add: SelectTrafficPolicyComponents_def rootFacets_def)
    also have "\<dots> = (case find (portMatches port) (PortLevelSettings pol) of
          None \<Rightarrow> rootFacets pol
        | Some p \<Rightarrow> entryFacets p)"
      by (cases "PortLevelSettings pol") (simp_all only: portLevelLoop_find, simp_all)
    finally show ?thesis .
  qed
next
  assume "0 \<le> Port.Port port \<and> Port.Port port < 2 ^ 32"
  then have "portMatches port = sameNumber port"
    by (auto simp: fun_eq_iff portMatches_sameNumber)
  then show "find (portMatches port) (PortLevelSettings pol)
          = find (sameNumber port) (PortLevelSettings pol)"
    by simp
qed

text \<open>For port 80 the example policy yields the facets of its third entry: the load balancer
  of that entry and three nulls, although the root and the fourth entry carry TLS settings.\<close>

theorem SelectTrafficPolicyComponents_first_match_witness:
  "SelectTrafficPolicyComponents (Some examplePolicy) (Some examplePort)
     = (None, None, Some exampleLb, None)
   \<and> find (sameNumber examplePort) (PortLevelSettings examplePolicy)
     = Some (emptyEntry\<lparr>PortTrafficPolicy.Port := Some \<lparr>PortSelector.Number = 80\<rparr>,
                       PortTrafficPolicy.LoadBalancer := Some exampleLb\<rparr>)"
  using SelectTrafficPolicyComponents_first_match [where pol = examplePolicy and port = examplePort]
  by (simp add: examplePolicy_def examplePort_def emptyEntry_def portMatches_def sameNumber_def
        entryFacets_def)

subsection \<open>Auto-detected mesh-mutual TLS becomes a transport-socket match list\<close>

lemma convert_auto:
  "conditionallyConvertToIstioMtls d None serviceAccounts sni proxy True False
     = (Some (buildIstioMutualTLS d serviceAccounts sni proxy), autoDetected)"
  by (simp add: conditionallyConvertToIstioMtls_def autoTLSSettings_def Let_def)

lemma buildIstioMutualTLS_material:
  "DefaultCertChain d \<noteq> [] \<Longrightarrow> DefaultKey d \<noteq> [] \<Longrightarrow>
   Mode (buildIstioMutualTLS d serviceAccounts sni proxy) = ISTIO_MUTUAL
   \<and> ClientCertificate (buildIstioMutualTLS d serviceAccounts sni proxy) \<noteq> []
   \<and> TLSSettings.PrivateKey (buildIstioMutualTLS d serviceAccounts sni proxy) \<noteq> []"
  by (simp add: buildIstioMutualTLS_def GetOrDefault_def)

lemma applyUpstreamTLSSettings_mesh_mutual:
  assumes "Mode tls = ISTIO_MUTUAL" "ClientCertificate tls \<noteq> []" "TLSSettings.PrivateKey tls \<noteq> []"
  shows "TlsContext (applyUpstreamTLSSettings d env cluster (Some tls) userSupplied proxy) \<noteq> None"
    and "applyUpstreamTLSSettings d env cluster (Some tls) autoDetected proxy =
      (case MarshalAny d
              (TlsContext (applyUpstreamTLSSettings d env cluster (Some tls) userSupplied proxy)) of
         Inl err \<Rightarrow> cluster\<lparr>TlsContext := None\<rparr>
       | Inr tlsContext \<Rightarrow>
           cluster\<lparr>TlsContext := None,
                   TransportSocketMatches :=
                     [mtlsTransportSocketMatch tlsContext, plaintextTransportSocketMatch]\<rparr>)"
  using assms
  by (simp_all add: applyUpstreamTLSSettings_def convertToTransportSocketMatch_def Let_def
        mtlsTransportSocketMatch_def split: sum.splits)

subsection \<open>The weight of a locality group is the sum of its members' weights\<close>

lemma fold_weight_sum:
  "fold (\<lambda>ep weight. weight + f ep) eps (a :: uint32) = a + sum_list (map f eps)"
  by (induction eps arbitrary: a) (simp_all add: add.assoc)

lemma buildLbEndpoint_weight:
  "LbEndpoint.LoadBalancingWeight (buildLbEndpoint instance) = Some (memberWeight instance)"
  by (simp add: buildLbEndpoint_def memberWeight_def Let_def)

lemma map_of_appendAt:
  "map_of (appendAt m k ep) =
     (map_of m)(k \<mapsto> (case map_of m k of None \<Rightarrow> [] | Some eps \<Rightarrow> eps) @ [ep])"
  by (induction m k ep rule: appendAt.induct) (auto simp: fun_eq_iff)

lemma keys_appendAt: "fst ` set (appendAt m k ep) = insert k (fst ` set m)"
  by (induction m k ep rule: appendAt.induct) auto

lemma distinct_appendAt: "distinct (map fst m) \<Longrightarrow> distinct (map fst (appendAt m k ep))"
  by (induction m k ep rule: appendAt.induct) (auto simp: keys_appendAt)

lemma collectLbEndpoints_groups:
  "distinct (map fst m) \<Longrightarrow>
   distinct (map fst (collectLbEndpoints d nv instances m))
   \<and> (\<forall>l eps. map_of (collectLbEndpoints d nv instances m) l = Some eps \<longrightarrow>
         eps = (case map_of m l of None \<Rightarrow> [] | Some e \<Rightarrow> e)
                 @ map buildLbEndpoint (localityMembers d nv instances l)
         \<and> (map_of m l = None \<longrightarrow> localityMembers d nv instances l \<noteq> []))"
proof (induction instances arbitrary: m)
  case Nil
  then show ?case by (auto simp: localityMembers_def split: option.splits)
next
  case (Cons i instances)
  show ?case
  proof (cases "nv (Network (Endpoint i))")
    case False
    then show ?thesis using Cons.IH [OF Cons.prems] by (simp add: localityMembers_def)
  next
    case True
    define m' where "m' = appendAt m (GetLocality d i) (buildLbEndpoint i)"
    have dm: "distinct (map fst m')"
      unfolding m'_def by (rule distinct_appendAt [OF Cons.prems])
    have step: "collectLbEndpoints d nv (i # instances) m = collectLbEndpoints d nv instances m'"
      using True by (simp add: m'_def)
    have mo: "map_of m' =
        (map_of m)(GetLocality d i \<mapsto>
           (case map_of m (GetLocality d i) of None \<Rightarrow> [] | Some eps \<Rightarrow> eps) @ [buildLbEndpoint i])"
      unfolding m'_def by (rule map_of_appendAt)
    have mem: "\<And>l. localityMembers d nv (i # instances) l =
        (if GetLocality d i = l then [i] else []) @ localityMembers d nv instances l"
      using True by (simp add: localityMembers_def)
    from Cons.IH [OF dm] have D: "distinct (map fst (collectLbEndpoints d nv instances m'))"
      and G: "\<And>l eps. map_of (collectLbEndpoints d nv instances m') l = Some eps \<Longrightarrow>
         eps = (case map_of m' l of None \<Rightarrow> [] | Some e \<Rightarrow> e)
                 @ map buildLbEndpoint (localityMembers d nv instances l)
         \<and> (map_of m' l = None \<longrightarrow> localityMembers d nv instances l \<noteq> [])"
      by blast+
    have "eps = (case map_of m l of None \<Rightarrow> [] | Some e \<Rightarrow> e)
                 @ map buildLbEndpoint (localityMembers d nv (i # instances) l)
         \<and> (map_of m l = None \<longrightarrow> localityMembers d nv (i # instances) l \<noteq> [])"
      if A: "map_of (collectLbEndpoints d nv instances m') l = Some eps" for l eps
    proof (cases "GetLocality d i = l")
      case True
      then have "map_of m' l = Some ((case map_of m l of None \<Rightarrow> [] | Some e \<Rightarrow> e)
                                       @ [buildLbEndpoint i])"
        by (simp add: mo)
      with G [OF A] True show ?thesis by (simp add: mem)
    next
      case False
      then have "map_of m' l = map_of m l" by (simp add: mo)
      with G [OF A] False show ?thesis by (simp add: mem)
    qed
    with D show ?thesis unfolding step by blast
  qed
qed

lemma localityLbEndpointsOf_groups:
  assumes "g \<in> set (localityLbEndpointsOf d nv instances)"
  shows "\<exists>l. LocalityLbEndpoints.Locality g = Some (ConvertLocality l)
     \<and> localityMembers d nv instances l \<noteq> []
     \<and> LbEndpoints g = map buildLbEndpoint (localityMembers d nv instances l)
     \<and> LocalityLbEndpoints.LoadBalancingWeight g
         = Some (sum_list (map memberWeight (localityMembers d nv instances l)))"
proof -
  from assms obtain l eps where
    in_m: "(l, eps) \<in> set (collectLbEndpoints d nv instances [])" and g: "g = localityGroup (l, eps)"
    by (auto simp: localityLbEndpointsOf_def)
  have inv: "distinct (map fst (collectLbEndpoints d nv instances []))"
    and grp: "\<And>l eps. map_of (collectLbEndpoints d nv instances []) l = Some eps \<Longrightarrow>
         eps = map buildLbEndpoint (localityMembers d nv instances l)
         \<and> localityMembers d nv instances l \<noteq> []"
    using collectLbEndpoints_groups [of "[]" d nv instances] by auto
  from in_m inv have "map_of (collectLbEndpoints d nv instances []) l = Some eps"
    by simp
  from grp [OF this] have eps: "eps = map buildLbEndpoint (localityMembers d nv instances l)"
    and ne: "localityMembers d nv instances l \<noteq> []" by auto
  have w: "map (\<lambda>ep. GetValue (LbEndpoint.LoadBalancingWeight ep)) eps
      = map memberWeight (localityMembers d nv instances l)"
    by (simp add: eps buildLbEndpoint_weight GetValue_def comp_def)
  show ?thesis
    by (rule exI [of _ l]) (simp add: g localityGroup_def fold_weight_sum w ne, simp add: eps)
qed

lemma unat_sum_list_mod:
  "unat (sum_list ws :: uint32) = sum_list (map unat ws) mod 2 ^ 32"
proof (induction ws)
  case Nil
  show ?case by simp
next
  case (Cons w ws)
  have "unat (w + sum_list ws) = (unat w + unat (sum_list ws)) mod 2 ^ 32"
    by (simp add: unat_word_ariths)
  also have "\<dots> = (unat w + sum_list (map unat ws) mod 2 ^ 32) mod 2 ^ 32"
    by (simp only: Cons.IH)
  also have "\<dots> = (unat w + sum_list (map unat ws)) mod 2 ^ 32"
    by (rule mod_add_right_eq)
  finally show ?case by simp
qed

text \<open>
  Claim C9, as stated, fails where the sum of the member weights reaches \<open>2^32\<close>: the weight
  is accumulated in a \<open>uint32\<close>.  For a service with DNS resolution and two instances of one
  locality, each of weight \<open>2^31\<close>, the materializer returns one group whose two endpoints
  have weight \<open>2147483648\<close> and whose own weight is \<open>0\<close>, not \<open>4294967296\<close>.
\<close>

theorem locality_group_weight_wraps_counterexample:
  "map (\<lambda>g. map (\<lambda>e. map_option unat (LbEndpoint.LoadBalancingWeight e)) (LbEndpoints g))
       (buildLocalityLbEndpoints exampleDeps (registryEnv heavyInstances)
          (GetNetworkView exampleDeps exampleProxy) exampleDnsService 80 [])
     = [[Some 2147483648, Some 2147483648]]
   \<and> map (\<lambda>g. map_option unat (LocalityLbEndpoints.LoadBalancingWeight g))
       (buildLocalityLbEndpoints exampleDeps (registryEnv heavyInstances)
          (GetNetworkView exampleDeps exampleProxy) exampleDnsService 80 [])
     = [Some 0]"
  by (simp add: buildLocalityLbEndpoints_def exampleDnsService_def exampleService_def
        registryEnv_def exampleEnv_def heavyInstances_def localityLbEndpointsOf_def
        localityGroup_def exampleInstanceAt_def exampleDeps_def buildLbEndpoint_def GetValue_def
        Let_def)

text \<open>
  Claim C9, amended.  Every locality group that the endpoint materializer hands to the weight
  normalisation stands for one locality with at least one admitted instance: its endpoints
  are the LB endpoints of the instances of that locality that pass the proxy's network view,
  in the registry's order, each with the endpoint's weight when that is greater than 0 and
  with 1 otherwise, and the group's weight is the \<open>uint32\<close> sum of these weights, that is
  their sum modulo \<open>2^32\<close>; it is their sum whenever that is below \<open>2^32\<close>.  For a service
  with DNS resolution whose instances the registry returns, the materializer's result is the
  normalisation of this list.
\<close>

theorem locality_group_weight_is_sum_mod_2_32:
  "(\<forall>g \<in> set (localityLbEndpointsOf d proxyNetworkView instances).
      \<exists>locality.
        LocalityLbEndpoints.Locality g = Some (ConvertLocality locality)
        \<and> localityMembers d proxyNetworkView instances locality \<noteq> []
        \<and> LbEndpoints g = map buildLbEndpoint (localityMembers d proxyNetworkView instances locality)
        \<and> map LbEndpoint.LoadBalancingWeight (LbEndpoints g)
            = map (\<lambda>i. Some (memberWeight i))
                (localityMembers d proxyNetworkView instances locality)
        \<and> LocalityLbEndpoints.LoadBalancingWeight g
            = Some (sum_list (map memberWeight
                       (localityMembers d proxyNetworkView instances locality)))
        \<and> map_option unat (LocalityLbEndpoints.LoadBalancingWeight g)
            = Some (sum_list (map (\<lambda>i. unat (memberWeight i))
                       (localityMembers d proxyNetworkView instances locality)) mod 2 ^ 32)
        \<and> (sum_list (map (\<lambda>i. unat (memberWeight i))
                       (localityMembers d proxyNetworkView instances locality)) < 2 ^ 32 \<longrightarrow>
             map_option unat (LocalityLbEndpoints.LoadBalancingWeight g)
               = Some (sum_list (map (\<lambda>i. unat (memberWeight i))
                          (localityMembers d proxyNetworkView instances locality)))))
   \<and> (\<forall>instance. LbEndpoint.LoadBalancingWeight (buildLbEndpoint instance)
                      = Some (if 0 < LbWeight (Endpoint instance) then LbWeight (Endpoint instance)
                              else 1))
   \<and> (Service.Resolution service = DNSLB \<and> InstancesByPort env service port labels = Inr instances
        \<longrightarrow> buildLocalityLbEndpoints d env proxyNetworkView service port labels
              = LocalityLbWeightNormalize d (localityLbEndpointsOf d proxyNetworkView instances))"
proof (intro conjI ballI allI impI)
  fix g
  assume "g \<in> set (localityLbEndpointsOf d proxyNetworkView instances)"
  from localityLbEndpointsOf_groups [OF this] obtain l where
    l: "LocalityLbEndpoints.Locality g = Some (ConvertLocality l)"
       "localityMembers d proxyNetworkView instances l \<noteq> []"
       "LbEndpoints g = map buildLbEndpoint (localityMembers d proxyNetworkView instances l)"
       "LocalityLbEndpoints.LoadBalancingWeight g
          = Some (sum_list (map memberWeight (localityMembers d proxyNetworkView instances l)))"
    by blast
  let ?n = "sum_list (map (\<lambda>i. unat (memberWeight i))
                (localityMembers d proxyNetworkView instances l))"
  have w: "map LbEndpoint.LoadBalancingWeight (LbEndpoints g)
      = map (\<lambda>i. Some (memberWeight i)) (localityMembers d proxyNetworkView instances l)"
    by (simp add: l(3) buildLbEndpoint_weight)
  have m: "map_option unat (LocalityLbEndpoints.LoadBalancingWeight g) = Some (?n mod 2 ^ 32)"
    using unat_sum_list_mod [of "map memberWeight (localityMembers d proxyNetworkView instances l)"]
    by (simp add: l(4) comp_def)
  have "?n < 2 ^ 32 \<longrightarrow> map_option unat (LocalityLbEndpoints.LoadBalancingWeight g) = Some ?n"
  proof
    assume "?n < 2 ^ 32"
    then have "?n mod 2 ^ 32 = ?n" by (rule mod_less)
    then show "map_option unat (LocalityLbEndpoints.LoadBalancingWeight g) = Some ?n"
      by (simp only: m)
  qed
  with l w m show "\<exists>locality.
        LocalityLbEndpoints.Locality g = Some (ConvertLocality locality)
        \<and> localityMembers d proxyNetworkView instances locality \<noteq> []
        \<and> LbEndpoints g = map buildLbEndpoint (localityMembers d proxyNetworkView instances locality)
        \<and> map LbEndpoint.LoadBalancingWeight (LbEndpoints g)
            = map (\<lambda>i. Some (memberWeight i))
                (localityMembers d proxyNetworkView instances locality)
        \<and> LocalityLbEndpoints.LoadBalancingWeight g
            = Some (sum_list (map memberWeight
                       (localityMembers d proxyNetworkView instances locality)))
        \<and> map_option unat (LocalityLbEndpoints.LoadBalancingWeight g)
            = Some (sum_list (map (\<lambda>i. unat (memberWeight i))
                       (localityMembers d proxyNetworkView instances locality)) mod 2 ^ 32)
        \<and> (sum_list (map (\<lambda>i. unat (memberWeight i))
                       (localityMembers d proxyNetworkView instances locality)) < 2 ^ 32 \<longrightarrow>
             map_option unat (LocalityLbEndpoints.LoadBalancingWeight g)
               = Some (sum_list (map (\<lambda>i. unat (memberWeight i))
                          (localityMembers d proxyNetworkView instances locality))))"
    by blast
next
  fix inst
  show "LbEndpoint.LoadBalancingWeight (buildLbEndpoint inst)
          = Some (if 0 < LbWeight (Endpoint inst) then LbWeight (Endpoint inst) else 1)"
    by (simp add: buildLbEndpoint_weight memberWeight_def)
next
  assume "Service.Resolution service = DNSLB \<and> InstancesByPort env service port labels = Inr instances"
  then show "buildLocalityLbEndpoints d env proxyNetworkView service port labels
              = LocalityLbWeightNormalize d (localityLbEndpointsOf d proxyNetworkView instances)"
    by (simp add: buildLocalityLbEndpoints_def)
qed

text \<open>A service with DNS resolution and four instances, one of them on a network outside the
  view: the materializer returns two groups, of weights \<open>1 + 5\<close> and \<open>3\<close>.\<close>

theorem locality_group_weight_is_sum_mod_2_32_witness:
  "Service.Resolution exampleDnsService = DNSLB
   \<and> InstancesByPort (registryEnv exampleInstances) exampleDnsService 80 [] = Inr exampleInstances
   \<and> map LocalityLbEndpoints.Locality
       (buildLocalityLbEndpoints exampleDeps (registryEnv exampleInstances)
          (GetNetworkView exampleDeps exampleProxy) exampleDnsService 80 [])
     = [Some (ConvertLocality ''us/east/a''), Some (ConvertLocality ''us/west/b'')]
   \<and> map (\<lambda>g. map LbEndpoint.LoadBalancingWeight (LbEndpoints g))
       (buildLocalityLbEndpoints exampleDeps (registryEnv exampleInstances)
          (GetNetworkView exampleDeps exampleProxy) exampleDnsService 80 [])
     = [[Some 1, Some 5], [Some 3]]
   \<and> map LocalityLbEndpoints.LoadBalancingWeight
       (buildLocalityLbEndpoints exampleDeps (registryEnv exampleInstances)
          (GetNetworkView exampleDeps exampleProxy) exampleDnsService 80 [])
     = [Some 6, Some 3]
   \<and> map (\<lambda>l. map (\<lambda>i. unat (memberWeight i))
                (localityMembers exampleDeps (GetNetworkView exampleDeps exampleProxy)
                   exampleInstances l))
       [''us/east/a'', ''us/west/b'']
     = [[1, 5], [3]]"
  using locality_group_weight_is_sum_mod_2_32
          [where d = exampleDeps and proxyNetworkView = "GetNetworkView exampleDeps exampleProxy"
             and instances = exampleInstances and service = exampleDnsService
             and env = "registryEnv exampleInstances" and port = 80 and labels = "[]"]
  by (simp add: localityLbEndpointsOf_def localityGroup_def exampleInstances_def
        exampleInstanceAt_def exampleDeps_def buildLbEndpoint_def GetValue_def Let_def
        localityMembers_def memberWeight_def registryEnv_def exampleEnv_def
        exampleDnsService_def exampleService_def buildLocalityLbEndpoints_def)

subsection \<open>What each step leaves untouched\<close>

text \<open>The properties below read six fields of a cluster: name, discovery type, load
  assignment, EDS configuration, load-balancer policy and transport-socket matches.\<close>

lemma applyTCPKeepalive_fields [simp]:
  "Cluster.Name (applyTCPKeepalive env c tcp) = Cluster.Name c"
  "ClusterDiscoveryType (applyTCPKeepalive env c tcp) = ClusterDiscoveryType c"
  "LoadAssignment (applyTCPKeepalive env c tcp) = LoadAssignment c"
  "EdsClusterConfig (applyTCPKeepalive env c tcp) = EdsClusterConfig c"
  "Cluster.LbPolicy (applyTCPKeepalive env c tcp) = Cluster.LbPolicy c"
  "TransportSocketMatches (applyTCPKeepalive env c tcp) = TransportSocketMatches c"
  by (simp_all add: applyTCPKeepalive_def Let_def split: option.splits prod.splits)

lemma applyConnectionPool_fields [simp]:
  "Cluster.Name (applyConnectionPool env c settings direction) = Cluster.Name c"
  "ClusterDiscoveryType (applyConnectionPool env c settings direction) = ClusterDiscoveryType c"
  "LoadAssignment (applyConnectionPool env c settings direction) = LoadAssignment c"
  "EdsClusterConfig (applyConnectionPool env c settings direction) = EdsClusterConfig c"
  "Cluster.LbPolicy (applyConnectionPool env c settings direction) = Cluster.LbPolicy c"
  "TransportSocketMatches (applyConnectionPool env c settings direction) = TransportSocketMatches c"
  by (simp_all add: applyConnectionPool_def Let_def split: option.splits prod.splits)

lemma applyOutlierDetection_fields [simp]:
  "Cluster.Name (applyOutlierDetection c outlier) = Cluster.Name c"
  "ClusterDiscoveryType (applyOutlierDetection c outlier) = ClusterDiscoveryType c"
  "LoadAssignment (applyOutlierDetection c outlier) = LoadAssignment c"
  "EdsClusterConfig (applyOutlierDetection c outlier) = EdsClusterConfig c"
  "Cluster.LbPolicy (applyOutlierDetection c outlier) = Cluster.LbPolicy c"
  "TransportSocketMatches (applyOutlierDetection c outlier) = TransportSocketMatches c"
  by (simp_all add: applyOutlierDetection_def Let_def split: option.splits)

lemma applyLoadBalancer_fields [simp]:
  "Cluster.Name (applyLoadBalancer d c lb port proxy) = Cluster.Name c"
  "LoadAssignment (applyLoadBalancer d c lb port proxy) = LoadAssignment c"
  "EdsClusterConfig (applyLoadBalancer d c lb port proxy) = EdsClusterConfig c"
  "TransportSocketMatches (applyLoadBalancer d c lb port proxy) = TransportSocketMatches c"
  by (simp_all add: applyLoadBalancer_def Let_def split: option.splits SimpleLB.splits)

lemma applyLoadBalancer_type:
  "ClusterDiscoveryType (applyLoadBalancer d c lb port proxy) = ClusterDiscoveryType c
   \<or> ClusterDiscoveryType (applyLoadBalancer d c lb port proxy)
       = Some (Cluster_Type Cluster_ORIGINAL_DST)"
  by (simp add: applyLoadBalancer_def Let_def split: option.splits SimpleLB.splits)

lemma applyLoadBalancer_originalDst:
  "originalDstProvided d proxy c \<Longrightarrow> originalDstProvided d proxy (applyLoadBalancer d c lb port proxy)"
  by (auto simp: applyLoadBalancer_def originalDstProvided_def Let_def GetSimple_def
        GetConsistentHash_def
      split: option.splits SimpleLB.splits LoadBalancerSettings_LbPolicy.splits)

lemma convertToTransportSocketMatch_fields [simp]:
  "Cluster.Name (convertToTransportSocketMatch d c tls ctx) = Cluster.Name c"
  "ClusterDiscoveryType (convertToTransportSocketMatch d c tls ctx) = ClusterDiscoveryType c"
  "LoadAssignment (convertToTransportSocketMatch d c tls ctx) = LoadAssignment c"
  "EdsClusterConfig (convertToTransportSocketMatch d c tls ctx) = EdsClusterConfig c"
  "Cluster.LbPolicy (convertToTransportSocketMatch d c tls ctx) = Cluster.LbPolicy c"
  "TransportSocketMatches (convertToTransportSocketMatch d c tls userSupplied)
     = TransportSocketMatches c"
  by (simp_all add: convertToTransportSocketMatch_def split: sum.splits)

lemma applyUpstreamTLSSettings_fields [simp]:
  "Cluster.Name (applyUpstreamTLSSettings d env c tls ctx proxy) = Cluster.Name c"
  "ClusterDiscoveryType (applyUpstreamTLSSettings d env c tls ctx proxy) = ClusterDiscoveryType c"
  "LoadAssignment (applyUpstreamTLSSettings d env c tls ctx proxy) = LoadAssignment c"
  "EdsClusterConfig (applyUpstreamTLSSettings d env c tls ctx proxy) = EdsClusterConfig c"
  "Cluster.LbPolicy (applyUpstreamTLSSettings d env c tls ctx proxy) = Cluster.LbPolicy c"
  "TransportSocketMatches (applyUpstreamTLSSettings d env c tls userSupplied proxy)
     = TransportSocketMatches c"
  by (simp_all add: applyUpstreamTLSSettings_def Let_def split: option.splits TLSmode.splits)


lemma applyTrafficPolicy_fields [simp]:
  "Cluster.Name (applyTrafficPolicy d opts proxy) = Cluster.Name (opts_cluster opts)"
  "LoadAssignment (applyTrafficPolicy d opts proxy) = LoadAssignment (opts_cluster opts)"
  "EdsClusterConfig (applyTrafficPolicy d opts proxy) = EdsClusterConfig (opts_cluster opts)"
  by (simp_all add: applyTrafficPolicy_def Let_def split: prod.splits)

lemma applyTrafficPolicy_type:
  "ClusterDiscoveryType (applyTrafficPolicy d opts proxy) = ClusterDiscoveryType (opts_cluster opts)
   \<or> ClusterDiscoveryType (applyTrafficPolicy d opts proxy)
       = Some (Cluster_Type Cluster_ORIGINAL_DST)"
proof -
  obtain cp od lb tls where
    sel: "SelectTrafficPolicyComponents (opts_policy opts) (opts_port opts) = (cp, od, lb, tls)"
    by (cases "SelectTrafficPolicyComponents (opts_policy opts) (opts_port opts)") auto
  show ?thesis
    using applyLoadBalancer_type
            [of d "applyOutlierDetection
                     (applyConnectionPool (opts_env opts) (opts_cluster opts) cp (opts_direction opts))
                     od" lb "opts_port opts" proxy]
    by (simp add: applyTrafficPolicy_def sel Let_def split: prod.splits)
qed

lemma applyTrafficPolicy_originalDst:
  assumes "originalDstProvided d proxy (opts_cluster opts)"
  shows "originalDstProvided d proxy (applyTrafficPolicy d opts proxy)"
proof -
  obtain cp od lb tls where
    sel: "SelectTrafficPolicyComponents (opts_policy opts) (opts_port opts) = (cp, od, lb, tls)"
    by (cases "SelectTrafficPolicyComponents (opts_policy opts) (opts_port opts)") auto
  let ?c = "applyOutlierDetection
              (applyConnectionPool (opts_env opts) (opts_cluster opts) cp (opts_direction opts)) od"
  have "originalDstProvided d proxy ?c"
    using assms by (simp add: originalDstProvided_def)
  then have "originalDstProvided d proxy (applyLoadBalancer d ?c lb (opts_port opts) proxy)"
    by (rule applyLoadBalancer_originalDst)
  then show ?thesis
    by (simp add: applyTrafficPolicy_def sel Let_def originalDstProvided_def split: prod.splits)
qed


lemma setUpstreamProtocol_fields [simp]:
  "Cluster.Name (setUpstreamProtocol d node c port direction) = Cluster.Name c"
  "ClusterDiscoveryType (setUpstreamProtocol d node c port direction) = ClusterDiscoveryType c"
  "LoadAssignment (setUpstreamProtocol d node c port direction) = LoadAssignment c"
  "EdsClusterConfig (setUpstreamProtocol d node c port direction) = EdsClusterConfig c"
  "Cluster.LbPolicy (setUpstreamProtocol d node c port direction) = Cluster.LbPolicy c"
  "TransportSocketMatches (setUpstreamProtocol d node c port direction) = TransportSocketMatches c"
  by (simp_all add: setUpstreamProtocol_def Let_def)

lemma updateEds_fields [simp]:
  "Cluster.Name (updateEds d c) = Cluster.Name c"
  "ClusterDiscoveryType (updateEds d c) = ClusterDiscoveryType c"
  "LoadAssignment (updateEds d c) = LoadAssignment c"
  "Cluster.LbPolicy (updateEds d c) = Cluster.LbPolicy c"
  "TransportSocketMatches (updateEds d c) = TransportSocketMatches c"
  by (simp_all add: updateEds_def split: option.splits Cluster_ClusterDiscoveryType.splits)

lemma updateEds_config:
  "ClusterDiscoveryType c = Some (Cluster_Type Cluster_EDS) \<Longrightarrow> EdsClusterConfig (updateEds d c) \<noteq> None"
  by (simp add: updateEds_def)

subsection \<open>From the clusters that are built to the clusters that are returned\<close>

lemma fold_preserve:
  "(\<And>p c. p \<in> set ps \<Longrightarrow> P c \<Longrightarrow> P (f p c)) \<Longrightarrow> P c \<Longrightarrow> P (fold f ps c)"
  by (induction ps arbitrary: c) auto

lemma callOutboundPlugins_preserve:
  "pluginsPreserve configgen P \<Longrightarrow> P c \<Longrightarrow> P (callOutboundPlugins configgen params c)"
  unfolding callOutboundPlugins_def
  by (rule fold_preserve) (auto simp: pluginsPreserve_def)


lemma outboundSubsets_Cons:
  "outboundSubsets d configgen env proxy push service port destRule lb (sub # subsets) =
     fst (outboundSubsetCluster d configgen env proxy push service port destRule lb sub)
       # outboundSubsets d configgen env proxy push service port destRule
           (snd (outboundSubsetCluster d configgen env proxy push service port destRule lb sub))
           subsets"
  by (simp split: prod.splits)




















subsection \<open>The clusters of the factory and of the sink builders\<close>

lemma select_default:
  "SelectTrafficPolicyComponents (Some (buildDefaultTrafficPolicy env dt)) port =
     (TrafficPolicy.ConnectionPool (buildDefaultTrafficPolicy env dt), None,
      Some \<lparr>LoadBalancerSettings.LbPolicy =
              Some (LoadBalancerSettings_Simple
                      (if dt = Cluster_ORIGINAL_DST then PASSTHROUGH else DefaultLbType))\<rparr>,
      None)"
  by (cases port)
     (simp_all add: SelectTrafficPolicyComponents_def buildDefaultTrafficPolicy_def Let_def)

lemma applyLoadBalancer_type_keep:
  "GetSimple lb \<noteq> PASSTHROUGH
     \<or> ClusterDiscoveryType c = Some (Cluster_Type Cluster_ORIGINAL_DST) \<Longrightarrow>
   ClusterDiscoveryType (applyLoadBalancer d c (Some lb) port proxy) = ClusterDiscoveryType c"
  by (auto simp: applyLoadBalancer_def Let_def split: option.splits SimpleLB.splits)

lemma buildDefaultCluster_fields [simp]:
  "Cluster.Name (buildDefaultCluster d env name dt eps direction proxy port meshExternal) = name"
  "LoadAssignment (buildDefaultCluster d env name dt eps direction proxy port meshExternal) =
     (if dt = Cluster_STATIC \<or> dt = Cluster_STRICT_DNS
      then Some \<lparr>ClusterName = name, Endpoints = eps\<rparr> else None)"
  "EdsClusterConfig (buildDefaultCluster d env name dt eps direction proxy port meshExternal) = None"
  by (simp_all add: buildDefaultCluster_def Let_def zeroCluster_def)

lemma applyLoadBalancer_simple_type:
  "s \<noteq> PASSTHROUGH \<or> ClusterDiscoveryType c = Some (Cluster_Type Cluster_ORIGINAL_DST) \<Longrightarrow>
   ClusterDiscoveryType
     (applyLoadBalancer d c
        (Some \<lparr>LoadBalancerSettings.LbPolicy = Some (LoadBalancerSettings_Simple s)\<rparr>) port proxy)
     = ClusterDiscoveryType c"
  by (rule applyLoadBalancer_type_keep) (simp add: GetSimple_def)

lemma applyLoadBalancer_Some_originalDst:
  "originalDstProvided d proxy (applyLoadBalancer d c (Some lb) port proxy)"
  by (auto simp: applyLoadBalancer_def originalDstProvided_def Let_def GetSimple_def
        GetConsistentHash_def
      split: option.splits SimpleLB.splits LoadBalancerSettings_LbPolicy.splits)

lemma originalDstProvided_frames [simp]:
  "originalDstProvided d proxy (applyUpstreamTLSSettings d' env c tls ctx proxy')
     = originalDstProvided d proxy c"
  "originalDstProvided d proxy (applyConnectionPool env c settings direction)
     = originalDstProvided d proxy c"
  "originalDstProvided d proxy (applyOutlierDetection c outlier) = originalDstProvided d proxy c"
  "originalDstProvided d proxy (setUpstreamProtocol d' node c port direction)
     = originalDstProvided d proxy c"
  "originalDstProvided d proxy (updateEds d' c) = originalDstProvided d proxy c"
  by (simp_all add: originalDstProvided_def)

lemma buildDefaultCluster_type [simp]:
  "ClusterDiscoveryType (buildDefaultCluster d env name dt eps direction proxy port meshExternal)
     = Some (Cluster_Type dt)"
  by (simp add: buildDefaultCluster_def Let_def applyTrafficPolicy_def select_default
        applyLoadBalancer_simple_type DefaultLbType_def zeroCluster_def
        split: prod.splits)

lemma buildDefaultCluster_originalDst:
  "originalDstProvided d proxy
     (buildDefaultCluster d env name dt eps direction proxy port meshExternal)"
  by (simp add: buildDefaultCluster_def Let_def applyTrafficPolicy_def select_default
        applyLoadBalancer_Some_originalDst split: prod.splits)


lemma buildBlackHoleCluster_fields [simp]:
  "Cluster.Name (buildBlackHoleCluster env) = BlackHoleCluster"
  "ClusterDiscoveryType (buildBlackHoleCluster env) = Some (Cluster_Type Cluster_STATIC)"
  "LoadAssignment (buildBlackHoleCluster env) = None"
  "EdsClusterConfig (buildBlackHoleCluster env) = None"
  "Cluster.LbPolicy (buildBlackHoleCluster env) = Cluster_ROUND_ROBIN"
  "TransportSocketMatches (buildBlackHoleCluster env) = []"
  by (simp_all add: buildBlackHoleCluster_def zeroCluster_def)

lemma buildDefaultPassthroughCluster_fields [simp]:
  "Cluster.Name (buildDefaultPassthroughCluster d env proxy) = PassthroughCluster"
  "ClusterDiscoveryType (buildDefaultPassthroughCluster d env proxy)
     = Some (Cluster_Type Cluster_ORIGINAL_DST)"
  "LoadAssignment (buildDefaultPassthroughCluster d env proxy) = None"
  "EdsClusterConfig (buildDefaultPassthroughCluster d env proxy) = None"
  "Cluster.LbPolicy (buildDefaultPassthroughCluster d env proxy) = lbPolicyClusterProvided d proxy"
  "TransportSocketMatches (buildDefaultPassthroughCluster d env proxy) = []"
  by (simp_all add: buildDefaultPassthroughCluster_def Let_def zeroCluster_def)

subsection \<open>Without auto-mTLS no cluster carries a transport-socket match\<close>




lemma sniDnatOpts_fields [simp]:
  "opts_env (sniDnatOpts env cluster policy port proxy) = env"
  "opts_cluster (sniDnatOpts env cluster policy port proxy) = cluster"
  "opts_clusterMode (sniDnatOpts env cluster policy port proxy) = SniDnatClusterMode"
  by (simp_all add: sniDnatOpts_def)






subsection \<open>The names of the clusters each generator emits\<close>

lemma callOutboundPlugins_name:
  "pluginsKeepNames configgen \<Longrightarrow>
   Cluster.Name (callOutboundPlugins configgen params c) = Cluster.Name c"
  unfolding callOutboundPlugins_def
  by (rule fold_preserve [where P = "\<lambda>c'. Cluster.Name c' = Cluster.Name c"])
     (auto simp: pluginsKeepNames_def)


lemma outboundSubsetCluster_name:
  "pluginsKeepNames configgen \<Longrightarrow>
   Cluster.Name (fst (outboundSubsetCluster d configgen env proxy push service port destRule lb sub))
     = BuildSubsetKey TrafficDirectionOutbound (Subset.Name sub) (Hostname service) (Port.Port port)"
  by (simp add: outboundSubsetCluster_def Let_def callOutboundPlugins_name)

lemma outboundSubsets_names:
  "pluginsKeepNames configgen \<Longrightarrow>
   map Cluster.Name (outboundSubsets d configgen env proxy push service port destRule lb subsets)
     = map (\<lambda>sub. BuildSubsetKey TrafficDirectionOutbound (Subset.Name sub) (Hostname service)
                     (Port.Port port)) subsets"
proof (induction subsets arbitrary: lb)
  case Nil
  show ?case by simp
next
  case (Cons sub subsets)
  show ?case
    unfolding outboundSubsets_Cons
    by (simp add: Cons.IH [OF Cons.prems] outboundSubsetCluster_name [OF Cons.prems])
qed

lemma outboundPortClusters_names:
  "pluginsKeepNames configgen \<Longrightarrow>
   map Cluster.Name (outboundPortClusters d configgen env proxy push service port)
     = BuildSubsetKey TrafficDirectionOutbound [] (Hostname service) (Port.Port port)
       # map (\<lambda>sub. BuildSubsetKey TrafficDirectionOutbound (Subset.Name sub) (Hostname service)
                       (Port.Port port))
           (Subsets (castDestinationRuleOrDefault (DestinationRule push proxy service)))"
  by (simp add: outboundPortClusters_def Let_def callOutboundPlugins_name outboundSubsets_names)




lemma managementCluster_name:
  "Cluster.Name (managementCluster d env proxy host port)
     = BuildSubsetKey TrafficDirectionInbound (Port.Name port) ManagementClusterHostname
         (Port.Port port)"
  by (simp add: managementCluster_def Let_def)















subsection \<open>Mutual TLS without key material leaves the TLS context as it was\<close>

lemma applyUpstreamTLSSettings_early_return:
  "Mode tls = MUTUAL \<or> Mode tls = ISTIO_MUTUAL \<Longrightarrow>
   ClientCertificate tls = [] \<or> TLSSettings.PrivateKey tls = [] \<Longrightarrow>
   applyUpstreamTLSSettings d env cluster (Some tls) mtlsCtxType proxy = cluster"
  by (auto simp: applyUpstreamTLSSettings_def Let_def split: TLSmode.splits)

lemma Itoa_80: "Itoa 80 = ''80''"
  by code_simp

lemma applyTCPKeepalive_tls [simp]:
  "TlsContext (applyTCPKeepalive env c tcp) = TlsContext c"
  by (simp add: applyTCPKeepalive_def Let_def split: option.splits prod.splits)

lemma tuning_tls [simp]:
  "TlsContext (applyConnectionPool env c settings direction) = TlsContext c"
  "TlsContext (applyOutlierDetection c outlier) = TlsContext c"
  "TlsContext (applyLoadBalancer d c lb port proxy) = TlsContext c"
  "TlsContext (setUpstreamProtocol d node c prt direction) = TlsContext c"
  "TlsContext (updateEds d c) = TlsContext c"
proof -
  show "TlsContext (applyConnectionPool env c settings direction) = TlsContext c"
    by (simp add: applyConnectionPool_def Let_def split: option.splits prod.splits)
  show "TlsContext (applyOutlierDetection c outlier) = TlsContext c"
    by (simp add: applyOutlierDetection_def Let_def split: option.splits)
  show "TlsContext (applyLoadBalancer d c lb port proxy) = TlsContext c"
    by (simp add: applyLoadBalancer_def Let_def split: option.splits SimpleLB.splits)
  show "TlsContext (setUpstreamProtocol d node c prt direction) = TlsContext c"
    by (simp add: setUpstreamProtocol_def Let_def)
  show "TlsContext (updateEds d c) = TlsContext c"
    by (simp add: updateEds_def split: option.splits Cluster_ClusterDiscoveryType.splits)
qed

text \<open>A pass of \<^verbatim>\<open>applyTrafficPolicy\<close>: the tuning steps, then the resolved TLS setting unless
  the cluster is built in SNI-DNAT mode.\<close>

lemma applyTrafficPolicy_unfold:
  "applyTrafficPolicy d
     \<lparr>opts_env = env, opts_cluster = c, opts_policy = policy, opts_port = port,
      opts_serviceAccounts = serviceAccounts, opts_sni = sni, opts_clusterMode = mode,
      opts_direction = direction, opts_proxy = node, opts_meshExternal = meshExternal\<rparr> proxy =
     (let sel = SelectTrafficPolicyComponents policy port;
          cluster =
            applyLoadBalancer d
              (applyOutlierDetection (applyConnectionPool env c (fst sel) direction) (fst (snd sel)))
              (fst (snd (snd sel))) port proxy
      in if mode \<noteq> SniDnatClusterMode
         then applyUpstreamTLSSettings d env cluster
                (fst (resolvedTLS d env node policy port serviceAccounts sni meshExternal))
                (snd (resolvedTLS d env node policy port serviceAccounts sni meshExternal)) node
         else cluster)"
  by (simp add: applyTrafficPolicy_def resolvedTLS_def Let_def split: prod.splits)

lemma applyTrafficPolicy_missing_key:
  assumes "fst (resolvedTLS d env node policy port serviceAccounts sni meshExternal) = Some tls"
    and "missingKeyMaterial tls"
  shows "TlsContext (applyTrafficPolicy d
     \<lparr>opts_env = env, opts_cluster = c, opts_policy = policy, opts_port = port,
      opts_serviceAccounts = serviceAccounts, opts_sni = sni, opts_clusterMode = mode,
      opts_direction = direction, opts_proxy = node, opts_meshExternal = meshExternal\<rparr> proxy)
     = TlsContext c"
    and "TransportSocketMatches (applyTrafficPolicy d
     \<lparr>opts_env = env, opts_cluster = c, opts_policy = policy, opts_port = port,
      opts_serviceAccounts = serviceAccounts, opts_sni = sni, opts_clusterMode = mode,
      opts_direction = direction, opts_proxy = node, opts_meshExternal = meshExternal\<rparr> proxy)
     = TransportSocketMatches c"
  using assms
  by (simp_all add: applyTrafficPolicy_unfold Let_def missingKeyMaterial_def
        applyUpstreamTLSSettings_early_return)

lemma applyUpstreamTLSSettings_auto_tls:
  "TlsContext c = None \<Longrightarrow> Mode tls = ISTIO_MUTUAL \<Longrightarrow>
   TlsContext (applyUpstreamTLSSettings d env c (Some tls) autoDetected proxy) = None"
  by (simp add: applyUpstreamTLSSettings_def convertToTransportSocketMatch_def Let_def
      split: sum.splits)

lemma resolvedTLS_default:
  "resolvedTLS d env proxy (Some (buildDefaultTrafficPolicy env dt)) port [] [] meshExternal
     = (if meshExternal \<or> \<not> EnableAutoMtls (Mesh env) then (None, userSupplied)
        else (Some (buildIstioMutualTLS d [] [] proxy), autoDetected))"
  by (simp add: resolvedTLS_def select_default conditionallyConvertToIstioMtls_def
        autoTLSSettings_def Let_def)

lemma applyUpstreamTLSSettings_None:
  "applyUpstreamTLSSettings d env c None mtlsCtxType proxy = c"
  by (simp add: applyUpstreamTLSSettings_def)

lemma applyTrafficPolicy_default_tls:
  "TlsContext c = None \<Longrightarrow>
   TlsContext (applyTrafficPolicy d
     \<lparr>opts_env = env, opts_cluster = c, opts_policy = Some (buildDefaultTrafficPolicy env dt),
      opts_port = port, opts_serviceAccounts = [], opts_sni = [], opts_clusterMode = mode,
      opts_direction = direction, opts_proxy = node, opts_meshExternal = meshExternal\<rparr> proxy)
     = None"
  by (simp add: applyTrafficPolicy_unfold resolvedTLS_default Let_def
        applyUpstreamTLSSettings_auto_tls applyUpstreamTLSSettings_None buildIstioMutualTLS_def)

lemma buildDefaultCluster_tls:
  "TlsContext (buildDefaultCluster d env name dt eps direction proxy port meshExternal) = None"
  unfolding buildDefaultCluster_def Let_def
  by (rule applyTrafficPolicy_default_tls) (simp add: zeroCluster_def)

lemma outboundPortClusters_default_tls:
  assumes pp: "pluginsPreserve configgen (\<lambda>c. TlsContext c = None)"
    and r: "fst (resolvedTLS d env proxy
                  (DestinationRule.TrafficPolicy
                     (castDestinationRuleOrDefault (DestinationRule push proxy service)))
                  (Some port) (ServiceAccounts push (Hostname service) (Port.Port port))
                  (BuildDNSSrvSubsetKey TrafficDirectionOutbound [] (Hostname service)
                     (Port.Port port))
                  (MeshExternal service)) = Some tls"
    and mk: "missingKeyMaterial tls"
  shows "TlsContext (hd (outboundPortClusters d configgen env proxy push service port)) = None"
  apply (simp add: outboundPortClusters_def Let_def)
  apply (intro conjI impI)
   apply (rule callOutboundPlugins_preserve [OF pp])
   apply (simp add: applyTrafficPolicy_missing_key(1) [OF r mk] buildDefaultCluster_tls)
  apply (rule callOutboundPlugins_preserve [OF pp])
  apply (simp add: applyTrafficPolicy_missing_key(1) [OF r mk] buildDefaultCluster_tls)
  done

lemma select_tlsPolicy:
  "SelectTrafficPolicyComponents (Some (tlsPolicy tls)) port = (None, None, None, Some tls)"
  by (cases port) (simp_all add: SelectTrafficPolicyComponents_def tlsPolicy_def Let_def)

lemma resolvedTLS_tlsPolicy:
  "Mode tls \<noteq> ISTIO_MUTUAL \<Longrightarrow>
   resolvedTLS d env proxy (Some (tlsPolicy tls)) port serviceAccounts sni meshExternal
     = (Some tls, userSupplied)"
  by (simp add: resolvedTLS_def select_tlsPolicy conditionallyConvertToIstioMtls_def Let_def)

lemma applyTrafficPolicy_simple_sni:
  "Mode tls = SIMPLE \<Longrightarrow> mode \<noteq> SniDnatClusterMode \<Longrightarrow>
   map_option UpstreamTlsContext.Sni
     (TlsContext (applyTrafficPolicy d
        \<lparr>opts_env = env, opts_cluster = c, opts_policy = Some (tlsPolicy tls), opts_port = port,
         opts_serviceAccounts = serviceAccounts, opts_sni = sni, opts_clusterMode = mode,
         opts_direction = direction, opts_proxy = node, opts_meshExternal = meshExternal\<rparr> proxy))
     = Some (TLSSettings.Sni tls)"
  by (simp add: applyTrafficPolicy_unfold resolvedTLS_tlsPolicy Let_def applyUpstreamTLSSettings_def
        convertToTransportSocketMatch_def simpleTlsContext_def)

lemma applyTrafficPolicy_mutual_missing_key:
  "missingKeyMaterial tls \<Longrightarrow> Mode tls = MUTUAL \<Longrightarrow>
   TlsContext (applyTrafficPolicy d
     \<lparr>opts_env = env, opts_cluster = c, opts_policy = Some (tlsPolicy tls), opts_port = port,
      opts_serviceAccounts = serviceAccounts, opts_sni = sni, opts_clusterMode = mode,
      opts_direction = direction, opts_proxy = node, opts_meshExternal = meshExternal\<rparr> proxy)
     = TlsContext c"
  by (rule applyTrafficPolicy_missing_key(1) [where tls = tls])
     (simp_all add: resolvedTLS_tlsPolicy)

lemma missingKeyMaterial_brokenTls: "missingKeyMaterial brokenTls" "Mode brokenTls = MUTUAL"
  by (simp_all add: missingKeyMaterial_def brokenTls_def exampleTls_def)

text \<open>
  Claim C7, as stated, fails for a subset cluster.  The second example rule declares simple
  TLS at its root and, for its subset \<open>v1\<close>, mutual TLS without a client certificate and a
  private key.  The pass over the subset's policy resolves that setting and leaves the cluster
  as the pass over the root policy made it: the subset cluster is emitted with the TLS context
  of the root policy, not without one.
\<close>

theorem subset_keeps_root_tls_counterexample:
  "missingKeyMaterial brokenTls
   \<and> resolvedTLS exampleDeps exampleEnv exampleProxy (Some (tlsPolicy brokenTls))
       (Some examplePort) [] ''outbound_.80_.v1_.reviews.default.svc.cluster.local'' False
     = (Some brokenTls, userSupplied)
   \<and> map (\<lambda>sub. (Subset.Name sub, Subset.TrafficPolicy sub))
       (Subsets (Config.Spec brokenSubsetRule))
     = [(''v1'', Some (tlsPolicy brokenTls))]
   \<and> map (\<lambda>c. (Cluster.Name c, map_option UpstreamTlsContext.Sni (TlsContext c)))
       (outboundPortClusters exampleDeps exampleConfigGen exampleEnv exampleProxy
          (rulePush exampleService (Some brokenSubsetRule)) exampleService examplePort)
     = [(''outbound|80||reviews.default.svc.cluster.local'', Some ''reviews.example.com''),
        (''outbound|80|v1|reviews.default.svc.cluster.local'', Some ''reviews.example.com'')]"
proof (intro conjI)
  show "missingKeyMaterial brokenTls" by (rule missingKeyMaterial_brokenTls)
  show "resolvedTLS exampleDeps exampleEnv exampleProxy (Some (tlsPolicy brokenTls))
       (Some examplePort) [] ''outbound_.80_.v1_.reviews.default.svc.cluster.local'' False
     = (Some brokenTls, userSupplied)"
    by (rule resolvedTLS_tlsPolicy) (simp add: missingKeyMaterial_brokenTls)
  show "map (\<lambda>sub. (Subset.Name sub, Subset.TrafficPolicy sub))
       (Subsets (Config.Spec brokenSubsetRule))
     = [(''v1'', Some (tlsPolicy brokenTls))]"
    by (simp add: brokenSubsetRule_def exampleRule_def)
  have simple: "Mode exampleTls = SIMPLE" "TLSSettings.Sni exampleTls = ''reviews.example.com''"
    by (simp_all add: exampleTls_def)
  show "map (\<lambda>c. (Cluster.Name c, map_option UpstreamTlsContext.Sni (TlsContext c)))
       (outboundPortClusters exampleDeps exampleConfigGen exampleEnv exampleProxy
          (rulePush exampleService (Some brokenSubsetRule)) exampleService examplePort)
     = [(''outbound|80||reviews.default.svc.cluster.local'', Some ''reviews.example.com''),
        (''outbound|80|v1|reviews.default.svc.cluster.local'', Some ''reviews.example.com'')]"
    by (simp add: outboundPortClusters_def outboundSubsetCluster_def Let_def
          callOutboundPlugins_def exampleConfigGen_def rulePush_def examplePush_def
          brokenSubsetRule_def exampleRule_def castDestinationRuleOrDefault_def
          applyTrafficPolicy_simple_sni applyTrafficPolicy_mutual_missing_key
          missingKeyMaterial_brokenTls simple BuildSubsetKey_def Itoa_80
          exampleService_def examplePort_def)
qed

text \<open>
  Claim C7, amended.  When the TLS setting has mode Mutual or MeshMutual and its client
  certificate or its private key is empty, applying it returns the cluster it was given.  A
  pass of \<^verbatim>\<open>applyTrafficPolicy\<close> that resolves such a setting leaves the cluster's TLS context
  and its transport-socket matches as it found them: the TLS context stays unset if it was
  unset, and stays what an earlier pass made it otherwise.  In the outbound generator, when
  the root policy of the destination rule resolves such a setting for a port, the port's
  default cluster and one cluster for each subset are emitted under their keys, and the
  default cluster has no TLS context (provided the plugins keep the clusters' names and leave
  a cluster without TLS context without one).
\<close>

theorem missing_key_material_keeps_tls_context:
  "missingKeyMaterial tls \<longrightarrow>
     applyUpstreamTLSSettings d env cluster (Some tls) mtlsCtxType proxy = cluster
     \<and> (fst (resolvedTLS d (opts_env opts) (opts_proxy opts) (opts_policy opts) (opts_port opts)
               (opts_serviceAccounts opts) (opts_sni opts) (opts_meshExternal opts)) = Some tls
          \<longrightarrow>
          TlsContext (applyTrafficPolicy d opts node) = TlsContext (opts_cluster opts)
          \<and> TransportSocketMatches (applyTrafficPolicy d opts node)
              = TransportSocketMatches (opts_cluster opts))
     \<and> (pluginsKeepNames configgen \<and> pluginsPreserve configgen (\<lambda>c. TlsContext c = None)
          \<and> fst (resolvedTLS d env proxy
                    (DestinationRule.TrafficPolicy
                       (castDestinationRuleOrDefault (DestinationRule push proxy service)))
                    (Some port) (ServiceAccounts push (Hostname service) (Port.Port port))
                    (BuildDNSSrvSubsetKey TrafficDirectionOutbound [] (Hostname service)
                       (Port.Port port))
                    (MeshExternal service)) = Some tls
          \<longrightarrow>
          map Cluster.Name (outboundPortClusters d configgen env proxy push service port)
            = BuildSubsetKey TrafficDirectionOutbound [] (Hostname service) (Port.Port port)
              # map (\<lambda>sub. BuildSubsetKey TrafficDirectionOutbound (Subset.Name sub)
                              (Hostname service) (Port.Port port))
                  (Subsets (castDestinationRuleOrDefault (DestinationRule push proxy service)))
          \<and> TlsContext (hd (outboundPortClusters d configgen env proxy push service port)) = None)"
proof (intro impI conjI)
  assume mk: "missingKeyMaterial tls"
  then show "applyUpstreamTLSSettings d env cluster (Some tls) mtlsCtxType proxy = cluster"
    by (simp add: missingKeyMaterial_def applyUpstreamTLSSettings_early_return)
  {
    assume r: "fst (resolvedTLS d (opts_env opts) (opts_proxy opts) (opts_policy opts)
                 (opts_port opts) (opts_serviceAccounts opts) (opts_sni opts)
                 (opts_meshExternal opts)) = Some tls"
    obtain e c pol prt sa sni mode dir px me where
      opts: "opts = \<lparr>opts_env = e, opts_cluster = c, opts_policy = pol, opts_port = prt,
                     opts_serviceAccounts = sa, opts_sni = sni, opts_clusterMode = mode,
                     opts_direction = dir, opts_proxy = px, opts_meshExternal = me\<rparr>"
      by (cases opts) auto
    from r have r': "fst (resolvedTLS d e px pol prt sa sni me) = Some tls"
      by (simp add: opts)
    show "TlsContext (applyTrafficPolicy d opts node) = TlsContext (opts_cluster opts)"
      unfolding opts by (simp add: applyTrafficPolicy_missing_key(1) [OF r' mk])
    show "TransportSocketMatches (applyTrafficPolicy d opts node)
            = TransportSocketMatches (opts_cluster opts)"
      unfolding opts by (simp add: applyTrafficPolicy_missing_key(2) [OF r' mk])
  }
  {
    assume h: "pluginsKeepNames configgen \<and> pluginsPreserve configgen (\<lambda>c. TlsContext c = None)
          \<and> fst (resolvedTLS d env proxy
                    (DestinationRule.TrafficPolicy
                       (castDestinationRuleOrDefault (DestinationRule push proxy service)))
                    (Some port) (ServiceAccounts push (Hostname service) (Port.Port port))
                    (BuildDNSSrvSubsetKey TrafficDirectionOutbound [] (Hostname service)
                       (Port.Port port))
                    (MeshExternal service)) = Some tls"
    from h show "map Cluster.Name (outboundPortClusters d configgen env proxy push service port)
            = BuildSubsetKey TrafficDirectionOutbound [] (Hostname service) (Port.Port port)
              # map (\<lambda>sub. BuildSubsetKey TrafficDirectionOutbound (Subset.Name sub)
                              (Hostname service) (Port.Port port))
                  (Subsets (castDestinationRuleOrDefault (DestinationRule push proxy service)))"
      by (simp add: outboundPortClusters_names)
    from h mk show "TlsContext (hd (outboundPortClusters d configgen env proxy push service port))
            = None"
      by (simp add: outboundPortClusters_default_tls)
  }
qed

text \<open>The first example rule: mutual TLS without key material at the root.  The default
  cluster and the cluster of subset \<open>v1\<close> are emitted, the default cluster without TLS context;
  and the pass with the options of the second rule's subset keeps the context it finds.\<close>

theorem missing_key_material_keeps_tls_context_witness:
  "missingKeyMaterial brokenTls
   \<and> applyUpstreamTLSSettings exampleDeps exampleEnv
       (namedCluster ''outbound|80||reviews.default.svc.cluster.local'' Cluster_ROUND_ROBIN)
       (Some brokenTls) userSupplied exampleProxy
     = namedCluster ''outbound|80||reviews.default.svc.cluster.local'' Cluster_ROUND_ROBIN
   \<and> resolvedTLS exampleDeps exampleEnv exampleProxy (Some (tlsPolicy brokenTls))
       (Some examplePort) [] ''outbound_.80_.v1_.reviews.default.svc.cluster.local'' False
     = (Some brokenTls, userSupplied)
   \<and> map_option UpstreamTlsContext.Sni
       (TlsContext (applyTrafficPolicy exampleDeps brokenSubsetOpts exampleProxy))
     = Some ''reviews.example.com''
   \<and> resolvedTLS exampleDeps exampleEnv exampleProxy (Some (tlsPolicy brokenTls))
       (Some examplePort) [] ''outbound_.80_._.reviews.default.svc.cluster.local'' False
     = (Some brokenTls, userSupplied)
   \<and> map Cluster.Name
       (outboundPortClusters exampleDeps exampleConfigGen exampleEnv exampleProxy
          (rulePush exampleService (Some brokenRule)) exampleService examplePort)
     = [''outbound|80||reviews.default.svc.cluster.local'',
        ''outbound|80|v1|reviews.default.svc.cluster.local'']
   \<and> TlsContext
       (hd (outboundPortClusters exampleDeps exampleConfigGen exampleEnv exampleProxy
              (rulePush exampleService (Some brokenRule)) exampleService examplePort))
     = None"
  using missing_key_material_keeps_tls_context
          [where tls = brokenTls and d = exampleDeps and env = exampleEnv and proxy = exampleProxy
             and cluster = "namedCluster ''outbound|80||reviews.default.svc.cluster.local''
                              Cluster_ROUND_ROBIN"
             and mtlsCtxType = userSupplied and opts = brokenSubsetOpts and node = exampleProxy
             and configgen = exampleConfigGen
             and push = "rulePush exampleService (Some brokenRule)"
             and service = exampleService and port = examplePort]
  by (simp add: missingKeyMaterial_brokenTls resolvedTLS_tlsPolicy brokenSubsetOpts_def
        pluginsKeepNames_def pluginsPreserve_def exampleConfigGen_def rulePush_def
        examplePush_def brokenRule_def exampleRule_def castDestinationRuleOrDefault_def
        BuildSubsetKey_def BuildDNSSrvSubsetKey_def Itoa_80 exampleService_def examplePort_def
        simpleTlsContext_def exampleTls_def namedCluster_def)

subsection \<open>Auto-detected mesh-mutual TLS in the outbound generator\<close>

lemma applyTCPKeepalive_http2 [simp]:
  "Cluster.Http2ProtocolOptions (applyTCPKeepalive env c tcp) = Cluster.Http2ProtocolOptions c"
  by (simp add: applyTCPKeepalive_def Let_def split: option.splits prod.splits)

lemma tuning_http2 [simp]:
  "Cluster.Http2ProtocolOptions (applyConnectionPool env c settings direction)
     = Cluster.Http2ProtocolOptions c"
  "Cluster.Http2ProtocolOptions (applyOutlierDetection c outlier) = Cluster.Http2ProtocolOptions c"
  "Cluster.Http2ProtocolOptions (applyLoadBalancer d c lb port proxy)
     = Cluster.Http2ProtocolOptions c"
  "Cluster.Http2ProtocolOptions (applyUpstreamTLSSettings d env c tls ctx proxy)
     = Cluster.Http2ProtocolOptions c"
proof -
  show "Cluster.Http2ProtocolOptions (applyConnectionPool env c settings direction)
     = Cluster.Http2ProtocolOptions c"
    by (simp add: applyConnectionPool_def Let_def split: option.splits prod.splits)
  show "Cluster.Http2ProtocolOptions (applyOutlierDetection c outlier)
     = Cluster.Http2ProtocolOptions c"
    by (simp add: applyOutlierDetection_def Let_def split: option.splits)
  show "Cluster.Http2ProtocolOptions (applyLoadBalancer d c lb port proxy)
     = Cluster.Http2ProtocolOptions c"
    by (simp add: applyLoadBalancer_def Let_def split: option.splits SimpleLB.splits)
  show "Cluster.Http2ProtocolOptions (applyUpstreamTLSSettings d env c tls ctx proxy)
     = Cluster.Http2ProtocolOptions c"
    by (simp add: applyUpstreamTLSSettings_def convertToTransportSocketMatch_def Let_def
        split: option.splits TLSmode.splits sum.splits)
qed

lemma applyTrafficPolicy_http2 [simp]:
  "Cluster.Http2ProtocolOptions (applyTrafficPolicy d opts proxy)
     = Cluster.Http2ProtocolOptions (opts_cluster opts)"
  by (simp add: applyTrafficPolicy_def Let_def split: prod.splits)

lemma setUpstreamProtocol_http2:
  "Cluster.Http2ProtocolOptions c = Cluster.Http2ProtocolOptions c' \<Longrightarrow>
   Cluster.Http2ProtocolOptions (setUpstreamProtocol d node c port direction)
     = Cluster.Http2ProtocolOptions (setUpstreamProtocol d node c' port direction)"
  by (simp add: setUpstreamProtocol_def Let_def)

lemma autoTlsContext_cong:
  "Cluster.Name c = Cluster.Name c' \<Longrightarrow>
   Cluster.Http2ProtocolOptions c = Cluster.Http2ProtocolOptions c' \<Longrightarrow>
   autoTlsContext d env proxy c serviceAccounts sni
     = autoTlsContext d env proxy c' serviceAccounts sni"
  by (simp add: autoTlsContext_def mutualTlsContext_def Let_def)

lemma callOutboundPlugins_tls:
  assumes "pluginsKeepTLS configgen"
  shows "TlsContext (callOutboundPlugins configgen params c) = TlsContext c"
    and "TransportSocketMatches (callOutboundPlugins configgen params c)
           = TransportSocketMatches c"
proof -
  have "TlsContext (callOutboundPlugins configgen params c) = TlsContext c
        \<and> TransportSocketMatches (callOutboundPlugins configgen params c)
            = TransportSocketMatches c"
    unfolding callOutboundPlugins_def
    by (rule fold_preserve
              [where P = "\<lambda>c'. TlsContext c' = TlsContext c
                            \<and> TransportSocketMatches c' = TransportSocketMatches c"])
       (use assms in \<open>auto simp: pluginsKeepTLS_def\<close>)
  then show "TlsContext (callOutboundPlugins configgen params c) = TlsContext c"
    and "TransportSocketMatches (callOutboundPlugins configgen params c)
           = TransportSocketMatches c"
    by simp_all
qed

lemma applyUpstreamTLSSettings_auto:
  assumes "DefaultCertChain d \<noteq> []" "DefaultKey d \<noteq> []"
  shows "applyUpstreamTLSSettings d env c (Some (buildIstioMutualTLS d serviceAccounts sni proxy))
           autoDetected proxy =
     (case MarshalAny d (Some (autoTlsContext d env proxy c serviceAccounts sni)) of
        Inl err \<Rightarrow> c\<lparr>TlsContext := None\<rparr>
      | Inr tlsContext \<Rightarrow>
          c\<lparr>TlsContext := None,
            TransportSocketMatches :=
              [mtlsTransportSocketMatch tlsContext, plaintextTransportSocketMatch]\<rparr>)"
proof -
  let ?tls = "buildIstioMutualTLS d serviceAccounts sni proxy"
  have m: "Mode ?tls = ISTIO_MUTUAL" "ClientCertificate ?tls \<noteq> []" "TLSSettings.PrivateKey ?tls \<noteq> []"
    using assms buildIstioMutualTLS_material by blast+
  have u: "TlsContext (applyUpstreamTLSSettings d env c (Some ?tls) userSupplied proxy)
             = Some (autoTlsContext d env proxy c serviceAccounts sni)"
    using m
    by (simp add: applyUpstreamTLSSettings_def convertToTransportSocketMatch_def Let_def
          autoTlsContext_def)
  show ?thesis
    by (simp only: applyUpstreamTLSSettings_mesh_mutual(2) [OF m] u)
qed

lemma resolvedTLS_auto:
  "snd (snd (snd (SelectTrafficPolicyComponents policy port))) = None \<Longrightarrow>
   EnableAutoMtls (Mesh env) \<Longrightarrow> \<not> meshExternal \<Longrightarrow>
   resolvedTLS d env proxy policy port serviceAccounts sni meshExternal
     = (Some (buildIstioMutualTLS d serviceAccounts sni proxy), autoDetected)"
  by (simp add: resolvedTLS_def convert_auto)

lemma applyTrafficPolicy_auto:
  assumes "snd (snd (snd (SelectTrafficPolicyComponents policy port))) = None"
    and "EnableAutoMtls (Mesh env)" and "\<not> meshExternal" and "mode \<noteq> SniDnatClusterMode"
    and "DefaultCertChain d \<noteq> []" and "DefaultKey d \<noteq> []"
  shows "TlsContext (applyTrafficPolicy d
     \<lparr>opts_env = env, opts_cluster = c, opts_policy = policy, opts_port = port,
      opts_serviceAccounts = serviceAccounts, opts_sni = sni, opts_clusterMode = mode,
      opts_direction = direction, opts_proxy = node, opts_meshExternal = meshExternal\<rparr> proxy)
     = None"
    and "TransportSocketMatches (applyTrafficPolicy d
     \<lparr>opts_env = env, opts_cluster = c, opts_policy = policy, opts_port = port,
      opts_serviceAccounts = serviceAccounts, opts_sni = sni, opts_clusterMode = mode,
      opts_direction = direction, opts_proxy = node, opts_meshExternal = meshExternal\<rparr> proxy)
     = (case MarshalAny d (Some (autoTlsContext d env node c serviceAccounts sni)) of
          Inl err \<Rightarrow> TransportSocketMatches c
        | Inr tlsContext \<Rightarrow> [mtlsTransportSocketMatch tlsContext, plaintextTransportSocketMatch])"
proof -
  define T where "T =
    applyLoadBalancer d
      (applyOutlierDetection
         (applyConnectionPool env c (fst (SelectTrafficPolicyComponents policy port)) direction)
         (fst (snd (SelectTrafficPolicyComponents policy port))))
      (fst (snd (snd (SelectTrafficPolicyComponents policy port)))) port proxy"
  have T: "Cluster.Name T = Cluster.Name c"
    "Cluster.Http2ProtocolOptions T = Cluster.Http2ProtocolOptions c"
    "TransportSocketMatches T = TransportSocketMatches c"
    by (simp_all add: T_def)
  have ctx: "autoTlsContext d env node T serviceAccounts sni
               = autoTlsContext d env node c serviceAccounts sni"
    by (rule autoTlsContext_cong) (simp_all add: T)
  have ap: "applyTrafficPolicy d
     \<lparr>opts_env = env, opts_cluster = c, opts_policy = policy, opts_port = port,
      opts_serviceAccounts = serviceAccounts, opts_sni = sni, opts_clusterMode = mode,
      opts_direction = direction, opts_proxy = node, opts_meshExternal = meshExternal\<rparr> proxy
     = (case MarshalAny d (Some (autoTlsContext d env node c serviceAccounts sni)) of
          Inl err \<Rightarrow> T\<lparr>TlsContext := None\<rparr>
        | Inr tlsContext \<Rightarrow>
            T\<lparr>TlsContext := None,
              TransportSocketMatches :=
                [mtlsTransportSocketMatch tlsContext, plaintextTransportSocketMatch]\<rparr>)"
    using assms(4) ctx unfolding T_def
    by (simp add: applyTrafficPolicy_unfold Let_def resolvedTLS_auto [OF assms(1-3)]
          applyUpstreamTLSSettings_auto [OF assms(5,6)])
  show "TlsContext (applyTrafficPolicy d
     \<lparr>opts_env = env, opts_cluster = c, opts_policy = policy, opts_port = port,
      opts_serviceAccounts = serviceAccounts, opts_sni = sni, opts_clusterMode = mode,
      opts_direction = direction, opts_proxy = node, opts_meshExternal = meshExternal\<rparr> proxy)
     = None"
    unfolding ap by (simp split: sum.splits)
  show "TransportSocketMatches (applyTrafficPolicy d
     \<lparr>opts_env = env, opts_cluster = c, opts_policy = policy, opts_port = port,
      opts_serviceAccounts = serviceAccounts, opts_sni = sni, opts_clusterMode = mode,
      opts_direction = direction, opts_proxy = node, opts_meshExternal = meshExternal\<rparr> proxy)
     = (case MarshalAny d (Some (autoTlsContext d env node c serviceAccounts sni)) of
          Inl err \<Rightarrow> TransportSocketMatches c
        | Inr tlsContext \<Rightarrow> [mtlsTransportSocketMatch tlsContext, plaintextTransportSocketMatch])"
    unfolding ap by (simp add: T split: sum.splits)
qed

lemma select_default_tls:
  "snd (snd (snd (SelectTrafficPolicyComponents (Some (buildDefaultTrafficPolicy env dt)) port)))
     = None"
  by (simp add: select_default)

lemma buildDefaultCluster_auto_matches:
  assumes "EnableAutoMtls (Mesh env)" and "\<not> meshExternal"
    and "DefaultCertChain d \<noteq> []" and "DefaultKey d \<noteq> []"
  shows "TransportSocketMatches
           (buildDefaultCluster d env name dt eps direction proxy port meshExternal) =
     (case MarshalAny d
             (Some (autoTlsContext d env proxy (zeroCluster\<lparr>Cluster.Name := name\<rparr>) [] [])) of
        Inl err \<Rightarrow> []
      | Inr tlsContext \<Rightarrow> [mtlsTransportSocketMatch tlsContext, plaintextTransportSocketMatch])"
proof -
  define c where "c =
    (let cluster =
            zeroCluster\<lparr>Cluster.Name := name,
                        ClusterDiscoveryType := Some (Cluster_Type dt)\<rparr>;
          cluster =
            (if dt = Cluster_STRICT_DNS
             then cluster\<lparr>DnsLookupFamily := Cluster_V4_ONLY,
                          DnsRefreshRate := DurationToProtoDuration (MeshConfig.DnsRefreshRate (Mesh env)),
                          RespectDnsTtl :=
                            (if IsIstioVersionGE13 d proxy \<and> RespectDNSTTL d then True
                             else RespectDnsTtl cluster)\<rparr>
             else cluster)
     in (if dt = Cluster_STATIC \<or> dt = Cluster_STRICT_DNS
         then cluster\<lparr>LoadAssignment :=
                Some \<lparr>ClusterName = name, Endpoints = eps\<rparr>\<rparr>
         else cluster))"
  have c: "Cluster.Name c = name" "Cluster.Http2ProtocolOptions c = None"
    "TransportSocketMatches c = []"
    by (simp_all add: c_def Let_def zeroCluster_def)
  have ctx: "autoTlsContext d env proxy c [] []
               = autoTlsContext d env proxy (zeroCluster\<lparr>Cluster.Name := name\<rparr>) [] []"
    by (rule autoTlsContext_cong) (simp_all add: c zeroCluster_def)
  have m: "DefaultClusterMode \<noteq> SniDnatClusterMode" by simp
  have bd: "buildDefaultCluster d env name dt eps direction proxy port meshExternal =
      applyTrafficPolicy d
        \<lparr>opts_env = env, opts_cluster = c,
         opts_policy = Some (buildDefaultTrafficPolicy env dt),
         opts_port = port, opts_serviceAccounts = [], opts_sni = [],
         opts_clusterMode = DefaultClusterMode, opts_direction = direction,
         opts_proxy = proxy, opts_meshExternal = meshExternal\<rparr> proxy"
    by (simp only: buildDefaultCluster_def c_def Let_def)
  show ?thesis
    unfolding bd applyTrafficPolicy_auto(2) [OF select_default_tls assms(1,2) m assms(3,4)] ctx c(3)
    by (rule refl)
qed

lemma buildDefaultCluster_http2 [simp]:
  "Cluster.Http2ProtocolOptions
     (buildDefaultCluster d env name dt eps direction proxy port meshExternal) = None"
  by (simp add: buildDefaultCluster_def Let_def zeroCluster_def)

lemma outboundPortClusters_pass_auto:
  assumes pk: "pluginsKeepTLS configgen"
    and facet: "snd (snd (snd (SelectTrafficPolicyComponents policy (Some port)))) = None"
    and auto: "EnableAutoMtls (Mesh env)" and inside: "\<not> meshExternal"
    and certs: "DefaultCertChain d \<noteq> []" "DefaultKey d \<noteq> []"
    and b: "Cluster.Http2ProtocolOptions b = None"
  shows "TlsContext
      (callOutboundPlugins configgen params
         (updateEds d
            ((applyTrafficPolicy d
                \<lparr>opts_env = env,
                 opts_cluster = setUpstreamProtocol d proxy b port direction,
                 opts_policy = policy, opts_port = Some port,
                 opts_serviceAccounts = serviceAccounts, opts_sni = sni,
                 opts_clusterMode = DefaultClusterMode, opts_direction = direction,
                 opts_proxy = proxy, opts_meshExternal = meshExternal\<rparr> proxy)
             \<lparr>Cluster.Metadata := metadata\<rparr>))) = None"
    and "TransportSocketMatches
      (callOutboundPlugins configgen params
         (updateEds d
            ((applyTrafficPolicy d
                \<lparr>opts_env = env,
                 opts_cluster = setUpstreamProtocol d proxy b port direction,
                 opts_policy = policy, opts_port = Some port,
                 opts_serviceAccounts = serviceAccounts, opts_sni = sni,
                 opts_clusterMode = DefaultClusterMode, opts_direction = direction,
                 opts_proxy = proxy, opts_meshExternal = meshExternal\<rparr> proxy)
             \<lparr>Cluster.Metadata := metadata\<rparr>))) =
      (case MarshalAny d
              (Some (autoTlsContext d env proxy
                       (setUpstreamProtocol d proxy (zeroCluster\<lparr>Cluster.Name := Cluster.Name b\<rparr>)
                          port direction)
                       serviceAccounts sni)) of
         Inl err \<Rightarrow> TransportSocketMatches b
       | Inr tlsContext \<Rightarrow> [mtlsTransportSocketMatch tlsContext, plaintextTransportSocketMatch])"
proof -
  have m: "DefaultClusterMode \<noteq> SniDnatClusterMode" by simp
  have ctx: "autoTlsContext d env proxy (setUpstreamProtocol d proxy b port direction)
               serviceAccounts sni
             = autoTlsContext d env proxy
                 (setUpstreamProtocol d proxy (zeroCluster\<lparr>Cluster.Name := Cluster.Name b\<rparr>)
                    port direction)
                 serviceAccounts sni"
    by (rule autoTlsContext_cong, simp, rule setUpstreamProtocol_http2)
       (simp add: b zeroCluster_def)
  note ap = applyTrafficPolicy_auto [OF facet auto inside m certs]
  show "TlsContext
      (callOutboundPlugins configgen params
         (updateEds d
            ((applyTrafficPolicy d
                \<lparr>opts_env = env,
                 opts_cluster = setUpstreamProtocol d proxy b port direction,
                 opts_policy = policy, opts_port = Some port,
                 opts_serviceAccounts = serviceAccounts, opts_sni = sni,
                 opts_clusterMode = DefaultClusterMode, opts_direction = direction,
                 opts_proxy = proxy, opts_meshExternal = meshExternal\<rparr> proxy)
             \<lparr>Cluster.Metadata := metadata\<rparr>))) = None"
    by (simp add: callOutboundPlugins_tls [OF pk] ap)
  show "TransportSocketMatches
      (callOutboundPlugins configgen params
         (updateEds d
            ((applyTrafficPolicy d
                \<lparr>opts_env = env,
                 opts_cluster = setUpstreamProtocol d proxy b port direction,
                 opts_policy = policy, opts_port = Some port,
                 opts_serviceAccounts = serviceAccounts, opts_sni = sni,
                 opts_clusterMode = DefaultClusterMode, opts_direction = direction,
                 opts_proxy = proxy, opts_meshExternal = meshExternal\<rparr> proxy)
             \<lparr>Cluster.Metadata := metadata\<rparr>))) =
      (case MarshalAny d
              (Some (autoTlsContext d env proxy
                       (setUpstreamProtocol d proxy (zeroCluster\<lparr>Cluster.Name := Cluster.Name b\<rparr>)
                          port direction)
                       serviceAccounts sni)) of
         Inl err \<Rightarrow> TransportSocketMatches b
       | Inr tlsContext \<Rightarrow> [mtlsTransportSocketMatch tlsContext, plaintextTransportSocketMatch])"
    by (simp add: callOutboundPlugins_tls [OF pk] ap ctx cong: sum.case_cong)
qed

lemma outboundPortClusters_auto_mtls:
  assumes pk: "pluginsKeepTLS configgen"
    and certs: "DefaultCertChain d \<noteq> []" "DefaultKey d \<noteq> []"
    and auto: "EnableAutoMtls (Mesh env)" and inside: "\<not> MeshExternal service"
    and facet: "snd (snd (snd (SelectTrafficPolicyComponents
                  (DestinationRule.TrafficPolicy
                     (castDestinationRuleOrDefault (DestinationRule push proxy service)))
                  (Some port)))) = None"
  shows "TlsContext (hd (outboundPortClusters d configgen env proxy push service port)) = None"
    and "TransportSocketMatches (hd (outboundPortClusters d configgen env proxy push service port)) =
      (case MarshalAny d
              (Some (autoTlsContext d env proxy
                       (setUpstreamProtocol d proxy
                          (zeroCluster\<lparr>Cluster.Name :=
                             BuildSubsetKey TrafficDirectionOutbound [] (Hostname service)
                               (Port.Port port)\<rparr>)
                          port TrafficDirectionOutbound)
                       (ServiceAccounts push (Hostname service) (Port.Port port))
                       (BuildDNSSrvSubsetKey TrafficDirectionOutbound [] (Hostname service)
                          (Port.Port port)))) of
         Inr tlsContext \<Rightarrow> [mtlsTransportSocketMatch tlsContext, plaintextTransportSocketMatch]
       | Inl err \<Rightarrow>
           (case MarshalAny d
                   (Some (autoTlsContext d env proxy
                            (zeroCluster\<lparr>Cluster.Name :=
                               BuildSubsetKey TrafficDirectionOutbound [] (Hostname service)
                                 (Port.Port port)\<rparr>)
                            [] [])) of
              Inr tlsContext \<Rightarrow>
                [mtlsTransportSocketMatch tlsContext, plaintextTransportSocketMatch]
            | Inl err \<Rightarrow> []))"
proof -
  note pass = outboundPortClusters_pass_auto [OF pk facet auto inside certs]
  note dflt = buildDefaultCluster_auto_matches [OF auto inside certs]
  show "TlsContext (hd (outboundPortClusters d configgen env proxy push service port)) = None"
    by (simp add: outboundPortClusters_def Let_def pass(1))
  show "TransportSocketMatches (hd (outboundPortClusters d configgen env proxy push service port)) =
      (case MarshalAny d
              (Some (autoTlsContext d env proxy
                       (setUpstreamProtocol d proxy
                          (zeroCluster\<lparr>Cluster.Name :=
                             BuildSubsetKey TrafficDirectionOutbound [] (Hostname service)
                               (Port.Port port)\<rparr>)
                          port TrafficDirectionOutbound)
                       (ServiceAccounts push (Hostname service) (Port.Port port))
                       (BuildDNSSrvSubsetKey TrafficDirectionOutbound [] (Hostname service)
                          (Port.Port port)))) of
         Inr tlsContext \<Rightarrow> [mtlsTransportSocketMatch tlsContext, plaintextTransportSocketMatch]
       | Inl err \<Rightarrow>
           (case MarshalAny d
                   (Some (autoTlsContext d env proxy
                            (zeroCluster\<lparr>Cluster.Name :=
                               BuildSubsetKey TrafficDirectionOutbound [] (Hostname service)
                                 (Port.Port port)\<rparr>)
                            [] [])) of
              Inr tlsContext \<Rightarrow>
                [mtlsTransportSocketMatch tlsContext, plaintextTransportSocketMatch]
            | Inl err \<Rightarrow> []))"
    by (simp add: outboundPortClusters_def Let_def pass(2) dflt cong: sum.case_cong)
qed

lemma Sni_autoTlsContext:
  "UpstreamTlsContext.Sni (autoTlsContext d env proxy c serviceAccounts sni)
     = (if sni = [] then Cluster.Name c else sni)"
  by (simp add: autoTlsContext_def mutualTlsContext_def buildIstioMutualTLS_def Let_def)

lemma strictMarshalDeps_rejects:
  "CHR 0xFF \<in> set (UpstreamTlsContext.Sni ctx) \<Longrightarrow>
   MarshalAny strictMarshalDeps (Some ctx) = Inl ''proto: invalid UTF-8 string''"
  by (simp add: strictMarshalDeps_def contextStrings_def)

lemma strictMarshalDeps_material:
  "DefaultCertChain strictMarshalDeps \<noteq> []" "DefaultKey strictMarshalDeps \<noteq> []"
  by (simp_all add: strictMarshalDeps_def exampleDeps_def)

lemma no_rule_no_tls_facet:
  "snd (snd (snd (SelectTrafficPolicyComponents
     (DestinationRule.TrafficPolicy
        (castDestinationRuleOrDefault (DestinationRule (rulePush service None) proxy service)))
     port))) = None"
  by (simp add: rulePush_def castDestinationRuleOrDefault_def defaultDestinationRule_def
        SelectTrafficPolicyComponents_def)

text \<open>
  Claim C5, as stated, fails where the resolved context cannot be marshalled.  The mesh has
  auto-mTLS enabled, the service is inside the mesh and has no destination rule, so that the
  TLS mode is auto-synthesized; its host name holds the byte \<open>0xFF\<close>, which goes into the SNI
  of the resolved context, and the marshaller rejects the context.  The outbound generator
  emits the port's cluster with no TLS context and no transport-socket match at all.
\<close>

theorem auto_mtls_unmarshallable_context_counterexample:
  "EnableAutoMtls (Mesh autoMtlsEnv) = True
   \<and> MeshExternal binaryHostService = False
   \<and> DestinationRule (rulePush binaryHostService None) exampleProxy binaryHostService = None
   \<and> map Cluster.Name
       (outboundPortClusters strictMarshalDeps exampleConfigGen autoMtlsEnv exampleProxy
          (rulePush binaryHostService None) binaryHostService examplePort)
     = [''outbound|80||'' @ CHR 0xFF # ''.default.svc.cluster.local'']
   \<and> TlsContext
       (hd (outboundPortClusters strictMarshalDeps exampleConfigGen autoMtlsEnv exampleProxy
              (rulePush binaryHostService None) binaryHostService examplePort))
     = None
   \<and> TransportSocketMatches
       (hd (outboundPortClusters strictMarshalDeps exampleConfigGen autoMtlsEnv exampleProxy
              (rulePush binaryHostService None) binaryHostService examplePort))
     = []"
proof -
  have pk: "pluginsKeepTLS exampleConfigGen"
    by (simp add: pluginsKeepTLS_def exampleConfigGen_def)
  have pn: "pluginsKeepNames exampleConfigGen"
    by (simp add: pluginsKeepNames_def exampleConfigGen_def)
  have auto: "EnableAutoMtls (Mesh autoMtlsEnv)"
    by (simp add: autoMtlsEnv_def)
  have inside: "\<not> MeshExternal binaryHostService"
    by (simp add: binaryHostService_def exampleService_def)
  note g = outboundPortClusters_auto_mtls
             [OF pk strictMarshalDeps_material auto inside no_rule_no_tls_facet,
              of exampleProxy examplePort]
  have r2: "MarshalAny strictMarshalDeps
      (Some (autoTlsContext strictMarshalDeps autoMtlsEnv exampleProxy
               (setUpstreamProtocol strictMarshalDeps exampleProxy
                  (zeroCluster\<lparr>Cluster.Name :=
                     BuildSubsetKey TrafficDirectionOutbound [] (Hostname binaryHostService)
                       (Port.Port examplePort)\<rparr>)
                  examplePort TrafficDirectionOutbound)
               (ServiceAccounts (rulePush binaryHostService None) (Hostname binaryHostService)
                  (Port.Port examplePort))
               (BuildDNSSrvSubsetKey TrafficDirectionOutbound [] (Hostname binaryHostService)
                  (Port.Port examplePort))))
      = Inl ''proto: invalid UTF-8 string''"
    by (rule strictMarshalDeps_rejects)
       (simp add: Sni_autoTlsContext BuildDNSSrvSubsetKey_def binaryHostService_def)
  have r1: "MarshalAny strictMarshalDeps
      (Some (autoTlsContext strictMarshalDeps autoMtlsEnv exampleProxy
               (zeroCluster\<lparr>Cluster.Name :=
                  BuildSubsetKey TrafficDirectionOutbound [] (Hostname binaryHostService)
                    (Port.Port examplePort)\<rparr>)
               [] []))
      = Inl ''proto: invalid UTF-8 string''"
    by (rule strictMarshalDeps_rejects)
       (simp add: Sni_autoTlsContext BuildSubsetKey_def binaryHostService_def)
  have names: "map Cluster.Name
       (outboundPortClusters strictMarshalDeps exampleConfigGen autoMtlsEnv exampleProxy
          (rulePush binaryHostService None) binaryHostService examplePort)
     = [''outbound|80||'' @ CHR 0xFF # ''.default.svc.cluster.local'']"
    by (simp add: outboundPortClusters_names [OF pn] rulePush_def castDestinationRuleOrDefault_def
          defaultDestinationRule_def BuildSubsetKey_def Itoa_80 binaryHostService_def
          examplePort_def)
  have tls: "TlsContext
       (hd (outboundPortClusters strictMarshalDeps exampleConfigGen autoMtlsEnv exampleProxy
              (rulePush binaryHostService None) binaryHostService examplePort)) = None"
    by (rule g(1))
  have tsm: "TransportSocketMatches
       (hd (outboundPortClusters strictMarshalDeps exampleConfigGen autoMtlsEnv exampleProxy
              (rulePush binaryHostService None) binaryHostService examplePort)) = []"
    unfolding g(2) r2 r1 by simp
  have rule: "DestinationRule (rulePush binaryHostService None) exampleProxy binaryHostService
                = None"
    by (simp add: rulePush_def)
  from auto inside rule names tls tsm show ?thesis by simp
qed

text \<open>
  Claim C5, amended.  When the TLS mode was auto-synthesized (TLS intent absent, auto-mTLS
  enabled, service not mesh-external; the default certificate-chain and key paths are not
  empty), the resolved TLS context, which is the context a user-supplied setting would have
  put on the cluster, is not attached: the cluster's own TLS context is cleared, whatever the
  marshaller answers.  When marshalling that context succeeds, the transport-socket-match list
  is exactly two entries: the first, named \<^verbatim>\<open>mtls\<close>, is keyed on the mTLS-ready label with
  value \<^verbatim>\<open>true\<close> and carries the TLS socket with the marshalled context, the second is the
  plaintext raw-buffer match with an empty key.  When marshalling fails the list is left as it
  was before the call.

  In the outbound generator the default cluster of a port of such a service goes through two
  such applications, the first within \<^verbatim>\<open>buildDefaultCluster\<close>, without service accounts and
  with the cluster name as SNI, the second with the port's service accounts and SNI.  Provided
  that the plugins keep TLS context and transport-socket matches, the cluster has no TLS
  context, and its match list is the two-entry list that carries the second context when
  that can be marshalled, else the two-entry list that carries the first context when that
  can be marshalled, else empty.
\<close>

theorem auto_mtls_transport_socket_matches:
  "DefaultCertChain d \<noteq> [] \<and> DefaultKey d \<noteq> [] \<longrightarrow>
   (case conditionallyConvertToIstioMtls d None serviceAccounts sni proxy True False of
      (tls, mtlsCtxType) \<Rightarrow>
        mtlsCtxType = autoDetected
        \<and> TlsContext (applyUpstreamTLSSettings d env cluster tls userSupplied proxy) \<noteq> None
        \<and> TlsContext (applyUpstreamTLSSettings d env cluster tls mtlsCtxType proxy) = None
        \<and> TransportSocketMatches (applyUpstreamTLSSettings d env cluster tls mtlsCtxType proxy) =
            (case MarshalAny d
                    (TlsContext (applyUpstreamTLSSettings d env cluster tls userSupplied proxy)) of
               Inl err \<Rightarrow> TransportSocketMatches cluster
             | Inr tlsContext \<Rightarrow>
                 [mtlsTransportSocketMatch tlsContext, plaintextTransportSocketMatch]))
   \<and> (pluginsKeepTLS configgen \<and> EnableAutoMtls (Mesh env) \<and> \<not> MeshExternal service
        \<and> snd (snd (snd (SelectTrafficPolicyComponents
                  (DestinationRule.TrafficPolicy
                     (castDestinationRuleOrDefault (DestinationRule push proxy service)))
                  (Some port)))) = None
      \<longrightarrow>
        TlsContext (hd (outboundPortClusters d configgen env proxy push service port)) = None
        \<and> TransportSocketMatches (hd (outboundPortClusters d configgen env proxy push service port)) =
            (case MarshalAny d
                    (Some (autoTlsContext d env proxy
                             (setUpstreamProtocol d proxy
                                (zeroCluster\<lparr>Cluster.Name :=
                                   BuildSubsetKey TrafficDirectionOutbound [] (Hostname service)
                                     (Port.Port port)\<rparr>)
                                port TrafficDirectionOutbound)
                             (ServiceAccounts push (Hostname service) (Port.Port port))
                             (BuildDNSSrvSubsetKey TrafficDirectionOutbound [] (Hostname service)
                                (Port.Port port)))) of
               Inr tlsContext \<Rightarrow>
                 [mtlsTransportSocketMatch tlsContext, plaintextTransportSocketMatch]
             | Inl err \<Rightarrow>
                 (case MarshalAny d
                         (Some (autoTlsContext d env proxy
                                  (zeroCluster\<lparr>Cluster.Name :=
                                     BuildSubsetKey TrafficDirectionOutbound [] (Hostname service)
                                       (Port.Port port)\<rparr>)
                                  [] [])) of
                    Inr tlsContext \<Rightarrow>
                      [mtlsTransportSocketMatch tlsContext, plaintextTransportSocketMatch]
                  | Inl err \<Rightarrow> [])))"
proof (intro impI conjI)
  assume a: "DefaultCertChain d \<noteq> [] \<and> DefaultKey d \<noteq> []"
  let ?tls = "buildIstioMutualTLS d serviceAccounts sni proxy"
  have m: "Mode ?tls = ISTIO_MUTUAL" "ClientCertificate ?tls \<noteq> []" "TLSSettings.PrivateKey ?tls \<noteq> []"
    using a buildIstioMutualTLS_material by blast+
  show "case conditionallyConvertToIstioMtls d None serviceAccounts sni proxy True False of
      (tls, mtlsCtxType) \<Rightarrow>
        mtlsCtxType = autoDetected
        \<and> TlsContext (applyUpstreamTLSSettings d env cluster tls userSupplied proxy) \<noteq> None
        \<and> TlsContext (applyUpstreamTLSSettings d env cluster tls mtlsCtxType proxy) = None
        \<and> TransportSocketMatches (applyUpstreamTLSSettings d env cluster tls mtlsCtxType proxy) =
            (case MarshalAny d
                    (TlsContext (applyUpstreamTLSSettings d env cluster tls userSupplied proxy)) of
               Inl err \<Rightarrow> TransportSocketMatches cluster
             | Inr tlsContext \<Rightarrow>
                 [mtlsTransportSocketMatch tlsContext, plaintextTransportSocketMatch])"
    unfolding convert_auto prod.case
    using applyUpstreamTLSSettings_mesh_mutual(1) [OF m, of d env cluster proxy]
    by (simp add: applyUpstreamTLSSettings_mesh_mutual(2) [OF m] split: sum.splits)
  assume h: "pluginsKeepTLS configgen \<and> EnableAutoMtls (Mesh env) \<and> \<not> MeshExternal service
        \<and> snd (snd (snd (SelectTrafficPolicyComponents
                  (DestinationRule.TrafficPolicy
                     (castDestinationRuleOrDefault (DestinationRule push proxy service)))
                  (Some port)))) = None"
  from a h have pk: "pluginsKeepTLS configgen"
    and certs: "DefaultCertChain d \<noteq> []" "DefaultKey d \<noteq> []"
    and auto: "EnableAutoMtls (Mesh env)" and inside: "\<not> MeshExternal service"
    and facet: "snd (snd (snd (SelectTrafficPolicyComponents
                  (DestinationRule.TrafficPolicy
                     (castDestinationRuleOrDefault (DestinationRule push proxy service)))
                  (Some port)))) = None"
    by simp_all
  show "TlsContext (hd (outboundPortClusters d configgen env proxy push service port)) = None"
    by (rule outboundPortClusters_auto_mtls(1) [OF pk certs auto inside facet])
  show "TransportSocketMatches (hd (outboundPortClusters d configgen env proxy push service port)) =
            (case MarshalAny d
                    (Some (autoTlsContext d env proxy
                             (setUpstreamProtocol d proxy
                                (zeroCluster\<lparr>Cluster.Name :=
                                   BuildSubsetKey TrafficDirectionOutbound [] (Hostname service)
                                     (Port.Port port)\<rparr>)
                                port TrafficDirectionOutbound)
                             (ServiceAccounts push (Hostname service) (Port.Port port))
                             (BuildDNSSrvSubsetKey TrafficDirectionOutbound [] (Hostname service)
                                (Port.Port port)))) of
               Inr tlsContext \<Rightarrow>
                 [mtlsTransportSocketMatch tlsContext, plaintextTransportSocketMatch]
             | Inl err \<Rightarrow>
                 (case MarshalAny d
                         (Some (autoTlsContext d env proxy
                                  (zeroCluster\<lparr>Cluster.Name :=
                                     BuildSubsetKey TrafficDirectionOutbound [] (Hostname service)
                                       (Port.Port port)\<rparr>)
                                  [] [])) of
                    Inr tlsContext \<Rightarrow>
                      [mtlsTransportSocketMatch tlsContext, plaintextTransportSocketMatch]
                  | Inl err \<Rightarrow> []))"
    by (rule outboundPortClusters_auto_mtls(2) [OF pk certs auto inside facet])
qed

text \<open>The example service in the mesh with auto-mTLS, and the marshaller that rejects only
  what is not UTF-8: the list has its two entries and the TLS context is unset, for the bare
  cluster and for the cluster that the outbound generator emits.\<close>

theorem auto_mtls_transport_socket_matches_witness:
  "TlsContext
       (applyUpstreamTLSSettings strictMarshalDeps autoMtlsEnv
          (namedCluster ''outbound|80||reviews.default.svc.cluster.local'' Cluster_ROUND_ROBIN)
          (fst (conditionallyConvertToIstioMtls strictMarshalDeps None []
                  ''outbound_.80_._.reviews.default.svc.cluster.local'' exampleProxy True False))
          autoDetected exampleProxy)
     = None
   \<and> TransportSocketMatches
       (applyUpstreamTLSSettings strictMarshalDeps autoMtlsEnv
          (namedCluster ''outbound|80||reviews.default.svc.cluster.local'' Cluster_ROUND_ROBIN)
          (fst (conditionallyConvertToIstioMtls strictMarshalDeps None []
                  ''outbound_.80_._.reviews.default.svc.cluster.local'' exampleProxy True False))
          autoDetected exampleProxy)
     = [mtlsTransportSocketMatch
          \<lparr>TypeUrl = ''type.googleapis.com/envoy.api.v2.auth.UpstreamTlsContext'', Value = []\<rparr>,
        plaintextTransportSocketMatch]
   \<and> TlsContext
       (hd (outboundPortClusters strictMarshalDeps exampleConfigGen autoMtlsEnv exampleProxy
              (rulePush exampleService None) exampleService examplePort))
     = None
   \<and> TransportSocketMatches
       (hd (outboundPortClusters strictMarshalDeps exampleConfigGen autoMtlsEnv exampleProxy
              (rulePush exampleService None) exampleService examplePort))
     = [mtlsTransportSocketMatch
          \<lparr>TypeUrl = ''type.googleapis.com/envoy.api.v2.auth.UpstreamTlsContext'', Value = []\<rparr>,
        plaintextTransportSocketMatch]"
proof -
  note t = auto_mtls_transport_socket_matches
          [where d = strictMarshalDeps and env = autoMtlsEnv and proxy = exampleProxy
             and serviceAccounts = "[]"
             and sni = "''outbound_.80_._.reviews.default.svc.cluster.local''"
             and cluster = "namedCluster ''outbound|80||reviews.default.svc.cluster.local''
                              Cluster_ROUND_ROBIN"
             and configgen = exampleConfigGen and push = "rulePush exampleService None"
             and service = exampleService and port = examplePort]
  have hyps: "pluginsKeepTLS exampleConfigGen" "EnableAutoMtls (Mesh autoMtlsEnv)"
    "\<not> MeshExternal exampleService"
    by (simp_all add: pluginsKeepTLS_def exampleConfigGen_def autoMtlsEnv_def exampleService_def)
  have a1: "MarshalAny strictMarshalDeps
      (TlsContext (applyUpstreamTLSSettings strictMarshalDeps autoMtlsEnv
         (namedCluster ''outbound|80||reviews.default.svc.cluster.local'' Cluster_ROUND_ROBIN)
         (Some (buildIstioMutualTLS strictMarshalDeps []
                  ''outbound_.80_._.reviews.default.svc.cluster.local'' exampleProxy))
         userSupplied exampleProxy))
      = Inr \<lparr>TypeUrl = ''type.googleapis.com/envoy.api.v2.auth.UpstreamTlsContext'', Value = []\<rparr>"
    by (simp add: applyUpstreamTLSSettings_def convertToTransportSocketMatch_def Let_def
          strictMarshalDeps_def exampleDeps_def contextStrings_def validationStrings_def
          mutualTlsContext_def certValidationContextOf_def buildIstioMutualTLS_def
          GetOrDefault_def exampleProxy_def autoMtlsEnv_def exampleEnv_def exampleMesh_def
          emptyCommonTlsContext_def namedCluster_def zeroCluster_def)
  have a2: "MarshalAny strictMarshalDeps
      (Some (autoTlsContext strictMarshalDeps autoMtlsEnv exampleProxy
               (setUpstreamProtocol strictMarshalDeps exampleProxy
                  (zeroCluster\<lparr>Cluster.Name :=
                     BuildSubsetKey TrafficDirectionOutbound [] (Hostname exampleService)
                       (Port.Port examplePort)\<rparr>)
                  examplePort TrafficDirectionOutbound)
               (ServiceAccounts (rulePush exampleService None) (Hostname exampleService)
                  (Port.Port examplePort))
               (BuildDNSSrvSubsetKey TrafficDirectionOutbound [] (Hostname exampleService)
                  (Port.Port examplePort))))
      = Inr \<lparr>TypeUrl = ''type.googleapis.com/envoy.api.v2.auth.UpstreamTlsContext'', Value = []\<rparr>"
    by (simp add: strictMarshalDeps_def exampleDeps_def contextStrings_def validationStrings_def
          autoTlsContext_def mutualTlsContext_def certValidationContextOf_def
          buildIstioMutualTLS_def GetOrDefault_def exampleProxy_def autoMtlsEnv_def
          exampleEnv_def exampleMesh_def emptyCommonTlsContext_def Let_def
          BuildDNSSrvSubsetKey_def BuildSubsetKey_def Itoa_80 exampleService_def examplePort_def
          rulePush_def examplePush_def)
  from t show ?thesis
    by (simp add: strictMarshalDeps_material hyps no_rule_no_tls_facet convert_auto a1 a2)
qed

subsection \<open>Runs of the orchestrator on the example inputs\<close>




















end
